theory Spec2Isabelle
  imports Complex_Main "HOL-Library.Log_Nat"
begin

section \<open>JavaScript values\<close>

text \<open>
  Both route handlers work on untyped JSON data (\<^verbatim>\<open>any\<close> in the source): the request
  body and the value recovered from the model's answer. A value is one of the JavaScript
  data values that \<^verbatim>\<open>JSON.parse\<close> and the operators of the handlers can produce.

  Numbers are IEEE 754 doubles. A finite double is represented by its exact rational
  value; \<open>Fin 0\<close> is \<open>+0\<close> and \<open>NZero\<close> is \<open>-0\<close>.

  Strings are byte sequences in UTF-8; a surrogate that stands alone is written in three
  bytes like any other code point below \<open>2^16\<close>, and a high surrogate is never followed
  by a low one (the two are one character, in four bytes). An object is the association
  list of its own properties; the first binding of a key is the property's value.
\<close>

datatype jsnum = NaN | PInf | NInf | NZero | Fin rat

datatype js =
    JUndefined
  | JNull
  | JBool bool
  | JNum jsnum
  | JStr string
  | JArr "js list"
  | JObj "(string \<times> js) list"

text \<open>What a \<^verbatim>\<open>throw\<close> carries to the handler's \<^verbatim>\<open>catch\<close> block.\<close>

datatype exn = TypeError | SyntaxError | Error string | UpstreamError

definition tryE :: "exn + 'a \<Rightarrow> ('a \<Rightarrow> exn + 'b) \<Rightarrow> exn + 'b" where
  "tryE r f = (case r of Inl e \<Rightarrow> Inl e | Inr v \<Rightarrow> f v)"

text \<open>Truthiness (\<^verbatim>\<open>ToBoolean\<close>), as used by \<^verbatim>\<open>!x\<close> and \<^verbatim>\<open>x || y\<close>.\<close>

fun truthy :: "js \<Rightarrow> bool" where
  "truthy JUndefined = False"
| "truthy JNull = False"
| "truthy (JBool b) = b"
| "truthy (JNum NaN) = False"
| "truthy (JNum NZero) = False"
| "truthy (JNum (Fin r)) = (r \<noteq> 0)"
| "truthy (JNum _) = True"
| "truthy (JStr s) = (s \<noteq> [])"
| "truthy (JArr _) = True"
| "truthy (JObj _) = True"

definition js_or :: "js \<Rightarrow> js \<Rightarrow> js" where
  "js_or a b = (if truthy a then a else b)"

subsection \<open>Property reads\<close>

definition is_digit :: "char \<Rightarrow> bool" where
  "is_digit c = (48 \<le> (of_char c :: nat) \<and> (of_char c :: nat) \<le> 57)"

definition digit_val :: "char \<Rightarrow> nat" where
  "digit_val c = of_char c - 48"

definition digits_val :: "string \<Rightarrow> nat" where
  "digits_val s = foldl (\<lambda>n c. 10 * n + digit_val c) 0 s"

text \<open>A property key that is a canonical array index: decimal, no leading zero.\<close>

definition array_index :: "string \<Rightarrow> nat option" where
  "array_index k =
     (if k \<noteq> [] \<and> list_all is_digit k \<and> (k = ''0'' \<or> hd k \<noteq> CHR ''0'')
      then Some (digits_val k) else None)"

text \<open>The UTF-8 bytes of a code point.\<close>

definition utf8 :: "nat \<Rightarrow> string" where
  "utf8 n =
     (if n < 0x80 then [char_of n]
      else if n < 0x800 then [char_of (0xC0 + n div 64), char_of (0x80 + n mod 64)]
      else if n < 0x10000
        then [char_of (0xE0 + n div 4096), char_of (0x80 + n div 64 mod 64), char_of (0x80 + n mod 64)]
      else [char_of (0xF0 + n div 262144), char_of (0x80 + n div 4096 mod 64),
            char_of (0x80 + n div 64 mod 64), char_of (0x80 + n mod 64)])"

text \<open>
  The UTF-16 code units of a string, which \<^verbatim>\<open>s.length\<close> counts and \<^verbatim>\<open>s[i]\<close> reads. A
  character of one to three bytes is one unit; a character of four bytes is two units,
  its high and its low surrogate.
\<close>

definition seq_len :: "char \<Rightarrow> nat" where
  "seq_len c =
     (let n = (of_char c :: nat)
      in if n < 0x80 then 1 else if n < 0xE0 then 2 else if n < 0xF0 then 3 else 4)"

definition surrogates :: "string \<Rightarrow> string list" where
  "surrogates u =
     (let b = (\<lambda>i. (of_char (u ! i) :: nat));
          cp = (b 0 mod 8) * 262144 + (b 1 mod 64) * 4096 + (b 2 mod 64) * 64 + b 3 mod 64 - 0x10000
      in [utf8 (0xD800 + cp div 1024), utf8 (0xDC00 + cp mod 1024)])"

function code_units :: "string \<Rightarrow> string list" where
  "code_units s =
     (case s of
        [] \<Rightarrow> []
      | c # cs \<Rightarrow>
          (let u = take (seq_len c) s
           in (if length u = 4 then surrogates u else [u]) @ code_units (drop (seq_len c) s)))"
  by pat_completeness auto
termination
  by (relation "measure length") (auto simp: seq_len_def Let_def)

declare code_units.simps [simp del]

text \<open>
  \<^verbatim>\<open>v.k\<close> for a name \<open>k\<close> that the handler's code fixes, and \<^verbatim>\<open>v[k]\<close> for a decimal
  index. Reading a property of \<^verbatim>\<open>undefined\<close> or \<^verbatim>\<open>null\<close> throws a TypeError; a
  primitive or an object without the property gives \<^verbatim>\<open>undefined\<close>. Only own data
  properties are read here: the members that a value inherits from the built-in
  prototypes (\<^verbatim>\<open>constructor\<close>, \<^verbatim>\<open>toString\<close>, ...) have names that are neither decimal nor
  among those the handlers fix. A read under a key that the request supplies is
  \<open>lookup\<close>, below.
\<close>

fun get :: "js \<Rightarrow> string \<Rightarrow> exn + js" where
  "get JUndefined k = Inl TypeError"
| "get JNull k = Inl TypeError"
| "get (JObj kvs) k = Inr (case map_of kvs k of Some v \<Rightarrow> v | None \<Rightarrow> JUndefined)"
| "get (JArr xs) k =
     Inr (if k = ''length'' then JNum (Fin (of_nat (length xs)))
          else case array_index k of
                 Some i \<Rightarrow> if i < length xs then xs ! i else JUndefined
               | None \<Rightarrow> JUndefined)"
| "get (JStr s) k =
     Inr (if k = ''length'' then JNum (Fin (of_nat (length (code_units s))))
          else case array_index k of
                 Some i \<Rightarrow> if i < length (code_units s) then JStr (code_units s ! i) else JUndefined
               | None \<Rightarrow> JUndefined)"
| "get _ k = Inr JUndefined"

text \<open>The value has an own property \<open>k\<close>.\<close>

definition has_own :: "js \<Rightarrow> string \<Rightarrow> bool" where
  "has_own v k =
     (case v of
        JObj kvs \<Rightarrow> k \<in> fst ` set kvs
      | JArr xs \<Rightarrow>
          k = ''length'' \<or> (case array_index k of Some i \<Rightarrow> i < length xs | None \<Rightarrow> False)
      | JStr s \<Rightarrow>
          k = ''length'' \<or> (case array_index k of Some i \<Rightarrow> i < length (code_units s) | None \<Rightarrow> False)
      | _ \<Rightarrow> False)"

subsection \<open>Strings\<close>

text \<open>
  \<^verbatim>\<open>String.prototype.trim\<close> removes white space and line terminators from both ends:
  TAB, LF, VT, FF, CR, SP, and in UTF-8 U+00A0, U+1680, U+2000..U+200A, U+2028, U+2029,
  U+202F, U+205F, U+3000 and U+FEFF.
\<close>

definition is_ws :: "string \<Rightarrow> bool" where
  "is_ws w =
     (case w of
        [c] \<Rightarrow> c \<in> {CHR 0x09, CHR 0x0A, CHR 0x0B, CHR 0x0C, CHR 0x0D, CHR 0x20}
      | [a, b] \<Rightarrow> a = CHR 0xC2 \<and> b = CHR 0xA0
      | [a, b, c] \<Rightarrow>
          (a = CHR 0xE1 \<and> b = CHR 0x9A \<and> c = CHR 0x80) \<or>
          (a = CHR 0xE2 \<and> b = CHR 0x80 \<and>
             ((0x80 \<le> (of_char c :: nat) \<and> (of_char c :: nat) \<le> 0x8A) \<or> c = CHR 0xA8 \<or> c = CHR 0xA9 \<or> c = CHR 0xAF)) \<or>
          (a = CHR 0xE2 \<and> b = CHR 0x81 \<and> c = CHR 0x9F) \<or>
          (a = CHR 0xE3 \<and> b = CHR 0x80 \<and> c = CHR 0x80) \<or>
          (a = CHR 0xEF \<and> b = CHR 0xBB \<and> c = CHR 0xBF)
      | _ \<Rightarrow> False)"

text \<open>
  The number of bytes of the white-space character at the front of the text (0 when the
  text does not start with one); with \<open>back\<close> the text is a reversed one, read from its
  end.
\<close>

definition ws_len :: "bool \<Rightarrow> string \<Rightarrow> nat" where
  "ws_len back s =
     (let w = (\<lambda>n. if back then rev (take n s) else take n s) in
      if 1 \<le> length s \<and> is_ws (w 1) then 1
      else if 2 \<le> length s \<and> is_ws (w 2) then 2
      else if 3 \<le> length s \<and> is_ws (w 3) then 3
      else 0)"

function strip_ws :: "bool \<Rightarrow> string \<Rightarrow> string" where
  "strip_ws back s = (if ws_len back s = 0 then s else strip_ws back (drop (ws_len back s) s))"
  by pat_completeness auto
termination
  by (relation "measure (\<lambda>(back, s). length s)") (auto simp: ws_len_def Let_def split: if_splits)

declare strip_ws.simps [simp del]

definition trim :: "string \<Rightarrow> string" where
  "trim s = rev (strip_ws True (rev (strip_ws False s)))"

definition startsWith :: "string \<Rightarrow> string \<Rightarrow> bool" where
  "startsWith s p = (take (length p) s = p)"

definition endsWith :: "string \<Rightarrow> string \<Rightarrow> bool" where
  "endsWith s p = (length p \<le> length s \<and> drop (length s - length p) s = p)"

text \<open>
  A response of a handler: \<^verbatim>\<open>NextResponse.json(body)\<close> (status 200), an error response
  with its status and message, or the response of the \<^verbatim>\<open>catch\<close> block (status 500) for
  the exception caught.
\<close>

datatype response = Success js | ErrorResponse nat string | Caught exn

fun status :: "response \<Rightarrow> nat" where
  "status (Success _) = 200"
| "status (ErrorResponse n _) = n"
| "status (Caught _) = 500"

text \<open>
  A handler's outcome is its response together with the prompts it passed to
  \<^verbatim>\<open>generateText\<close>, in order: the external calls it made.
\<close>

type_synonym outcome = "response \<times> string list"

section \<open>The runtime outside the repository\<close>

text \<open>
  The handlers call into the JavaScript runtime and the AI SDK. These are not code of the
  repository and are taken as parameters, so every theorem holds for whatever they
  compute:
  \<^item> \<open>JSON_parse\<close>: \<^verbatim>\<open>JSON.parse\<close>; \<open>None\<close> when it throws a SyntaxError;
  \<^item> \<open>generateText\<close>: the completion call, from the prompt to the answer's text, or the
    error it rejects with;
  \<^item> \<open>Number_toString\<close>: the decimal text of a finite double that is not an integer below
    \<open>2^53\<close> in magnitude (the shortest digits that read back as the same double, in
    positional or in exponent form);
  \<^item> \<open>StringToNumber\<close>: the numeric value of a string (\<^verbatim>\<open>ToNumber\<close> on strings);
  \<^item> \<open>inherited\<close>: what a value that has no own property \<open>k\<close> finds under \<open>k\<close> in its
    prototype chain, if anything: a built-in function or a prototype object, given by its
    identity (two reads find the same object exactly when the identities are equal);
  \<^item> \<open>Native_toString\<close>: the text that such a built-in object converts to.
\<close>

record runtime =
  JSON_parse :: "string \<Rightarrow> js option"
  generateText :: "string \<Rightarrow> exn + string"
  Number_toString :: "rat \<Rightarrow> string"
  StringToNumber :: "string \<Rightarrow> jsnum"
  inherited :: "js \<Rightarrow> string \<Rightarrow> nat option"
  Native_toString :: "nat \<Rightarrow> string"

section \<open>Numbers\<close>

text \<open>
  Arithmetic on doubles: the exact result, rounded to the nearest double, ties to the
  even significand (53 bits; exponents down to the subnormal \<open>2^-1074\<close>); a result of
  magnitude \<open>2^1024\<close> or more after rounding is an infinity, and one that rounds to zero
  keeps its sign.
\<close>

text \<open>The integer part of the binary logarithm of a positive rational.\<close>

definition ilog2 :: "rat \<Rightarrow> int" where
  "ilog2 x =
     (let d = bitlen (fst (quotient_of x)) - bitlen (snd (quotient_of x))
      in if 2 powi d \<le> x then d else d - 1)"

definition round_half_even :: "rat \<Rightarrow> int" where
  "round_half_even q =
     (let f = \<lfloor>q\<rfloor>; r = q - of_int f
      in if r < 1 / 2 then f else if 1 / 2 < r then f + 1 else if even f then f else f + 1)"

definition fl :: "rat \<Rightarrow> jsnum" where
  "fl x =
     (if x = 0 then Fin 0
      else
        (let a = \<bar>x\<bar>;
             e = max (ilog2 a - 52) (- 1074);
             m = round_half_even (a / 2 powi e);
             v = of_int m * 2 powi e
         in if 2 ^ 1024 \<le> v then (if x < 0 then NInf else PInf)
            else if m = 0 then (if x < 0 then NZero else Fin 0)
            else Fin (if x < 0 then - v else v)))"

fun negative :: "jsnum \<Rightarrow> bool" where
  "negative NInf = True"
| "negative NZero = True"
| "negative (Fin r) = (r < 0)"
| "negative _ = False"

fun is_zero :: "jsnum \<Rightarrow> bool" where
  "is_zero NZero = True"
| "is_zero (Fin r) = (r = 0)"
| "is_zero _ = False"

fun is_inf :: "jsnum \<Rightarrow> bool" where
  "is_inf PInf = True"
| "is_inf NInf = True"
| "is_inf _ = False"

fun rat_of :: "jsnum \<Rightarrow> rat" where
  "rat_of (Fin r) = r"
| "rat_of _ = 0"

definition signed_inf :: "bool \<Rightarrow> jsnum" where
  "signed_inf neg = (if neg then NInf else PInf)"

definition signed_zero :: "bool \<Rightarrow> jsnum" where
  "signed_zero neg = (if neg then NZero else Fin 0)"

text \<open>\<^verbatim>\<open>a + b\<close> on numbers.\<close>

definition num_add :: "jsnum \<Rightarrow> jsnum \<Rightarrow> jsnum" where
  "num_add a b =
     (if a = NaN \<or> b = NaN then NaN
      else if is_inf a \<and> is_inf b then (if a = b then a else NaN)
      else if is_inf a then a
      else if is_inf b then b
      else if is_zero a \<and> is_zero b then signed_zero (negative a \<and> negative b)
      else if is_zero a then b
      else if is_zero b then a
      else if rat_of a + rat_of b = 0 then Fin 0
      else fl (rat_of a + rat_of b))"

text \<open>\<^verbatim>\<open>a * b\<close> on numbers.\<close>

definition num_mul :: "jsnum \<Rightarrow> jsnum \<Rightarrow> jsnum" where
  "num_mul a b =
     (if a = NaN \<or> b = NaN then NaN
      else if (is_inf a \<and> is_zero b) \<or> (is_zero a \<and> is_inf b) then NaN
      else if is_inf a \<or> is_inf b then signed_inf (negative a \<noteq> negative b)
      else if is_zero a \<or> is_zero b then signed_zero (negative a \<noteq> negative b)
      else fl (rat_of a * rat_of b))"

text \<open>\<^verbatim>\<open>a / b\<close> on numbers: a division by zero does not throw.\<close>

definition num_div :: "jsnum \<Rightarrow> jsnum \<Rightarrow> jsnum" where
  "num_div a b =
     (if a = NaN \<or> b = NaN then NaN
      else if (is_inf a \<and> is_inf b) \<or> (is_zero a \<and> is_zero b) then NaN
      else if is_inf a \<or> is_zero b then signed_inf (negative a \<noteq> negative b)
      else if is_inf b \<or> is_zero a then signed_zero (negative a \<noteq> negative b)
      else fl (rat_of a / rat_of b))"

text \<open>
  \<^verbatim>\<open>Math.round\<close>: the nearest integer, a tie going up (towards \<open>+\<infinity>\<close>); a negative
  argument that rounds to zero gives \<open>-0\<close>.
\<close>

fun Math_round :: "jsnum \<Rightarrow> jsnum" where
  "Math_round (Fin r) = (if \<lfloor>r + 1 / 2\<rfloor> = 0 \<and> r < 0 then NZero else Fin (of_int \<lfloor>r + 1 / 2\<rfloor>))"
| "Math_round n = n"

text \<open>A finite number that is an integer, as the scores of the data model are.\<close>

definition is_integer :: "jsnum \<Rightarrow> bool" where
  "is_integer n = (case n of Fin r \<Rightarrow> r = of_int \<lfloor>r\<rfloor> | _ \<Rightarrow> False)"

definition is_finite :: "jsnum \<Rightarrow> bool" where
  "is_finite n = (case n of Fin r \<Rightarrow> True | NZero \<Rightarrow> True | _ \<Rightarrow> False)"

section \<open>Conversions and operators\<close>

definition digit_char :: "nat \<Rightarrow> char" where
  "digit_char n = ''0123456789'' ! n"

text \<open>The decimal digits of a natural number.\<close>

function nat_str :: "nat \<Rightarrow> string" where
  "nat_str n = (if n < 10 then [digit_char n] else nat_str (n div 10) @ [digit_char (n mod 10)])"
  by pat_completeness auto
termination
  by (relation "measure id") auto

declare nat_str.simps [simp del]

text \<open>
  \<^verbatim>\<open>Number::toString\<close>. An integer below \<open>2^53\<close> in magnitude prints as its decimal
  digits; the text of any other finite double is the runtime's.
\<close>

definition num_str :: "runtime \<Rightarrow> jsnum \<Rightarrow> string" where
  "num_str rt n =
     (case n of
        NaN \<Rightarrow> ''NaN''
      | PInf \<Rightarrow> ''Infinity''
      | NInf \<Rightarrow> ''-Infinity''
      | NZero \<Rightarrow> ''0''
      | Fin r \<Rightarrow>
          if r = of_int \<lfloor>r\<rfloor> \<and> \<bar>r\<bar> < 2 ^ 53
          then (if r < 0 then ''-'' else []) @ nat_str (nat \<bar>\<lfloor>r\<rfloor>\<bar>)
          else Number_toString rt r)"

text \<open>
  \<^verbatim>\<open>ToString\<close>, as a template literal applies it to each substitution. An array is
  joined with commas, \<^verbatim>\<open>null\<close> and \<^verbatim>\<open>undefined\<close> elements reading as empty. An object
  reads \<^verbatim>\<open>[object Object]\<close>; when it has an own property \<^verbatim>\<open>toString\<close> (JSON data is
  never callable) the conversion throws a TypeError.
\<close>

fun ToString :: "runtime \<Rightarrow> js \<Rightarrow> exn + string"
  and join_elems :: "runtime \<Rightarrow> js list \<Rightarrow> exn + string" where
  "ToString rt JUndefined = Inr ''undefined''"
| "ToString rt JNull = Inr ''null''"
| "ToString rt (JBool b) = Inr (if b then ''true'' else ''false'')"
| "ToString rt (JNum n) = Inr (num_str rt n)"
| "ToString rt (JStr s) = Inr s"
| "ToString rt (JArr xs) = join_elems rt xs"
| "ToString rt (JObj kvs) =
     (if ''toString'' \<in> fst ` set kvs then Inl TypeError else Inr ''[object Object]'')"
| "join_elems rt [] = Inr []"
| "join_elems rt (x # xs) =
     tryE (if x = JUndefined \<or> x = JNull then Inr [] else ToString rt x)
       (\<lambda>s. if xs = [] then Inr s else tryE (join_elems rt xs) (\<lambda>r. Inr (s @ '','' @ r)))"

text \<open>\<^verbatim>\<open>ToPrimitive\<close>: an array or an object becomes its string.\<close>

definition ToPrimitive :: "runtime \<Rightarrow> js \<Rightarrow> exn + js" where
  "ToPrimitive rt v =
     (case v of
        JArr xs \<Rightarrow> tryE (ToString rt v) (\<lambda>s. Inr (JStr s))
      | JObj kvs \<Rightarrow> tryE (ToString rt v) (\<lambda>s. Inr (JStr s))
      | _ \<Rightarrow> Inr v)"

text \<open>\<^verbatim>\<open>ToNumber\<close> on a primitive value.\<close>

definition prim_number :: "runtime \<Rightarrow> js \<Rightarrow> jsnum" where
  "prim_number rt v =
     (case v of
        JUndefined \<Rightarrow> NaN
      | JNull \<Rightarrow> Fin 0
      | JBool b \<Rightarrow> Fin (if b then 1 else 0)
      | JNum n \<Rightarrow> n
      | JStr s \<Rightarrow> StringToNumber rt s
      | _ \<Rightarrow> NaN)"

definition ToNumber :: "runtime \<Rightarrow> js \<Rightarrow> exn + jsnum" where
  "ToNumber rt v = tryE (ToPrimitive rt v) (\<lambda>p. Inr (prim_number rt p))"

definition is_string :: "js \<Rightarrow> bool" where
  "is_string v = (case v of JStr _ \<Rightarrow> True | _ \<Rightarrow> False)"

text \<open>
  The operator \<^verbatim>\<open>+\<close>: both operands are made primitive; if either is then a string the
  result is the concatenation of their strings, otherwise the sum of their numbers.
\<close>

definition js_add :: "runtime \<Rightarrow> js \<Rightarrow> js \<Rightarrow> exn + js" where
  "js_add rt a b =
     tryE (ToPrimitive rt a) (\<lambda>pa.
     tryE (ToPrimitive rt b) (\<lambda>pb.
       if is_string pa \<or> is_string pb
       then tryE (ToString rt pa) (\<lambda>sa. tryE (ToString rt pb) (\<lambda>sb. Inr (JStr (sa @ sb))))
       else Inr (JNum (num_add (prim_number rt pa) (prim_number rt pb)))))"

text \<open>The operators \<^verbatim>\<open>/\<close> and \<^verbatim>\<open>*\<close>: both operands are made numbers.\<close>

definition js_div :: "runtime \<Rightarrow> js \<Rightarrow> js \<Rightarrow> exn + jsnum" where
  "js_div rt a b = tryE (ToNumber rt a) (\<lambda>x. tryE (ToNumber rt b) (\<lambda>y. Inr (num_div x y)))"

text \<open>
  Strict equality \<^verbatim>\<open>===\<close> of two values read from different places of parsed JSON: two
  arrays or objects are then different references, never equal.
\<close>

fun strict_eq :: "js \<Rightarrow> js \<Rightarrow> bool" where
  "strict_eq JUndefined JUndefined = True"
| "strict_eq JNull JNull = True"
| "strict_eq (JBool a) (JBool b) = (a = b)"
| "strict_eq (JStr a) (JStr b) = (a = b)"
| "strict_eq (JNum a) (JNum b) = (a \<noteq> NaN \<and> b \<noteq> NaN \<and> (a = b \<or> (is_zero a \<and> is_zero b)))"
| "strict_eq _ _ = False"

text \<open>
  \<^verbatim>\<open>v[k]\<close> for a key that the request supplies (\<^verbatim>\<open>answers[q.number]\<close>). An own property
  comes first; a value without one finds what its prototype chain has under the name
  (\<^verbatim>\<open>constructor\<close>, \<^verbatim>\<open>toString\<close>, \<^verbatim>\<open>__proto__\<close>, ...), which is a built-in object and no
  JSON data, and otherwise \<^verbatim>\<open>undefined\<close>.
\<close>

datatype member = Data js | Native nat

definition lookup :: "runtime \<Rightarrow> js \<Rightarrow> string \<Rightarrow> exn + member" where
  "lookup rt v k =
     (if v = JUndefined \<or> v = JNull then Inl TypeError
      else if has_own v k then tryE (get v k) (\<lambda>x. Inr (Data x))
      else Inr (case inherited rt v k of Some i \<Rightarrow> Native i | None \<Rightarrow> Data JUndefined))"

text \<open>\<^verbatim>\<open>===\<close>, a template substitution and \<^verbatim>\<open>||\<close> on what such a read gives.\<close>

fun member_eq :: "member \<Rightarrow> member \<Rightarrow> bool" where
  "member_eq (Data a) (Data b) = strict_eq a b"
| "member_eq (Native i) (Native j) = (i = j)"
| "member_eq _ _ = False"

fun member_str :: "runtime \<Rightarrow> member \<Rightarrow> exn + string" where
  "member_str rt (Data v) = ToString rt v"
| "member_str rt (Native i) = Inr (Native_toString rt i)"

fun member_or :: "member \<Rightarrow> js \<Rightarrow> member" where
  "member_or (Data v) d = Data (js_or v d)"
| "member_or (Native i) d = Native i"

section \<open>Recovering JSON from the model's answer\<close>

text \<open>
  Both handlers contain the same code (generate/route.ts lines 360-385, evaluate/route.ts
  lines 312-333); only the message of the final error differs.
\<close>

text \<open>\<^verbatim>\<open>s.replace(/^```json\n?/, "")\<close> and \<^verbatim>\<open>s.replace(/^```\n?/, "")\<close>, on a text that starts
  with the marker \<open>p\<close>.\<close>

definition strip_open :: "string \<Rightarrow> string \<Rightarrow> string" where
  "strip_open p s =
     (let r = drop (length p) s in
      case r of c # cs \<Rightarrow> if c = CHR 0x0A then cs else r | [] \<Rightarrow> r)"

text \<open>\<^verbatim>\<open>s.replace(/\n?```$/, "")\<close>: without the \<^verbatim>\<open>m\<close> flag, \<^verbatim>\<open>$\<close> is the end of the text.\<close>

definition strip_close :: "string \<Rightarrow> string" where
  "strip_close s =
     (if endsWith s ''```'' then
        (let r = take (length s - 3) s in
         if endsWith r [CHR 0x0A] then take (length r - 1) r else r)
      else s)"

definition strip_fence :: "string \<Rightarrow> string" where
  "strip_fence s =
     (if startsWith s ''```json'' then strip_close (strip_open ''```json'' s)
      else if startsWith s ''```'' then strip_close (strip_open ''```'' s)
      else s)"

text \<open>
  \<^verbatim>\<open>s.match(/\{[\s\S]*\}/)\<close>: the leftmost match starts at the first \<^verbatim>\<open>{\<close> and, the star
  being greedy, ends at the last \<^verbatim>\<open>}\<close>; there is none when no \<^verbatim>\<open>}\<close> follows the
  first \<^verbatim>\<open>{\<close>.
\<close>

definition match_braces :: "string \<Rightarrow> string option" where
  "match_braces s =
     (let from_open = dropWhile (\<lambda>c. c \<noteq> CHR ''{'') s;
          m = rev (dropWhile (\<lambda>c. c \<noteq> CHR ''}'') (rev from_open))
      in if m = [] then None else Some m)"

definition extract_json :: "runtime \<Rightarrow> string \<Rightarrow> string \<Rightarrow> exn + js" where
  "extract_json rt msg text =
     (let jsonText = strip_fence (trim text) in
      case JSON_parse rt jsonText of
        Some v \<Rightarrow> Inr v
      | None \<Rightarrow>
          (case match_braces jsonText of
             Some m \<Rightarrow> (case JSON_parse rt m of Some v \<Rightarrow> Inr v | None \<Rightarrow> Inl SyntaxError)
           | None \<Rightarrow> Inl (Error msg)))"

section \<open>The generate handler\<close>

definition typeof_string :: "js \<Rightarrow> bool" where
  "typeof_string v = (case v of JStr _ \<Rightarrow> True | _ \<Rightarrow> False)"

definition validTypes :: "string list" where
  "validTypes = [''case-study'', ''multiple-choice'', ''essay'', ''test'', ''presentation'', ''project'']"

text \<open>\<^verbatim>\<open>validTypes.includes(v)\<close>: only a string can be the same value as a member.\<close>

definition includes_str :: "string list \<Rightarrow> js \<Rightarrow> bool" where
  "includes_str xs v = (case v of JStr s \<Rightarrow> s \<in> set xs | _ \<Rightarrow> False)"

text \<open>\<^verbatim>\<open>xs.join(sep)\<close> on an array of strings.\<close>

fun join :: "string \<Rightarrow> string list \<Rightarrow> string" where
  "join sep [] = []"
| "join sep [x] = x"
| "join sep (x # y # ys) = x @ sep @ join sep (y # ys)"

text \<open>\<^verbatim>\<open>!process.env.OPENAI_API_KEY\<close>: an environment value is a string or is absent.\<close>

definition key_configured :: "string option \<Rightarrow> bool" where
  "key_configured k = (case k of Some s \<Rightarrow> s \<noteq> [] | None \<Rightarrow> False)"

definition key_message :: string where
  "key_message = ''OpenAI API key is not configured. Please add OPENAI_API_KEY to your .env.local file.''"

text \<open>
  \<^verbatim>\<open>POST\<close> of generate/route.ts. \<open>req\<close> is what \<^verbatim>\<open>await request.json()\<close> gives: the parsed
  body, or the exception it rejects with. \<open>env\<close> is \<^verbatim>\<open>process.env.OPENAI_API_KEY\<close>.
  The six instruction texts of lines 48-351 are string constants into which only the
  query is interpolated; \<open>templates\<close> maps the assignment type and the query to the
  prompt.
\<close>

definition POST_generate ::
  "runtime \<Rightarrow> (string \<Rightarrow> string \<Rightarrow> string) \<Rightarrow> string option \<Rightarrow> exn + js \<Rightarrow> outcome" where
  "POST_generate rt templates env req =
     (case req of
        Inl e \<Rightarrow> (Caught e, [])
      | Inr body \<Rightarrow>
          (case (get body ''query'', get body ''assignmentType'') of
             (Inr query, Inr aty) \<Rightarrow>
               (let assignmentType = (if aty = JUndefined then JStr ''case-study'' else aty) in
                if \<not> truthy query \<or> \<not> typeof_string query
                   \<or> (case query of JStr q \<Rightarrow> length (trim q) = 0 | _ \<Rightarrow> True)
                then (ErrorResponse 400 ''Please provide a search query to generate an assignment.'', [])
                else if \<not> includes_str validTypes assignmentType
                then (ErrorResponse 400
                        (''Invalid assignment type. Must be one of: '' @ join '', '' validTypes), [])
                else if \<not> key_configured env
                then (ErrorResponse 500 key_message, [])
                else
                  (case (query, assignmentType) of
                     (JStr q, JStr t) \<Rightarrow>
                       (let assignmentPrompt = templates t q in
                        case generateText rt assignmentPrompt of
                          Inl e \<Rightarrow> (Caught e, [assignmentPrompt])
                        | Inr text \<Rightarrow>
                            (case extract_json rt ''Could not parse assignment data from AI response'' text of
                               Inl e \<Rightarrow> (Caught e, [assignmentPrompt])
                             | Inr assignmentData \<Rightarrow>
                                 (Success (JObj [(''success'', JBool True),
                                                 (''assignment'', assignmentData),
                                                 (''query'', query),
                                                 (''assignmentType'', assignmentType)]),
                                  [assignmentPrompt])))
                   | _ \<Rightarrow> (Caught TypeError, [])))
           | (Inl e, _) \<Rightarrow> (Caught e, [])
           | (_, Inl e) \<Rightarrow> (Caught e, [])))"

text \<open>The request of the claims about generate: what the body gives for its two fields.\<close>

definition query_invalid :: "js \<Rightarrow> bool" where
  "query_invalid body =
     (case get body ''query'' of
        Inr (JStr q) \<Rightarrow> trim q = []
      | _ \<Rightarrow> True)"

definition type_invalid :: "js \<Rightarrow> bool" where
  "type_invalid body =
     (case get body ''assignmentType'' of
        Inr JUndefined \<Rightarrow> False
      | Inr (JStr t) \<Rightarrow> t \<notin> set validTypes
      | _ \<Rightarrow> True)"

section \<open>The evaluate handler\<close>

subsection \<open>Template literals\<close>

text \<open>
  A template literal evaluates and converts its substitutions from left to right; the
  first one that throws ends it.
\<close>

fun concatE :: "(exn + string) list \<Rightarrow> exn + string" where
  "concatE [] = Inr []"
| "concatE (p # ps) = tryE p (\<lambda>s. tryE (concatE ps) (\<lambda>r. Inr (s @ r)))"

fun mapE :: "('a \<Rightarrow> exn + 'b) \<Rightarrow> 'a list \<Rightarrow> exn + 'b list" where
  "mapE f [] = Inr []"
| "mapE f (x # xs) = tryE (f x) (\<lambda>y. tryE (mapE f xs) (\<lambda>ys. Inr (y # ys)))"

definition lit :: "string \<Rightarrow> exn + string" where
  "lit s = Inr s"

text \<open>A substitution \<^verbatim>\<open>${e}\<close>, where evaluating \<open>e\<close> gave \<open>r\<close>.\<close>

definition sub :: "runtime \<Rightarrow> exn + js \<Rightarrow> exn + string" where
  "sub rt r = tryE r (ToString rt)"

text \<open>
  The receiver of \<^verbatim>\<open>.map\<close> and \<^verbatim>\<open>.reduce\<close>: only an array has these methods, any other
  value throws a TypeError at the call.
\<close>

definition as_array :: "js \<Rightarrow> exn + js list" where
  "as_array v = (case v of JArr xs \<Rightarrow> Inr xs | _ \<Rightarrow> Inl TypeError)"

text \<open>\<^verbatim>\<open>v.toString()\<close>.\<close>

definition toString_call :: "runtime \<Rightarrow> js \<Rightarrow> exn + string" where
  "toString_call rt v = (if v = JUndefined \<or> v = JNull then Inl TypeError else ToString rt v)"

definition newline :: string where
  "newline = [CHR 0x0A]"

subsection \<open>The rubric, common to the five prompts\<close>

definition level :: "js \<Rightarrow> string \<Rightarrow> exn + js" where
  "level cat l = tryE (get cat ''levels'') (\<lambda>ls. tryE (get ls l) (\<lambda>x. get x ''description''))"

definition category_text :: "runtime \<Rightarrow> js \<Rightarrow> exn + string" where
  "category_text rt cat =
     concatE [lit ''\<newline>- '', sub rt (get cat ''name''),
              lit '' ('', sub rt (get cat ''points''),
              lit '' points):\<newline>  Exemplary: '', sub rt (level cat ''exemplary''),
              lit ''\<newline>  Proficient: '', sub rt (level cat ''proficient''),
              lit ''\<newline>  Developing: '', sub rt (level cat ''developing''),
              lit ''\<newline>  Beginning: '', sub rt (level cat ''beginning''),
              lit ''\<newline>'']"

definition rubric_text :: "runtime \<Rightarrow> js \<Rightarrow> exn + string" where
  "rubric_text rt assignment =
     tryE (get assignment ''rubric'') (\<lambda>rubric.
     tryE (get rubric ''categories'') (\<lambda>categories.
     tryE (as_array categories) (\<lambda>cats.
     tryE (mapE (category_text rt) cats) (\<lambda>parts. Inr (join newline parts)))))"

subsection \<open>Multiple choice: the automatic score\<close>

record detail =
  question :: js
  studentAnswer :: member
  correctAnswer :: member
  isCorrect :: bool
  points :: js
  earnedPoints :: js

text \<open>
  The callback of \<^verbatim>\<open>questions.map\<close> (lines 61-77) with the two counters it updates,
  \<open>correctCount\<close> and \<open>totalPoints\<close>, passed along.
\<close>

fun questionDetails ::
  "runtime \<Rightarrow> js \<Rightarrow> js \<Rightarrow> js list \<Rightarrow> nat \<Rightarrow> js \<Rightarrow> exn + (detail list \<times> nat \<times> js)" where
  "questionDetails rt answers answerKey [] correctCount totalPoints =
     Inr ([], correctCount, totalPoints)"
| "questionDetails rt answers answerKey (q # qs) correctCount totalPoints =
     tryE (get q ''number'') (\<lambda>number.
     tryE (ToString rt number) (\<lambda>key.
     tryE (lookup rt answers key) (\<lambda>student.
     tryE (toString_call rt number) (\<lambda>key'.
     tryE (lookup rt answerKey key') (\<lambda>correct.
     tryE (get q ''points'') (\<lambda>pts.
     tryE (get q ''question'') (\<lambda>qtext.
     tryE (if member_eq student correct then js_add rt totalPoints pts else Inr totalPoints)
       (\<lambda>totalPoints'.
     tryE (questionDetails rt answers answerKey qs
             (if member_eq student correct then Suc correctCount else correctCount) totalPoints')
       (\<lambda>(ds, cc, tp).
          Inr (\<lparr>question = qtext, studentAnswer = student, correctAnswer = correct,
                 isCorrect = member_eq student correct, points = pts,
                 earnedPoints = (if member_eq student correct then pts else JNum (Fin 0))\<rparr> # ds,
               cc, tp))))))))))"

text \<open>\<^verbatim>\<open>questions.reduce((sum, q) => sum + q.points, 0)\<close>.\<close>

fun points_sum :: "runtime \<Rightarrow> js \<Rightarrow> js list \<Rightarrow> exn + js" where
  "points_sum rt acc [] = Inr acc"
| "points_sum rt acc (q # qs) =
     tryE (get q ''points'') (\<lambda>pts. tryE (js_add rt acc pts) (\<lambda>acc'. points_sum rt acc' qs))"

text \<open>\<^verbatim>\<open>Math.round((a / b) * 100)\<close>.\<close>

definition percent :: "runtime \<Rightarrow> js \<Rightarrow> js \<Rightarrow> exn + jsnum" where
  "percent rt a b = tryE (js_div rt a b) (\<lambda>x. Inr (Math_round (num_mul x (Fin 100))))"

definition check_mark :: string where
  "check_mark = [CHR 0xE2, CHR 0x9C, CHR 0x93]"

definition cross_mark :: string where
  "cross_mark = [CHR 0xE2, CHR 0x9C, CHR 0x97]"

definition detail_text :: "runtime \<Rightarrow> nat \<times> detail \<Rightarrow> exn + string" where
  "detail_text rt p =
     (case p of (i, d) \<Rightarrow>
        concatE [lit ''\<newline>'', lit (nat_str (i + 1)), lit ''. '', sub rt (Inr (question d)),
                 lit ''\<newline>   Student Answer: '', member_str rt (studentAnswer d),
                 lit ''\<newline>   Correct Answer: '', member_str rt (correctAnswer d),
                 lit ''\<newline>   Result: '',
                 lit (if isCorrect d then check_mark @ '' Correct'' else cross_mark @ '' Incorrect''),
                 lit ''\<newline>   Points: '', sub rt (Inr (earnedPoints d)),
                 lit '' / '', sub rt (Inr (points d)), lit ''\<newline>''])"

definition enumerate0 :: "'a list \<Rightarrow> (nat \<times> 'a) list" where
  "enumerate0 xs = zip [0..<length xs] xs"


definition mc_intro :: string where
  \<open>mc_intro =
     ''You are an expert educator evaluating a multiple choice test submission.\<newline>'' @
     ''\<newline>'' @
     ''ASSIGNMENT: ''\<close>

definition mc_outro :: string where
  \<open>mc_outro =
     ''\<newline>'' @
     ''\<newline>'' @
     ''Please provide:\<newline>'' @
     ''1. Overall feedback (2-3 sentences summarizing performance)\<newline>'' @
     ''2. Detailed feedback analyzing strengths and areas for improvement\<newline>'' @
     ''3. Rubric-based assessment for each category with scores and feedback\<newline>'' @
     ''\<newline>'' @
     ''Format your response as JSON:\<newline>'' @
     ''{\<newline>'' @
     ''  "overallFeedback": "Overall feedback text...",\<newline>'' @
     ''  "detailedFeedback": "Detailed analysis...",\<newline>'' @
     ''  "rubricAssessment": [\<newline>'' @
     ''    {\<newline>'' @
     ''      "category": "Category Name",\<newline>'' @
     ''      "score": 25,\<newline>'' @
     ''      "maxScore": 25,\<newline>'' @
     ''      "feedback": "Feedback for this category..."\<newline>'' @
     ''    }\<newline>'' @
     ''  ]\<newline>'' @
     ''}''\<close>

definition multiple_choice_prompt :: "runtime \<Rightarrow> js \<Rightarrow> js \<Rightarrow> exn + string" where
  "multiple_choice_prompt rt assignment submission =
     tryE (get assignment ''questions'') (\<lambda>questions.
     tryE (get submission ''answers'') (\<lambda>answers.
     tryE (get assignment ''answerKey'') (\<lambda>answerKey.
     tryE (as_array questions) (\<lambda>qs.
     tryE (questionDetails rt answers answerKey qs 0 (JNum (Fin 0))) (\<lambda>(details, correctCount, totalPoints).
       concatE [lit mc_intro, sub rt (get assignment ''title''),
                lit ''\<newline>\<newline>STUDENT PERFORMANCE:\<newline>- Correct Answers: '',
                lit (nat_str correctCount),
                lit '' out of '', lit (nat_str (length qs)),
                lit ''\<newline>- Points Earned: '', sub rt (Inr totalPoints),
                lit '' out of '', sub rt (points_sum rt (JNum (Fin 0)) qs),
                lit ''\<newline>- Percentage: '',
                tryE (points_sum rt (JNum (Fin 0)) qs) (\<lambda>total.
                  tryE (percent rt totalPoints total) (\<lambda>n. Inr (num_str rt n))),
                lit ''%\<newline>\<newline>QUESTION-BY-QUESTION BREAKDOWN:\<newline>'',
                tryE (mapE (detail_text rt) (enumerate0 details)) (\<lambda>parts. Inr (join newline parts)),
                lit ''\<newline>\<newline>RUBRIC:\<newline>'', rubric_text rt assignment,
                lit mc_outro])))))"

subsection \<open>Essay\<close>

text \<open>
  \<^verbatim>\<open>text.trim().split(/\s+/).filter(Boolean).length\<close>: the number of maximal runs of
  characters that are not white space. \<open>inw\<close> tells that the previous character was part
  of a word.
\<close>

function count_words :: "bool \<Rightarrow> string \<Rightarrow> nat" where
  "count_words inw s =
     (if s = [] then 0
      else if 0 < ws_len False s then count_words False (drop (ws_len False s) s)
      else (if inw then 0 else 1) + count_words True (tl s))"
  by pat_completeness auto
termination
  by (relation "measure (\<lambda>(inw, s). length s)") auto

declare count_words.simps [simp del]

text \<open>Only a string has \<^verbatim>\<open>trim\<close>; on any other value the call throws a TypeError.\<close>

definition word_count :: "js \<Rightarrow> exn + string" where
  "word_count v = (case v of JStr s \<Rightarrow> Inr (nat_str (count_words False (trim s))) | _ \<Rightarrow> Inl TypeError)"

definition numbered :: "runtime \<Rightarrow> nat \<times> js \<Rightarrow> exn + string" where
  "numbered rt p = (case p of (i, req) \<Rightarrow> concatE [lit (nat_str (i + 1)), lit ''. '', sub rt (Inr req)])"

definition essay_intro :: string where
  \<open>essay_intro =
     ''You are an expert educator evaluating an essay submission.\<newline>'' @
     ''\<newline>'' @
     ''ASSIGNMENT: ''\<close>

definition essay_outro :: string where
  \<open>essay_outro =
     ''\<newline>'' @
     ''\<newline>'' @
     ''Evaluate the essay based on the rubric. Consider:\<newline>'' @
     ''- How well the essay addresses the prompt\<newline>'' @
     ''- Quality of argumentation and analysis\<newline>'' @
     ''- Use of evidence and examples\<newline>'' @
     ''- Organization and structure\<newline>'' @
     ''- Writing quality (clarity, grammar, style)\<newline>'' @
     ''- Adherence to requirements\<newline>'' @
     ''\<newline>'' @
     ''Provide:\<newline>'' @
     ''1. Overall feedback (3-4 sentences)\<newline>'' @
     ''2. Detailed feedback with specific examples from the essay\<newline>'' @
     ''3. Rubric-based assessment with scores for each category\<newline>'' @
     ''\<newline>'' @
     ''Format your response as JSON:\<newline>'' @
     ''{\<newline>'' @
     ''  "overallFeedback": "Overall feedback text...",\<newline>'' @
     ''  "detailedFeedback": "Detailed analysis with specific examples...",\<newline>'' @
     ''  "rubricAssessment": [\<newline>'' @
     ''    {\<newline>'' @
     ''      "category": "Category Name",\<newline>'' @
     ''      "score": 20,\<newline>'' @
     ''      "maxScore": 25,\<newline>'' @
     ''      "feedback": "Feedback for this category with specific examples..."\<newline>'' @
     ''    }\<newline>'' @
     ''  ]\<newline>'' @
     ''}''\<close>

definition essay_prompt :: "runtime \<Rightarrow> js \<Rightarrow> js \<Rightarrow> exn + string" where
  "essay_prompt rt assignment submission =
     concatE [lit essay_intro, sub rt (get assignment ''title''),
              lit ''\<newline>ESSAY PROMPT: '', sub rt (get assignment ''prompt''),
              lit ''\<newline>\<newline>STUDENT ESSAY:\<newline>'', sub rt (get submission ''text''),
              lit ''\<newline>\<newline>WORD COUNT: '', tryE (get submission ''text'') word_count,
              lit '' words\<newline>\<newline>REQUIREMENTS:\<newline>'',
              tryE (get assignment ''requirements'') (\<lambda>requirements.
              tryE (as_array requirements) (\<lambda>reqs.
              tryE (mapE (numbered rt) (enumerate0 reqs)) (\<lambda>parts. Inr (join newline parts)))),
              lit ''\<newline>\<newline>RUBRIC:\<newline>'', rubric_text rt assignment,
              lit essay_outro]"

subsection \<open>Mixed test\<close>

definition answer_text :: "runtime \<Rightarrow> js \<Rightarrow> js \<Rightarrow> exn + string" where
  "answer_text rt submission q =
     tryE (get submission ''answers'') (\<lambda>answers.
     tryE (get q ''number'') (\<lambda>number.
     tryE (ToString rt number) (\<lambda>key.
     tryE (lookup rt answers key) (\<lambda>given.
       concatE [sub rt (Inr number), lit ''. ['', sub rt (get q ''type''), lit ''] '',
                sub rt (get q ''question''),
                lit ''\<newline>   Student Answer: '',
                member_str rt (member_or given (JStr ''No answer provided'')),
                lit ''\<newline>   Points: '', sub rt (get q ''points'')]))))"

text \<open>
  \<^verbatim>\<open>Object.entries\<close>: the own properties, those whose key is an array index first, in
  ascending order, then the others in the order they were added.
\<close>

definition own_properties :: "(string \<times> js) list \<Rightarrow> (string \<times> js) list" where
  "own_properties kvs = map (\<lambda>k. (k, the (map_of kvs k))) (rev (remdups (rev (map fst kvs))))"

definition is_index_key :: "string \<Rightarrow> bool" where
  "is_index_key k = (case array_index k of Some i \<Rightarrow> i < 2 ^ 32 - 1 | None \<Rightarrow> False)"

definition Object_entries :: "js \<Rightarrow> exn + (string \<times> js) list" where
  "Object_entries v =
     (case v of
        JUndefined \<Rightarrow> Inl TypeError
      | JNull \<Rightarrow> Inl TypeError
      | JObj kvs \<Rightarrow>
          Inr (sort_key (\<lambda>kv. digits_val (fst kv)) (filter (\<lambda>kv. is_index_key (fst kv)) (own_properties kvs))
               @ filter (\<lambda>kv. \<not> is_index_key (fst kv)) (own_properties kvs))
      | JArr xs \<Rightarrow> Inr (map (\<lambda>(i, x). (nat_str i, x)) (enumerate0 xs))
      | JStr s \<Rightarrow> Inr (map (\<lambda>(i, u). (nat_str i, JStr u)) (enumerate0 (code_units s)))
      | _ \<Rightarrow> Inr [])"

definition entry_text :: "runtime \<Rightarrow> string \<times> js \<Rightarrow> exn + string" where
  "entry_text rt p = (case p of (num, ans) \<Rightarrow> concatE [lit num, lit ''. '', sub rt (Inr ans)])"

definition test_intro :: string where
  \<open>test_intro =
     ''You are an expert educator evaluating a mixed test submission.\<newline>'' @
     ''\<newline>'' @
     ''ASSIGNMENT: ''\<close>

definition test_outro :: string where
  \<open>test_outro =
     ''\<newline>'' @
     ''\<newline>'' @
     ''Evaluate the submission and provide:\<newline>'' @
     ''1. Overall feedback\<newline>'' @
     ''2. Detailed feedback for each question type\<newline>'' @
     ''3. Rubric-based assessment\<newline>'' @
     ''\<newline>'' @
     ''Format your response as JSON:\<newline>'' @
     ''{\<newline>'' @
     ''  "overallFeedback": "Overall feedback text...",\<newline>'' @
     ''  "detailedFeedback": "Detailed analysis...",\<newline>'' @
     ''  "rubricAssessment": [\<newline>'' @
     ''    {\<newline>'' @
     ''      "category": "Category Name",\<newline>'' @
     ''      "score": 20,\<newline>'' @
     ''      "maxScore": 25,\<newline>'' @
     ''      "feedback": "Feedback for this category..."\<newline>'' @
     ''    }\<newline>'' @
     ''  ]\<newline>'' @
     ''}''\<close>

definition test_prompt :: "runtime \<Rightarrow> js \<Rightarrow> js \<Rightarrow> exn + string" where
  "test_prompt rt assignment submission =
     concatE [lit test_intro, sub rt (get assignment ''title''),
              lit ''\<newline>\<newline>STUDENT ANSWERS:\<newline>'',
              tryE (get assignment ''questions'') (\<lambda>questions.
              tryE (as_array questions) (\<lambda>qs.
              tryE (mapE (answer_text rt submission) qs) (\<lambda>parts. Inr (join (newline @ newline) parts)))),
              lit ''\<newline>\<newline>ANSWER KEY:\<newline>'',
              tryE (get assignment ''answerKey'') (\<lambda>answerKey.
              tryE (Object_entries answerKey) (\<lambda>entries.
              tryE (mapE (entry_text rt) entries) (\<lambda>parts. Inr (join newline parts)))),
              lit ''\<newline>\<newline>RUBRIC:\<newline>'', rubric_text rt assignment,
              lit test_outro]"

subsection \<open>Case study\<close>

definition task_text :: "runtime \<Rightarrow> js \<Rightarrow> nat \<times> js \<Rightarrow> exn + string" where
  "task_text rt submission p =
     (case p of (i, task) \<Rightarrow>
        tryE (get submission ''responses'') (\<lambda>responses.
        tryE (get responses (nat_str (i + 1))) (\<lambda>given.
          concatE [lit ''Task '', lit (nat_str (i + 1)), lit '': '', sub rt (Inr task),
                   lit ''\<newline>Response: '',
                   sub rt (Inr (js_or given (JStr ''No response provided'')))])))"

definition case_intro :: string where
  \<open>case_intro =
     ''You are an expert educator evaluating a case study submission.\<newline>'' @
     ''\<newline>'' @
     ''ASSIGNMENT: ''\<close>

definition case_outro :: string where
  \<open>case_outro =
     ''\<newline>'' @
     ''\<newline>'' @
     ''Evaluate the responses based on:\<newline>'' @
     ''- Depth of analysis\<newline>'' @
     ''- Application of concepts\<newline>'' @
     ''- Critical thinking\<newline>'' @
     ''- Quality of reasoning\<newline>'' @
     ''- Completeness of responses\<newline>'' @
     ''\<newline>'' @
     ''Provide:\<newline>'' @
     ''1. Overall feedback\<newline>'' @
     ''2. Detailed feedback for each task\<newline>'' @
     ''3. Rubric-based assessment\<newline>'' @
     ''\<newline>'' @
     ''Format your response as JSON:\<newline>'' @
     ''{\<newline>'' @
     ''  "overallFeedback": "Overall feedback text...",\<newline>'' @
     ''  "detailedFeedback": "Detailed analysis...",\<newline>'' @
     ''  "rubricAssessment": [\<newline>'' @
     ''    {\<newline>'' @
     ''      "category": "Category Name",\<newline>'' @
     ''      "score": 20,\<newline>'' @
     ''      "maxScore": 25,\<newline>'' @
     ''      "feedback": "Feedback for this category..."\<newline>'' @
     ''    }\<newline>'' @
     ''  ]\<newline>'' @
     ''}''\<close>

definition case_study_prompt :: "runtime \<Rightarrow> js \<Rightarrow> js \<Rightarrow> exn + string" where
  "case_study_prompt rt assignment submission =
     concatE [lit case_intro, sub rt (get assignment ''title''),
              lit ''\<newline>CASE STUDY SCENARIO: '', sub rt (get assignment ''scenario''),
              lit ''\<newline>\<newline>STUDENT RESPONSES:\<newline>'',
              tryE (get assignment ''tasks'') (\<lambda>tasks.
              tryE (as_array tasks) (\<lambda>ts.
              tryE (mapE (task_text rt submission) (enumerate0 ts)) (\<lambda>parts. Inr (join (newline @ newline) parts)))),
              lit ''\<newline>\<newline>RUBRIC:\<newline>'', rubric_text rt assignment,
              lit case_outro]"

subsection \<open>The generic prompt\<close>

definition generic_intro :: string where
  \<open>generic_intro =
     ''You are an expert educator evaluating a ''\<close>

definition generic_outro :: string where
  \<open>generic_outro =
     ''\<newline>'' @
     ''\<newline>'' @
     ''Evaluate the submission and provide:\<newline>'' @
     ''1. Overall feedback\<newline>'' @
     ''2. Detailed feedback\<newline>'' @
     ''3. Rubric-based assessment\<newline>'' @
     ''\<newline>'' @
     ''Format your response as JSON:\<newline>'' @
     ''{\<newline>'' @
     ''  "overallFeedback": "Overall feedback text...",\<newline>'' @
     ''  "detailedFeedback": "Detailed analysis...",\<newline>'' @
     ''  "rubricAssessment": [\<newline>'' @
     ''    {\<newline>'' @
     ''      "category": "Category Name",\<newline>'' @
     ''      "score": 20,\<newline>'' @
     ''      "maxScore": 25,\<newline>'' @
     ''      "feedback": "Feedback for this category..."\<newline>'' @
     ''    }\<newline>'' @
     ''  ]\<newline>'' @
     ''}''\<close>

definition generic_prompt :: "runtime \<Rightarrow> js \<Rightarrow> js \<Rightarrow> js \<Rightarrow> exn + string" where
  "generic_prompt rt assignment submission assignmentType =
     concatE [lit generic_intro, sub rt (Inr assignmentType),
              lit '' submission.\<newline>\<newline>ASSIGNMENT: '', sub rt (get assignment ''title''),
              lit ''\<newline>\<newline>STUDENT SUBMISSION:\<newline>'', sub rt (get submission ''text''),
              lit ''\<newline>\<newline>RUBRIC:\<newline>'', rubric_text rt assignment,
              lit generic_outro]"

subsection \<open>The handler\<close>

text \<open>\<^verbatim>\<open>assignmentType === k && submission.type === k\<close>.\<close>

definition kind_is :: "string \<Rightarrow> js \<Rightarrow> js \<Rightarrow> bool" where
  "kind_is k assignmentType submission =
     (assignmentType = JStr k \<and> get submission ''type'' = Inr (JStr k))"

text \<open>Lines 49-303: the prompt for the assignment type, the last branch taking the rest.\<close>

definition build_evaluation_prompt :: "runtime \<Rightarrow> js \<Rightarrow> js \<Rightarrow> js \<Rightarrow> exn + string" where
  "build_evaluation_prompt rt assignment submission assignmentType =
     (if kind_is ''multiple-choice'' assignmentType submission
        then multiple_choice_prompt rt assignment submission
      else if kind_is ''essay'' assignmentType submission
        then essay_prompt rt assignment submission
      else if kind_is ''test'' assignmentType submission
        then test_prompt rt assignment submission
      else if kind_is ''case-study'' assignmentType submission
        then case_study_prompt rt assignment submission
      else generic_prompt rt assignment submission assignmentType)"

text \<open>
  Lines 335-339: \<^verbatim>\<open>rubricAssessment.reduce((sum, item) => sum + (item.score || 0), 0)\<close>.
\<close>

fun reduce_scores :: "runtime \<Rightarrow> js \<Rightarrow> js list \<Rightarrow> exn + js" where
  "reduce_scores rt acc [] = Inr acc"
| "reduce_scores rt acc (item # items) =
     tryE (get item ''score'') (\<lambda>score.
     tryE (js_add rt acc (js_or score (JNum (Fin 0)))) (\<lambda>acc'. reduce_scores rt acc' items))"

text \<open>
  Lines 335-354: from the recovered JSON to the response. \<^verbatim>\<open>NextResponse.json\<close> then
  serialises the body: a property that is \<^verbatim>\<open>undefined\<close> is left out, and a number that
  is \<^verbatim>\<open>NaN\<close> or infinite is written \<^verbatim>\<open>null\<close>.
\<close>

definition results :: "runtime \<Rightarrow> js \<Rightarrow> js \<Rightarrow> exn + js" where
  "results rt assignment evaluationData =
     tryE (get evaluationData ''rubricAssessment'') (\<lambda>rubricAssessment.
     tryE (as_array rubricAssessment) (\<lambda>items.
     tryE (reduce_scores rt (JNum (Fin 0)) items) (\<lambda>totalScore.
     tryE (get assignment ''rubric'') (\<lambda>rubric.
     tryE (get rubric ''totalPoints'') (\<lambda>maxScore.
     tryE (percent rt totalScore maxScore) (\<lambda>percentage.
     tryE (get evaluationData ''overallFeedback'') (\<lambda>overallFeedback.
     tryE (get evaluationData ''detailedFeedback'') (\<lambda>detailedFeedback.
       Inr (JObj [(''totalScore'', totalScore),
                  (''maxScore'', maxScore),
                  (''percentage'', JNum percentage),
                  (''feedback'', js_or overallFeedback (JStr ''Evaluation complete.'')),
                  (''detailedFeedback'', detailedFeedback),
                  (''rubricScores'', js_or rubricAssessment (JArr []))])))))))))"

text \<open>
  \<^verbatim>\<open>POST\<close> of evaluate/route.ts, in two parts. \<open>req\<close> is what \<^verbatim>\<open>await request.json()\<close>
  gives, \<open>env\<close> is \<^verbatim>\<open>process.env.OPENAI_API_KEY\<close>.

  Lines 12-333: the handler either answers early (an outcome), or reaches line 335 with
  the assignment, the prompt it sent and the JSON recovered from the answer.
\<close>

definition recover_evaluation ::
  "runtime \<Rightarrow> string option \<Rightarrow> exn + js \<Rightarrow> outcome + (js \<times> string \<times> js)" where
  "recover_evaluation rt env req =
     (case req of
        Inl e \<Rightarrow> Inl (Caught e, [])
      | Inr body \<Rightarrow>
          (case (get body ''assignment'', get body ''submission'', get body ''assignmentType'') of
             (Inr assignment, Inr submission, Inr assignmentType) \<Rightarrow>
               if \<not> truthy assignment then Inl (ErrorResponse 400 ''Assignment data is required.'', [])
               else if \<not> truthy submission then Inl (ErrorResponse 400 ''Submission data is required.'', [])
               else if \<not> truthy assignmentType then Inl (ErrorResponse 400 ''Assignment type is required.'', [])
               else if \<not> key_configured env then Inl (ErrorResponse 500 key_message, [])
               else
                 (case build_evaluation_prompt rt assignment submission assignmentType of
                    Inl e \<Rightarrow> Inl (Caught e, [])
                  | Inr evaluationPrompt \<Rightarrow>
                      (case generateText rt evaluationPrompt of
                         Inl e \<Rightarrow> Inl (Caught e, [evaluationPrompt])
                       | Inr text \<Rightarrow>
                           (case extract_json rt ''Could not parse evaluation data from AI response'' text of
                              Inl e \<Rightarrow> Inl (Caught e, [evaluationPrompt])
                            | Inr evaluationData \<Rightarrow> Inr (assignment, evaluationPrompt, evaluationData))))
           | _ \<Rightarrow> Inl (Caught TypeError, [])))"

text \<open>Lines 335-372: the scores are computed and the response is built.\<close>

definition POST_evaluate :: "runtime \<Rightarrow> string option \<Rightarrow> exn + js \<Rightarrow> outcome" where
  "POST_evaluate rt env req =
     (case recover_evaluation rt env req of
        Inl out \<Rightarrow> out
      | Inr (assignment, evaluationPrompt, evaluationData) \<Rightarrow>
          (case results rt assignment evaluationData of
             Inl e \<Rightarrow> (Caught e, [evaluationPrompt])
           | Inr res \<Rightarrow>
               (Success (JObj [(''success'', JBool True), (''results'', res)]), [evaluationPrompt])))"

section \<open>A runtime for the examples\<close>

text \<open>
  The theorems below hold for every runtime. Their examples are evaluated with
  \<^verbatim>\<open>JSON.parse\<close> written out: the JSON grammar (objects, arrays, strings with their
  escapes, numbers, the three literals; white space is SP, TAB, LF and CR), a repeated
  key keeping its first place and its last value. The fuel of the three mutually recursive functions is the
  length of the text, one unit per nested value.
\<close>

definition is_json_ws :: "char \<Rightarrow> bool" where
  "is_json_ws c = (c = CHR 0x20 \<or> c = CHR 0x09 \<or> c = CHR 0x0A \<or> c = CHR 0x0D)"

definition skip_ws :: "string \<Rightarrow> string" where
  "skip_ws s = dropWhile is_json_ws s"

text \<open>
  A number: an optional minus, the integer digits (no leading zero), an optional fraction
  and an optional exponent. Its value is the double nearest to the decimal number.
\<close>

definition number_value :: "bool \<Rightarrow> string \<Rightarrow> string \<Rightarrow> bool \<Rightarrow> string \<Rightarrow> jsnum" where
  "number_value neg ip fp eneg ep =
     (let mant = (of_nat (digits_val (ip @ fp)) / 10 ^ length fp :: rat);
          x = (if eneg then mant / 10 ^ digits_val ep else mant * 10 ^ digits_val ep)
      in if x = 0 then signed_zero neg else fl (if neg then - x else x))"

definition exponent_digits ::
  "bool \<Rightarrow> string \<Rightarrow> string \<Rightarrow> bool \<Rightarrow> string \<Rightarrow> (jsnum \<times> string) option" where
  "exponent_digits neg ip fp eneg r =
     (if takeWhile is_digit r = [] then None
      else Some (number_value neg ip fp eneg (takeWhile is_digit r), dropWhile is_digit r))"

definition parse_exponent :: "bool \<Rightarrow> string \<Rightarrow> string \<Rightarrow> string \<Rightarrow> (jsnum \<times> string) option" where
  "parse_exponent neg ip fp r =
     (case r of
        [] \<Rightarrow> Some (number_value neg ip fp False [], r)
      | c # r' \<Rightarrow>
          if c = CHR ''e'' \<or> c = CHR ''E'' then
            (case r' of
               [] \<Rightarrow> None
             | d # r'' \<Rightarrow>
                 if d = CHR ''-'' then exponent_digits neg ip fp True r''
                 else if d = CHR ''+'' then exponent_digits neg ip fp False r''
                 else exponent_digits neg ip fp False r')
          else Some (number_value neg ip fp False [], r))"

definition parse_fraction :: "bool \<Rightarrow> string \<Rightarrow> string \<Rightarrow> (jsnum \<times> string) option" where
  "parse_fraction neg ip r =
     (case r of
        [] \<Rightarrow> parse_exponent neg ip [] r
      | c # r' \<Rightarrow>
          if c = CHR ''.'' then
            (if takeWhile is_digit r' = [] then None
             else parse_exponent neg ip (takeWhile is_digit r') (dropWhile is_digit r'))
          else parse_exponent neg ip [] r)"

definition parse_integer :: "bool \<Rightarrow> string \<Rightarrow> (jsnum \<times> string) option" where
  "parse_integer neg s =
     (if takeWhile is_digit s = []
         \<or> (1 < length (takeWhile is_digit s) \<and> hd (takeWhile is_digit s) = CHR ''0'')
      then None
      else parse_fraction neg (takeWhile is_digit s) (dropWhile is_digit s))"

definition parse_number :: "string \<Rightarrow> (jsnum \<times> string) option" where
  "parse_number s =
     (case s of
        [] \<Rightarrow> None
      | c # cs \<Rightarrow> if c = CHR ''-'' then parse_integer True cs else parse_integer False s)"

definition hex_val :: "char \<Rightarrow> nat option" where
  "hex_val c =
     (let n = (of_char c :: nat)
      in if 48 \<le> n \<and> n \<le> 57 then Some (n - 48)
         else if 65 \<le> n \<and> n \<le> 70 then Some (n - 55)
         else if 97 \<le> n \<and> n \<le> 102 then Some (n - 87)
         else None)"

definition hex4 :: "char \<Rightarrow> char \<Rightarrow> char \<Rightarrow> char \<Rightarrow> nat option" where
  "hex4 a b c d =
     (case (hex_val a, hex_val b, hex_val c, hex_val d) of
        (Some w, Some x, Some y, Some z) \<Rightarrow> Some (4096 * w + 256 * x + 16 * y + z)
      | _ \<Rightarrow> None)"

definition simple_escape :: "char \<Rightarrow> char option" where
  "simple_escape e =
     (if e = CHR 0x22 then Some (CHR 0x22)
      else if e = CHR 0x5C then Some (CHR 0x5C)
      else if e = CHR ''/'' then Some (CHR ''/'')
      else if e = CHR ''b'' then Some (CHR 0x08)
      else if e = CHR ''f'' then Some (CHR 0x0C)
      else if e = CHR ''n'' then Some (CHR 0x0A)
      else if e = CHR ''r'' then Some (CHR 0x0D)
      else if e = CHR ''t'' then Some (CHR 0x09)
      else None)"

text \<open>
  The characters of a string, after its opening quote, up to the closing one. A high
  surrogate escape followed by a low one is one code point.
\<close>

function parse_chars :: "string \<Rightarrow> string \<Rightarrow> (string \<times> string) option" where
  "parse_chars acc s =
     (case s of
        [] \<Rightarrow> None
      | c # cs \<Rightarrow>
          if c = CHR 0x22 then Some (acc, cs)
          else if c = CHR 0x5C then
            (case cs of
               [] \<Rightarrow> None
             | e # es \<Rightarrow>
                 if e = CHR ''u'' then
                   (if length es < 4 then None
                    else case hex4 (es ! 0) (es ! 1) (es ! 2) (es ! 3) of
                      None \<Rightarrow> None
                    | Some hi \<Rightarrow>
                        (if 0xD800 \<le> hi \<and> hi < 0xDC00 \<and> 10 \<le> length es
                            \<and> es ! 4 = CHR 0x5C \<and> es ! 5 = CHR ''u''
                         then (case hex4 (es ! 6) (es ! 7) (es ! 8) (es ! 9) of
                                 Some lo \<Rightarrow>
                                   if 0xDC00 \<le> lo \<and> lo < 0xE000
                                   then parse_chars
                                          (acc @ utf8 (0x10000 + (hi - 0xD800) * 1024 + (lo - 0xDC00)))
                                          (drop 10 es)
                                   else parse_chars (acc @ utf8 hi) (drop 4 es)
                               | None \<Rightarrow> parse_chars (acc @ utf8 hi) (drop 4 es))
                         else parse_chars (acc @ utf8 hi) (drop 4 es)))
                 else (case simple_escape e of
                         Some ch \<Rightarrow> parse_chars (acc @ [ch]) es
                       | None \<Rightarrow> None))
          else if (of_char c :: nat) < 0x20 then None
          else parse_chars (acc @ [c]) cs)"
  by pat_completeness auto
termination
  by (relation "measure (\<lambda>(acc, s). length s)") auto

declare parse_chars.simps [simp del]

text \<open>\<^verbatim>\<open>obj[k] = v\<close> while the object is built.\<close>

definition put :: "(string \<times> js) list \<Rightarrow> string \<Rightarrow> js \<Rightarrow> (string \<times> js) list" where
  "put kvs k v =
     (if k \<in> fst ` set kvs then map (\<lambda>kv. if fst kv = k then (k, v) else kv) kvs
      else kvs @ [(k, v)])"

fun parse_value :: "nat \<Rightarrow> string \<Rightarrow> (js \<times> string) option"
  and parse_elements :: "nat \<Rightarrow> js list \<Rightarrow> string \<Rightarrow> (js \<times> string) option"
  and parse_members :: "nat \<Rightarrow> (string \<times> js) list \<Rightarrow> string \<Rightarrow> (js \<times> string) option" where
  "parse_value 0 s = None"
| "parse_value (Suc n) s =
     (case s of
        [] \<Rightarrow> None
      | c # cs \<Rightarrow>
          if c = CHR ''{'' then
            (case skip_ws cs of
               [] \<Rightarrow> None
             | d # ds \<Rightarrow> if d = CHR ''}'' then Some (JObj [], ds) else parse_members n [] (d # ds))
          else if c = CHR ''['' then
            (case skip_ws cs of
               [] \<Rightarrow> None
             | d # ds \<Rightarrow> if d = CHR '']'' then Some (JArr [], ds) else parse_elements n [] (d # ds))
          else if c = CHR 0x22 then
            (case parse_chars [] cs of None \<Rightarrow> None | Some (str, r) \<Rightarrow> Some (JStr str, r))
          else if startsWith s ''true'' then Some (JBool True, drop 4 s)
          else if startsWith s ''false'' then Some (JBool False, drop 5 s)
          else if startsWith s ''null'' then Some (JNull, drop 4 s)
          else (case parse_number s of None \<Rightarrow> None | Some (x, r) \<Rightarrow> Some (JNum x, r)))"
| "parse_elements 0 acc s = None"
| "parse_elements (Suc n) acc s =
     (case parse_value n s of
        None \<Rightarrow> None
      | Some (v, r) \<Rightarrow>
          (case skip_ws r of
             [] \<Rightarrow> None
           | d # ds \<Rightarrow>
               if d = CHR '','' then parse_elements n (acc @ [v]) (skip_ws ds)
               else if d = CHR '']'' then Some (JArr (acc @ [v]), ds)
               else None))"
| "parse_members 0 acc s = None"
| "parse_members (Suc n) acc s =
     (case s of
        [] \<Rightarrow> None
      | c # cs \<Rightarrow>
          if c \<noteq> CHR 0x22 then None
          else
            (case parse_chars [] cs of
               None \<Rightarrow> None
             | Some (k, r) \<Rightarrow>
                 (case skip_ws r of
                    [] \<Rightarrow> None
                  | d # ds \<Rightarrow>
                      if d \<noteq> CHR '':'' then None
                      else
                        (case parse_value n (skip_ws ds) of
                           None \<Rightarrow> None
                         | Some (v, r2) \<Rightarrow>
                             (case skip_ws r2 of
                                [] \<Rightarrow> None
                              | e # es \<Rightarrow>
                                  if e = CHR '','' then parse_members n (put acc k v) (skip_ws es)
                                  else if e = CHR ''}'' then Some (JObj (put acc k v), es)
                                  else None)))))"

definition json_parse :: "string \<Rightarrow> js option" where
  "json_parse s =
     (case parse_value (Suc (length s)) (skip_ws s) of
        None \<Rightarrow> None
      | Some (v, r) \<Rightarrow> if skip_ws r = [] then Some v else None)"

text \<open>
  Of the members that values inherit, the examples have the five constructors and
  \<^verbatim>\<open>hasOwnProperty\<close>, which every value finds in the same place; a built-in function
  prints as the engine V8 prints it.
\<close>

definition example_inherited :: "js \<Rightarrow> string \<Rightarrow> nat option" where
  "example_inherited v k =
     (if k = ''constructor'' then
        (case v of
           JObj kvs \<Rightarrow> Some 0
         | JArr xs \<Rightarrow> Some 1
         | JStr s \<Rightarrow> Some 2
         | JNum n \<Rightarrow> Some 3
         | JBool b \<Rightarrow> Some 4
         | _ \<Rightarrow> None)
      else if k = ''hasOwnProperty'' \<and> v \<noteq> JUndefined \<and> v \<noteq> JNull then Some 5
      else None)"

definition example_native :: "nat \<Rightarrow> string" where
  "example_native i =
     ''function '' @
     [''Object'', ''Array'', ''String'', ''Number'', ''Boolean'', ''hasOwnProperty''] ! i @
     ''() { [native code] }''"

text \<open>
  The runtime of the examples: the model answers every prompt with the text \<open>answer\<close>.
  No example converts a string to a number or prints a number that is not an integer,
  so these two fields are never applied there.
\<close>

definition example_runtime :: "string \<Rightarrow> runtime" where
  "example_runtime answer =
     \<lparr>JSON_parse = json_parse, generateText = (\<lambda>prompt. Inr answer),
      Number_toString = (\<lambda>r. []), StringToNumber = (\<lambda>s. NaN),
      inherited = example_inherited, Native_toString = example_native\<rparr>"

section \<open>Notions of the statements\<close>

text \<open>
  A field of the request body that fails the test \<^verbatim>\<open>!body.k\<close>: absent or falsy.
\<close>

definition field_missing :: "js \<Rightarrow> string \<Rightarrow> bool" where
  "field_missing body k = (case get body k of Inr v \<Rightarrow> \<not> truthy v | Inl e \<Rightarrow> True)"

text \<open>
  The recovered JSON has an array under \<^verbatim>\<open>rubricAssessment\<close>.
\<close>

definition has_assessment_array :: "js \<Rightarrow> bool" where
  "has_assessment_array v = (case get v ''rubricAssessment'' of Inr (JArr xs) \<Rightarrow> True | _ \<Rightarrow> False)"

text \<open>
  The values that the operator \<^verbatim>\<open>+\<close> returns.
\<close>

definition num_or_str :: "js \<Rightarrow> bool" where
  "num_or_str v = (case v of JNum n \<Rightarrow> True | JStr s \<Rightarrow> True | _ \<Rightarrow> False)"

text \<open>
  \<^verbatim>\<open>totalPoints\<close> is zero or absent (or \<^verbatim>\<open>null\<close>).
\<close>

definition zero_or_absent :: "js \<Rightarrow> bool" where
  "zero_or_absent v = (v = JUndefined \<or> v = JNull \<or> v = JNum (Fin 0) \<or> v = JNum NZero)"

text \<open>
  A number that is \<^verbatim>\<open>NaN\<close> or infinite.
\<close>

definition not_finite :: "jsnum \<Rightarrow> bool" where
  "not_finite p = (p = NaN \<or> p = PInf \<or> p = NInf)"

text \<open>
  \<^verbatim>\<open>assignment.rubric.totalPoints\<close>.
\<close>

definition max_score :: "js \<Rightarrow> exn + js" where
  "max_score assignment = tryE (get assignment ''rubric'') (\<lambda>rubric. get rubric ''totalPoints'')"

text \<open>
  An entry whose score can be read and made primitive without an exception.
\<close>

definition scorable :: "runtime \<Rightarrow> js \<Rightarrow> bool" where
  "scorable rt item =
     (case get item ''score'' of
        Inr s \<Rightarrow> (case ToPrimitive rt s of Inr p \<Rightarrow> True | Inl e \<Rightarrow> False)
      | Inl e \<Rightarrow> False)"

text \<open>A printable ASCII character other than the space.\<close>

definition plain :: "char \<Rightarrow> bool" where
  "plain c = (33 \<le> (of_char c :: nat) \<and> (of_char c :: nat) \<le> 126)"

text \<open>
  What \<^verbatim>\<open>JSON.stringify\<close> prints for an object starts with an opening brace and ends
  with a closing brace.
\<close>

definition object_text :: "string \<Rightarrow> bool" where
  "object_text s = (s \<noteq> [] \<and> hd s = CHR ''{'' \<and> last s = CHR ''}'')"

text \<open>
  The text \<open>t\<close> is \<open>s\<close> after a text without an opening brace and before a text without a
  closing brace.
\<close>

definition wraps :: "string \<Rightarrow> string \<Rightarrow> bool" where
  "wraps s t = (\<exists>p q. t = p @ s @ q \<and> CHR ''{'' \<notin> set p \<and> CHR ''}'' \<notin> set q)"

text \<open>
  The text \<open>s\<close> in a fence of three backquotes, the opening one followed by \<open>tag\<close>.
\<close>

definition fence :: "string \<Rightarrow> string \<Rightarrow> string" where
  "fence tag s = ''```'' @ tag @ newline @ s @ newline @ ''```''"

text \<open>A \<^verbatim>\<open>{\<close> with a \<^verbatim>\<open>}\<close> somewhere after it.\<close>

definition has_span :: "string \<Rightarrow> bool" where
  "has_span t = (CHR ''}'' \<in> set (dropWhile (\<lambda>c. c \<noteq> CHR ''{'') t))"

text \<open>
  \<open>x\<close> is a substring of the text.
\<close>

fun contains :: "string \<Rightarrow> string \<Rightarrow> bool" where
  "contains [] x = (x = [])"
| "contains (c # cs) x = (startsWith (c # cs) x \<or> contains cs x)"

text \<open>
  \<^verbatim>\<open>submission.answers[q.number] === assignment.answerKey[q.number.toString()]\<close>, false when
  reading either side throws.
\<close>

definition answered_correctly :: "runtime \<Rightarrow> js \<Rightarrow> js \<Rightarrow> js \<Rightarrow> bool" where
  "answered_correctly rt answers answerKey q =
     (case get q ''number'' of
        Inr number \<Rightarrow>
          (case (tryE (ToString rt number) (lookup rt answers),
                 tryE (toString_call rt number) (lookup rt answerKey)) of
             (Inr student, Inr correct) \<Rightarrow> member_eq student correct
           | _ \<Rightarrow> False)
      | Inl e \<Rightarrow> False)"

text \<open>
  The objective score: the points of the questions answered as the key says, added by
  \<^verbatim>\<open>+\<close> from 0 in the order of the questions.
\<close>

definition objective_score :: "runtime \<Rightarrow> js \<Rightarrow> js \<Rightarrow> js list \<Rightarrow> exn + js" where
  "objective_score rt answers answerKey qs =
     points_sum rt (JNum (Fin 0)) (filter (answered_correctly rt answers answerKey) qs)"

text \<open>
  The scores of the entries are the integers \<open>ks\<close>, in order.
\<close>

definition integer_scores :: "js list \<Rightarrow> int list \<Rightarrow> bool" where
  "integer_scores items ks =
     (map (\<lambda>i. get i ''score'') items = map (\<lambda>k. Inr (JNum (Fin (of_int k)))) ks)"

text \<open>
  The percentage as the specification words it: \<open>100 * totalScore / maxScore\<close> on exact
  numbers, rounded to the nearest integer, halves upwards.
\<close>

definition spec_percentage :: "rat \<Rightarrow> rat \<Rightarrow> int" where
  "spec_percentage totalScore maxScore = \<lfloor>100 * totalScore / maxScore + 1 / 2\<rfloor>"

text \<open>The scores of the entries are the finite numbers \<open>rs\<close>, in order.\<close>

definition number_scores :: "js list \<Rightarrow> rat list \<Rightarrow> bool" where
  "number_scores items rs =
     (map (\<lambda>i. get i ''score'') items = map (\<lambda>r. Inr (JNum (Fin r))) rs)"

text \<open>
  \<open>100 * k / m\<close> lies half-way between two integers: \<open>200 * k / m\<close> is an odd integer.
\<close>

definition half_way :: "int \<Rightarrow> int \<Rightarrow> bool" where
  "half_way k m = ((200 * k) mod m = 0 \<and> odd ((200 * k) div m))"

section \<open>Example requests\<close>

text \<open>
  An assignment of no special kind, with an empty rubric worth \<open>totalPoints\<close>, and a
  submission for it.
\<close>

definition example_assignment :: "js \<Rightarrow> js" where
  "example_assignment totalPoints =
     JObj [(''title'', JStr ''Bridge''),
           (''rubric'', JObj [(''categories'', JArr []), (''totalPoints'', totalPoints)])]"

definition example_submission :: js where
  "example_submission = JObj [(''type'', JStr ''project''), (''text'', JStr ''my work'')]"

definition example_body :: "string \<Rightarrow> js \<Rightarrow> js" where
  "example_body kind totalPoints =
     JObj [(''assignment'', example_assignment totalPoints),
           (''submission'', example_submission),
           (''assignmentType'', JStr kind)]"

text \<open>
  The prompt of the generic branch for that request.
\<close>

definition example_prompt :: "string \<Rightarrow> string" where
  "example_prompt kind =
     generic_intro @ kind @ '' submission.\<newline>\<newline>ASSIGNMENT: '' @ ''Bridge'' @
     ''\<newline>\<newline>STUDENT SUBMISSION:\<newline>'' @ ''my work'' @ ''\<newline>\<newline>RUBRIC:\<newline>'' @ generic_outro"

text \<open>
  An answer of the model and the JSON it holds: two rubric entries, scores 20 and 15.
\<close>

definition example_answer :: string where
  \<open>example_answer = ''{"overallFeedback": "ok", "rubricAssessment": [{"score":20,"maxScore":25},{"score":15,"maxScore":25}]}''\<close>

definition example_data :: js where
  "example_data =
     JObj [(''overallFeedback'', JStr ''ok''),
           (''rubricAssessment'', JArr [JObj [(''score'', JNum (Fin 20)), (''maxScore'', JNum (Fin 25))],
                                        JObj [(''score'', JNum (Fin 15)), (''maxScore'', JNum (Fin 25))]])]"

text \<open>
  A quiz of two questions, worth \<open>p1\<close> and \<open>p2\<close> points, whose key is A and B; the
  submission answers A to the first question and \<open>second\<close> to the other.
\<close>

definition example_question :: "nat \<Rightarrow> string \<Rightarrow> nat \<Rightarrow> js" where
  "example_question n q p =
     JObj [(''number'', JNum (Fin (of_nat n))), (''type'', JStr ''multiple-choice''),
           (''question'', JStr q), (''points'', JNum (Fin (of_nat p)))]"

definition quiz_assignment :: "nat \<Rightarrow> nat \<Rightarrow> js" where
  "quiz_assignment p1 p2 =
     JObj [(''title'', JStr ''Quiz''),
           (''questions'', JArr [example_question 1 ''First?'' p1, example_question 2 ''Second?'' p2]),
           (''answerKey'', JObj [(''1'', JStr ''A''), (''2'', JStr ''B'')]),
           (''rubric'', JObj [(''categories'', JArr []), (''totalPoints'', JNum (Fin 10))])]"

definition quiz_submission :: "string \<Rightarrow> string \<Rightarrow> js" where
  "quiz_submission kind second =
     JObj [(''type'', JStr kind), (''answers'', JObj [(''1'', JStr ''A''), (''2'', JStr second)])]"

definition quiz_body :: "string \<Rightarrow> nat \<Rightarrow> nat \<Rightarrow> string \<Rightarrow> js" where
  "quiz_body kind p1 p2 second =
     JObj [(''assignment'', quiz_assignment p1 p2),
           (''submission'', quiz_submission kind second),
           (''assignmentType'', JStr kind)]"

text \<open>
  The prompts built for the quiz: as a multiple-choice submission with the answers A and C
  and 5 points a question, and as a test with the answers A and B and 3 and 4 points.
\<close>

definition multiple_choice_example_prompt :: string where
  "multiple_choice_example_prompt =
     mc_intro @ ''Quiz'' @
     ''\<newline>\<newline>STUDENT PERFORMANCE:\<newline>- Correct Answers: 1 out of 2'' @
     ''\<newline>- Points Earned: 5 out of 10'' @
     ''\<newline>- Percentage: 50%\<newline>\<newline>QUESTION-BY-QUESTION BREAKDOWN:\<newline>'' @
     ''\<newline>1. First?\<newline>   Student Answer: A\<newline>   Correct Answer: A\<newline>   Result: '' @
     check_mark @ '' Correct\<newline>   Points: 5 / 5\<newline>'' @ newline @
     ''\<newline>2. Second?\<newline>   Student Answer: C\<newline>   Correct Answer: B\<newline>   Result: '' @
     cross_mark @ '' Incorrect\<newline>   Points: 0 / 5\<newline>'' @
     ''\<newline>\<newline>RUBRIC:\<newline>'' @ mc_outro"

definition test_example_prompt :: string where
  "test_example_prompt =
     test_intro @ ''Quiz'' @ ''\<newline>\<newline>STUDENT ANSWERS:\<newline>'' @
     ''1. [multiple-choice] First?\<newline>   Student Answer: A\<newline>   Points: 3'' @ newline @ newline @
     ''2. [multiple-choice] Second?\<newline>   Student Answer: B\<newline>   Points: 4'' @
     ''\<newline>\<newline>ANSWER KEY:\<newline>'' @ ''1. A'' @ newline @ ''2. B'' @
     ''\<newline>\<newline>RUBRIC:\<newline>'' @ test_outro"

section \<open>Theorems\<close>

subsection \<open>Rounding to a double\<close>

text \<open>
  \<open>ilog2\<close> is the binary exponent of its argument, so \<open>fl\<close> rounds at the right
  precision; an integer below \<open>2^53\<close> in magnitude is a double.
\<close>

lemma bitlen_powi:
  assumes "0 < n"
  shows "(2::rat) powi (bitlen n - 1) \<le> of_int n" "of_int n < (2::rat) powi (bitlen n)"
proof -
  have b: "2 ^ nat (bitlen n - 1) \<le> n" "n < 2 ^ nat (bitlen n)"
    using bitlen_bounds [OF assms] by auto
  have pos: "0 < bitlen n"
  proof (rule ccontr)
    assume "\<not> 0 < bitlen n"
    then have "nat (bitlen n) = 0" by simp
    then show False using b(2) assms by simp
  qed
  have "(2::rat) powi (bitlen n - 1) = 2 ^ nat (bitlen n - 1)"
    using pos by (simp add: power_int_def)
  also have "\<dots> = of_int (2 ^ nat (bitlen n - 1))" by simp
  also have "\<dots> \<le> of_int n" using b(1) by (simp only: of_int_le_iff)
  finally show "(2::rat) powi (bitlen n - 1) \<le> of_int n" .
  have "of_int n < (of_int (2 ^ nat (bitlen n)) :: rat)" using b(2) by (simp only: of_int_less_iff)
  also have "\<dots> = 2 powi (bitlen n)" using pos by (simp add: power_int_def)
  finally show "of_int n < (2::rat) powi (bitlen n)" .
qed

lemma ilog2_bounds:
  assumes "0 < x"
  shows "2 powi (ilog2 x) \<le> x \<and> x < 2 powi (ilog2 x + 1)"
proof -
  obtain p q where pq: "quotient_of x = (p, q)" by (cases "quotient_of x")
  have q: "0 < q" using pq quotient_of_denom_pos by blast
  have x: "x = of_int p / of_int q" using pq quotient_of_div by blast
  have p: "0 < p" using assms q x by (simp add: zero_less_divide_iff)
  let ?d = "bitlen p - bitlen q"
  have up: "x < 2 powi (?d + 1)"
  proof -
    have "x < 2 powi (bitlen p) / 2 powi (bitlen q - 1)"
      unfolding x using bitlen_powi [OF p] bitlen_powi [OF q] q p
      by (intro frac_less) auto
    also have "\<dots> = 2 powi (bitlen p - (bitlen q - 1))"
      by (rule power_int_diff [symmetric]) simp
    also have "bitlen p - (bitlen q - 1) = ?d + 1" by simp
    finally show ?thesis .
  qed
  have lo: "2 powi (?d - 1) \<le> x"
  proof -
    have "?d - 1 = bitlen p - 1 - bitlen q" by simp
    also have "(2::rat) powi (bitlen p - 1 - bitlen q) = 2 powi (bitlen p - 1) / 2 powi (bitlen q)"
      by (rule power_int_diff) simp
    also have "\<dots> \<le> x"
      unfolding x using bitlen_powi [OF p] bitlen_powi [OF q] q p
      by (intro frac_le) auto
    finally show ?thesis .
  qed
  show ?thesis
    using up lo pq by (auto simp: ilog2_def Let_def)
qed

lemma ilog2_unique:
  assumes "0 < x" "2 powi l \<le> x" "x < 2 powi (l + 1)"
  shows "ilog2 x = l"
proof -
  have b: "2 powi (ilog2 x) \<le> x" "x < 2 powi (ilog2 x + 1)"
    using ilog2_bounds [OF assms(1)] by auto
  have lt: "j < k" if "(2::rat) powi j < 2 powi k" for j k :: int
  proof (rule ccontr)
    assume "\<not> j < k"
    then have "(2::rat) powi k \<le> 2 powi j" by (intro power_int_increasing) auto
    then show False using that by simp
  qed
  have "(2::rat) powi l < 2 powi (ilog2 x + 1)" using assms(2) b(2) by simp
  then have 1: "l < ilog2 x + 1" by (rule lt)
  have "(2::rat) powi (ilog2 x) < 2 powi (l + 1)" using assms(3) b(1) by simp
  then have 2: "ilog2 x < l + 1" by (rule lt)
  show ?thesis using 1 2 by simp
qed

lemma round_half_even_int: "round_half_even (of_int k) = k"
  by (simp add: round_half_even_def)

lemma floor_numeral_div_rat: "\<lfloor>(numeral a / numeral b :: rat)\<rfloor> = numeral a div numeral b"
  by (metis floor_divide_of_int_eq of_int_numeral)

lemma fl_eval:
  assumes "x \<noteq> 0" "2 powi l \<le> \<bar>x\<bar>" "\<bar>x\<bar> < 2 powi (l + 1)"
  shows "fl x =
        (let a = \<bar>x\<bar>;
             e = max (l - 52) (- 1074);
             m = round_half_even (a / 2 powi e);
             v = of_int m * 2 powi e
         in if 2 ^ 1024 \<le> v then (if x < 0 then NInf else PInf)
            else if m = 0 then (if x < 0 then NZero else Fin 0)
            else Fin (if x < 0 then - v else v))"
proof -
  have "ilog2 \<bar>x\<bar> = l" using assms by (intro ilog2_unique) auto
  then show ?thesis using assms(1) by (simp add: fl_def)
qed

lemma fl_int:
  assumes "\<bar>n\<bar> < 2 ^ 53"
  shows "fl (of_int n) = Fin (of_int n)"
proof (cases "n = 0")
  case True
  then show ?thesis by (simp add: fl_def)
next
  case False
  let ?a = "\<bar>of_int n\<bar> :: rat"
  let ?l = "ilog2 ?a"
  have a: "?a = of_int \<bar>n\<bar>" by simp
  have pos: "0 < ?a" using False by simp
  have b: "2 powi ?l \<le> ?a" "?a < 2 powi (?l + 1)"
    using ilog2_bounds [OF pos] by auto
  have "?a < 2 ^ 53" using assms unfolding a by (metis of_int_less_iff of_int_numeral of_int_power)
  then have "(2::rat) powi ?l < 2 powi 53" using b(1) by simp
  then have l53: "?l < 53"
    by (metis linorder_not_less numeral_le_one_iff one_le_numeral power_int_increasing semiring_norm(69))
  have "1 \<le> \<bar>n\<bar>" using False by simp
  then have "1 \<le> ?a" unfolding a by (simp only: of_int_1_le_iff)
  then have "(2::rat) powi 0 < 2 powi (?l + 1)" using b(2) by simp
  then have l0: "0 \<le> ?l"
    by (smt (verit) linorder_not_less one_le_numeral power_int_increasing)
  define k where "k = nat (52 - ?l)"
  have e: "max (?l - 52) (- 1074) = - int k" using l0 l53 by (simp add: k_def)
  have q: "?a / 2 powi (- int k) = of_int (\<bar>n\<bar> * 2 ^ k)"
    by (simp add: power_int_minus field_simps)
  have m: "round_half_even (?a / 2 powi (- int k)) = \<bar>n\<bar> * 2 ^ k"
    unfolding q by (rule round_half_even_int)
  have v: "of_int (\<bar>n\<bar> * 2 ^ k) * 2 powi (- int k) = ?a"
    by (simp add: power_int_minus field_simps)
  have small: "\<not> (2 ^ 1024 \<le> ?a)"
  proof -
    have "?a < 2 ^ 53" by fact
    also have "\<dots> \<le> (2::rat) ^ 1024" by (intro power_increasing) auto
    finally show ?thesis by simp
  qed
  have nz: "\<bar>n\<bar> * 2 ^ k \<noteq> 0" using False by simp
  have "fl (of_int n) = Fin (if (of_int n :: rat) < 0 then - ?a else ?a)"
    using False small nz
    by (simp only: fl_def e m v Let_def of_int_eq_0_iff if_False)
  then show ?thesis by (simp add: abs_if)
qed

lemma fl_numeral: "numeral k < (2::int) ^ 53 \<Longrightarrow> fl (numeral k) = Fin (numeral k)"
  using fl_int [of "numeral k"] by simp

lemma fl_one: "fl 1 = Fin 1"
  using fl_int [of 1] by simp

text \<open>
  A positive number in the normal range rounds to a double within the relative error
  \<open>2^-53\<close>. So the quotient of two integers, rounded, then multiplied by 100 and rounded
  again, misses \<open>100 * k / m\<close> by less than \<open>1 / (2 * m)\<close> when \<open>k\<close> is at most \<open>10^12\<close>: the
  nearest integer is the same, unless the exact value lies half-way between two integers.
\<close>

lemma round_half_even_near: "\<bar>of_int (round_half_even q) - q\<bar> \<le> 1 / 2"
proof -
  have "of_int \<lfloor>q\<rfloor> \<le> q" "q < of_int \<lfloor>q\<rfloor> + 1" by linarith+
  then show ?thesis by (auto simp: round_half_even_def Let_def)
qed

lemma powi_less_cancel: "(2::rat) powi j < 2 powi k \<Longrightarrow> j < k"
proof (rule ccontr)
  assume a: "(2::rat) powi j < 2 powi k" "\<not> j < k"
  then have "(2::rat) powi k \<le> 2 powi j" by (intro power_int_increasing) auto
  then show False using a(1) by simp
qed

lemma fl_near:
  assumes "2 powi (- 1022) \<le> x" and "x < 2 ^ 1023"
  shows "\<exists>y. fl x = Fin y \<and> 0 < y \<and> \<bar>y - x\<bar> \<le> x * 2 powi (- 53)"
proof -
  have pos: "0 < x"
  proof -
    have "(0::rat) < 2 powi (- 1022)" by simp
    then show ?thesis using assms(1) by linarith
  qed
  define l where "l = ilog2 x"
  have b: "2 powi l \<le> x" "x < 2 powi (l + 1)"
    using ilog2_bounds [OF pos] by (auto simp: l_def)
  have "(2::rat) powi (- 1022) < 2 powi (l + 1)" using assms(1) b(2) by linarith
  then have l: "- 1022 < l + 1" by (rule powi_less_cancel)
  then have e: "max (l - 52) (- 1074) = l - 52" by simp
  define s :: rat where "s = 2 powi (l - 52)"
  have s: "0 < s" by (simp add: s_def)
  define m where "m = round_half_even (x / s)"
  have near: "\<bar>of_int m - x / s\<bar> \<le> 1 / 2" unfolding m_def by (rule round_half_even_near)
  have l52: "(2::rat) powi l = 2 powi (l - 52) * 2 ^ 52"
  proof -
    have "(2::rat) powi l = 2 powi ((l - 52) + 52)" by simp
    also have "\<dots> = 2 powi (l - 52) * 2 powi 52" by (rule power_int_add) simp
    finally show ?thesis by simp
  qed
  have l53: "(2::rat) powi l * 2 powi (- 53) = s / 2"
  proof -
    have "(2::rat) powi (l - 52) = 2 powi (l + (- 52))" by simp
    also have "\<dots> = 2 powi l * 2 powi (- 52)" by (rule power_int_add) simp
    finally have "s = 2 powi l * 2 powi (- 52)" by (simp add: s_def)
    moreover have "(2::rat) powi (- 52) / 2 = 2 powi (- 53)" by (simp add: power_int_minus)
    ultimately show ?thesis by simp
  qed
  have q: "2 ^ 52 \<le> x / s"
  proof -
    have "s * 2 ^ 52 \<le> x" using b(1) l52 by (simp add: s_def)
    then show ?thesis using s by (simp add: pos_le_divide_eq mult.commute)
  qed
  have "(1::rat) \<le> 2 ^ 52 - 1 / 2" by simp
  then have "1 / 2 < (of_int m :: rat)" using near q by linarith
  then have m1: "1 \<le> m" by linarith
  define v :: rat where "v = of_int m * s"
  have vpos: "0 < v" using m1 s by (simp add: v_def)
  have "v - x = (of_int m - x / s) * s" using s by (simp add: v_def field_simps)
  then have "\<bar>v - x\<bar> = \<bar>of_int m - x / s\<bar> * s" using s by (simp add: abs_mult)
  also have "\<dots> \<le> 1 / 2 * s" using near s by (intro mult_right_mono) auto
  also have "\<dots> = 2 powi l * 2 powi (- 53)" using l53 by simp
  also have "\<dots> \<le> x * 2 powi (- 53)" using b(1) by (intro mult_right_mono) auto
  finally have err: "\<bar>v - x\<bar> \<le> x * 2 powi (- 53)" .
  have "(2::rat) powi (- 53) \<le> 1" by (simp add: power_int_minus field_simps)
  then have "x * 2 powi (- 53) \<le> x * 1" using pos by (intro mult_left_mono) auto
  then have "v \<le> 2 * x" using err by linarith
  also have "\<dots> < 2 * 2 ^ 1023" using assms(2) by simp
  finally have small: "\<not> (2 ^ 1024 \<le> v)" by simp
  have "fl x = Fin v"
    using pos m1 small
    by (simp add: fl_def Let_def l_def [symmetric] e s_def [symmetric] m_def [symmetric]
        v_def [symmetric])
  then show ?thesis using vpos err by blast
qed

lemma quotient_times_100:
  assumes "0 < k" "k \<le> 10 ^ 12" "0 < m" "m < 2 ^ 53"
  shows "\<exists>r. num_mul (num_div (Fin (of_int k)) (Fin (of_int m))) (Fin 100) = Fin r \<and> 0 < r
            \<and> \<bar>r - 100 * of_int k / of_int m\<bar> < 1 / (2 * of_int m)"
proof -
  define x :: rat where "x = of_int k / of_int m"
  have kr: "(0::rat) < of_int k" "(of_int k :: rat) \<le> 10 ^ 12" using assms(1,2) by simp_all
  have mr: "(0::rat) < of_int m" "(of_int m :: rat) < 2 ^ 53" using assms(3,4) by simp_all
  have k1: "(1::rat) \<le> of_int k" using assms(1) by simp
  have m1: "(1::rat) \<le> of_int m" using assms(3) by simp
  have xpos: "0 < x" using kr mr by (simp add: x_def)
  have xlo: "2 powi (- 53) \<le> x"
  proof -
    have "(2::rat) powi (- 53) = 1 / 2 ^ 53" by (simp add: power_int_minus field_simps)
    also have "\<dots> \<le> 1 / of_int m" using mr by (intro divide_left_mono) auto
    also have "\<dots> \<le> x" unfolding x_def using k1 mr by (intro divide_right_mono) auto
    finally show ?thesis .
  qed
  define T :: rat where "T = 10 ^ 12"
  define B :: rat where "B = 2 ^ 1023"
  have xhi: "x \<le> T"
  proof -
    have "x \<le> of_int k / 1" unfolding x_def using kr m1 by (intro divide_left_mono) auto
    then show ?thesis using kr(2) by (simp add: T_def)
  qed
  have p53: "(2::rat) powi (- 53) = 1 / 9007199254740992" by (simp add: power_int_minus)
  have lo1: "(2::rat) powi (- 1022) \<le> 2 powi (- 53)" by (intro power_int_increasing) auto
  have big: "0 < T" "T * 200 < B"
  proof -
    show "0 < T" by (simp add: T_def)
    have "(10::rat) ^ 12 * 200 < 2 ^ 64" by simp
    also have "\<dots> \<le> 2 ^ 1023" by (intro power_increasing) auto
    finally show "T * 200 < B" by (simp only: T_def B_def)
  qed
  have "2 powi (- 1022) \<le> x" using lo1 xlo by linarith
  moreover have "x < 2 ^ 1023" using xhi big unfolding B_def [symmetric] by linarith
  ultimately obtain q where q: "fl x = Fin q" "0 < q" "\<bar>q - x\<bar> \<le> x * 2 powi (- 53)"
    using fl_near by blast
  have qx: "x / 2 \<le> q" "q \<le> 2 * x" using q(3) xpos unfolding p53 by linarith+
  have d: "num_div (Fin (of_int k)) (Fin (of_int m)) = Fin q"
    using q(1) assms(1,3) by (simp add: num_div_def x_def)
  have "2 powi (- 1022) \<le> q * 100" using lo1 xlo qx(1) xpos by linarith
  moreover have "q * 100 < 2 ^ 1023" using qx(2) xhi big xpos unfolding B_def [symmetric] by linarith
  ultimately obtain r where r: "fl (q * 100) = Fin r" "0 < r"
      "\<bar>r - q * 100\<bar> \<le> q * 100 * 2 powi (- 53)"
    using fl_near by blast
  have mu: "num_mul (Fin q) (Fin 100) = Fin r"
    using r(1) q(2) by (simp add: num_mul_def)
  have "\<bar>r - 100 * x\<bar> \<le> 300 * x * 2 powi (- 53)"
    using r(3) q(3) qx xpos unfolding p53 by linarith
  also have "300 * x * 2 powi (- 53) = (300 * of_int k / 9007199254740992) / of_int m"
    unfolding p53 x_def by simp
  also have "\<dots> < (1 / 2) / of_int m"
    using kr(2) mr(1) by (intro divide_strict_right_mono) auto
  finally have "\<bar>r - 100 * x\<bar> < 1 / (2 * of_int m)" by simp
  then show ?thesis using d mu r(2) by (auto simp: x_def)
qed

lemma round_near:
  assumes "0 < m" and "\<bar>r - 100 * of_int k / of_int m\<bar> < 1 / (2 * of_int m :: rat)"
  shows "\<lfloor>r + 1 / 2\<rfloor> = \<lfloor>100 * of_int k / of_int m + 1 / 2 :: rat\<rfloor>
       \<or> (half_way k m \<and> \<lfloor>r + 1 / 2\<rfloor> = \<lfloor>100 * of_int k / of_int m + 1 / 2 :: rat\<rfloor> - 1)"
proof -
  define t :: rat where "t = 100 * of_int k / of_int m"
  define j where "j = \<lfloor>t + 1 / 2\<rfloor>"
  define N where "N = 200 * k + m - 2 * j * m"
  have mr: "(0::rat) < of_int m" using assms(1) by simp
  have jb: "of_int j \<le> t + 1 / 2" "t + 1 / 2 < of_int j + 1" unfolding j_def by linarith+
  have dN: "t + 1 / 2 - of_int j = of_int N / (2 * of_int m)"
    using mr by (simp add: t_def N_def field_simps)
  have "0 \<le> (of_int N :: rat) / (2 * of_int m)" using jb(1) dN by linarith
  then have N0: "0 \<le> N" using mr by (simp add: zero_le_divide_iff)
  have "(of_int N :: rat) / (2 * of_int m) < 1" using jb(2) dN by linarith
  then have "(of_int N :: rat) < 2 * of_int m" using mr by (simp add: field_simps)
  then have "(of_int N :: rat) < of_int (2 * m)" by simp
  then have N2: "N < 2 * m" by (simp only: of_int_less_iff)
  have e: "\<bar>r - t\<bar> < 1 / (2 * of_int m)" using assms(2) by (simp add: t_def)
  show ?thesis
  proof (cases "N = 0")
    case True
    then have "200 * k = (2 * j - 1) * m" by (simp add: N_def algebra_simps)
    then have h: "half_way k m" using assms(1) by (simp add: half_way_def)
    have "t + 1 / 2 = of_int j" using dN True by simp
    moreover have "1 / (2 * of_int m) \<le> (1::rat)" using assms(1) by (simp add: field_simps)
    ultimately have "of_int j - 1 < r + 1 / 2" "r + 1 / 2 < of_int j + 1" using e by linarith+
    then have "\<lfloor>r + 1 / 2\<rfloor> = j \<or> \<lfloor>r + 1 / 2\<rfloor> = j - 1" by linarith
    then show ?thesis using h unfolding j_def t_def by blast
  next
    case False
    then have "1 \<le> N" "N \<le> 2 * m - 1" using N0 N2 by simp_all
    then have "(of_int 1 :: rat) \<le> of_int N" "(of_int N :: rat) \<le> of_int (2 * m - 1)"
      by (simp_all only: of_int_le_iff)
    then have "(1::rat) / (2 * of_int m) \<le> of_int N / (2 * of_int m)"
      "(of_int N :: rat) / (2 * of_int m) \<le> (2 * of_int m - 1) / (2 * of_int m)"
      using mr by (simp_all add: divide_right_mono)
    moreover have "((2::rat) * of_int m - 1) / (2 * of_int m) = 1 - 1 / (2 * of_int m)"
      using mr by (simp add: field_simps)
    ultimately have "1 / (2 * of_int m) \<le> t + 1 / 2 - of_int j"
      "t + 1 / 2 - of_int j \<le> 1 - 1 / (2 * of_int m)"
      using dN by simp_all
    then have "of_int j \<le> r + 1 / 2" "r + 1 / 2 < of_int j + 1" using e by linarith+
    then have "\<lfloor>r + 1 / 2\<rfloor> = j" by linarith
    then show ?thesis unfolding j_def t_def by blast
  qed
qed

subsection \<open>Requests\<close>

lemma get_not_null: "body \<noteq> JNull \<Longrightarrow> body \<noteq> JUndefined \<Longrightarrow> \<exists>v. get body k = Inr v"
  by (cases body) auto

lemma trim_Nil: "trim [] = []"
  by (simp add: trim_def ws_len_def strip_ws.simps)

lemma case_study_valid: "''case-study'' \<in> set validTypes"
  by (simp add: validTypes_def)

subsection \<open>Generate: the credential is checked before the call\<close>

text \<open>
  C6. A valid generate request (a query that is a string and not blank, an assignment
  type that is absent or one of the six kinds) with no credential configured (the
  environment value absent or empty) is answered with status 500 and the configuration
  message, and no call to the model is made: the check stands before the call.
\<close>

theorem generate_missing_credential:
  assumes "\<not> query_invalid body" and "\<not> type_invalid body" and "\<not> key_configured env"
  shows "POST_generate rt templates env (Inr body) = (ErrorResponse 500 key_message, [])"
  using assms
  by (auto simp: POST_generate_def query_invalid_def type_invalid_def Let_def typeof_string_def
        includes_str_def trim_Nil case_study_valid split: js.splits sum.splits)

theorem generate_missing_credential_witness:
  "\<not> query_invalid (JObj [(''query'', JStr ''supply chain ethics''), (''assignmentType'', JStr ''essay'')])
   \<and> \<not> type_invalid (JObj [(''query'', JStr ''supply chain ethics''), (''assignmentType'', JStr ''essay'')])
   \<and> \<not> key_configured None
   \<and> POST_generate (example_runtime []) (\<lambda>t q. q) None
        (Inr (JObj [(''query'', JStr ''supply chain ethics''), (''assignmentType'', JStr ''essay'')]))
      = (ErrorResponse 500 key_message, [])"
proof -
  let ?b = "JObj [(''query'', JStr ''supply chain ethics''), (''assignmentType'', JStr ''essay'')]"
  have q: "\<not> query_invalid ?b"
    by (simp add: query_invalid_def trim_def ws_len_def is_ws_def strip_ws.simps)
  have t: "\<not> type_invalid ?b"
    by (simp add: type_invalid_def validTypes_def)
  have k: "\<not> key_configured None"
    by (simp add: key_configured_def)
  show ?thesis
    using q t k generate_missing_credential [OF q t k] by simp
qed

subsection \<open>Evaluate: what is checked before the call\<close>

lemma tryE_Inr: "tryE r f = Inr y \<longleftrightarrow> (\<exists>v. r = Inr v \<and> f v = Inr y)"
  by (cases r) (auto simp: tryE_def)

lemma tryE_simps [simp]: "tryE (Inl e) f = Inl e" "tryE (Inr v) f = f v"
  by (simp_all add: tryE_def)

lemma evaluate_400:
  assumes "body \<noteq> JNull" "body \<noteq> JUndefined"
    and "field_missing body ''assignment'' \<or> field_missing body ''submission''
         \<or> field_missing body ''assignmentType''"
  shows "\<exists>msg. POST_evaluate rt env (Inr body) = (ErrorResponse 400 msg, [])"
proof -
  obtain a s t where g: "get body ''assignment'' = Inr a" "get body ''submission'' = Inr s"
      "get body ''assignmentType'' = Inr t"
    using assms(1,2) get_not_null by metis
  show ?thesis
    using assms(3) g
    by (auto simp: POST_evaluate_def recover_evaluation_def field_missing_def)
qed

lemma results_needs_array:
  assumes "\<not> has_assessment_array v"
  shows "results rt assignment v = Inl TypeError"
proof (cases "get v ''rubricAssessment''")
  case (Inl e)
  then have "e = TypeError" by (cases v) auto
  with Inl show ?thesis by (simp add: results_def)
next
  case (Inr ra)
  with assms have "as_array ra = Inl TypeError"
    by (cases ra) (auto simp: has_assessment_array_def as_array_def)
  with Inr show ?thesis by (simp add: results_def)
qed

lemma evaluate_without_array:
  assumes "recover_evaluation rt env req = Inr (assignment, prompt, evaluationData)"
    and "\<not> has_assessment_array evaluationData"
  shows "POST_evaluate rt env req = (Caught TypeError, [prompt])"
  using assms by (simp add: POST_evaluate_def results_needs_array)

subsection \<open>The sum of the scores and the percentage\<close>

lemma js_add_num_or_str: "js_add rt a b = Inr c \<Longrightarrow> num_or_str c"
  by (auto simp: js_add_def tryE_Inr num_or_str_def split: if_splits)

lemma reduce_scores_num_or_str:
  "reduce_scores rt acc items = Inr t \<Longrightarrow> num_or_str acc \<Longrightarrow> num_or_str t"
proof (induction items arbitrary: acc)
  case Nil
  then show ?case by simp
next
  case (Cons item items)
  then show ?case by (auto simp: tryE_Inr dest: js_add_num_or_str)
qed

lemma ToNumber_num_or_str: "num_or_str v \<Longrightarrow> \<exists>x. ToNumber rt v = Inr x"
  by (cases v) (auto simp: num_or_str_def ToNumber_def ToPrimitive_def)

lemma num_div_zero: "y = NaN \<or> is_zero y \<Longrightarrow> not_finite (num_div x y)"
  by (cases x; cases y) (auto simp: num_div_def not_finite_def signed_inf_def)

lemma num_mul_not_finite: "not_finite x \<Longrightarrow> not_finite (num_mul x (Fin 100))"
  by (auto simp: num_mul_def not_finite_def signed_inf_def)

lemma Math_round_not_finite: "not_finite x \<Longrightarrow> not_finite (Math_round x)"
  by (auto simp: not_finite_def)

lemma ToNumber_zero_or_absent:
  "zero_or_absent v \<Longrightarrow> \<exists>y. ToNumber rt v = Inr y \<and> (y = NaN \<or> is_zero y)"
  by (auto simp: zero_or_absent_def ToNumber_def ToPrimitive_def prim_number_def)

lemma percent_division_by_zero:
  assumes "num_or_str t" "zero_or_absent mx"
  shows "\<exists>p. percent rt t mx = Inr p \<and> not_finite p"
proof -
  obtain x where x: "ToNumber rt t = Inr x" using ToNumber_num_or_str [OF assms(1)] by blast
  obtain y where y: "ToNumber rt mx = Inr y" "y = NaN \<or> is_zero y"
    using ToNumber_zero_or_absent [OF assms(2)] by blast
  have "percent rt t mx = Inr (Math_round (num_mul (num_div x y) (Fin 100)))"
    using x y(1) by (simp add: percent_def js_div_def)
  moreover have "not_finite (Math_round (num_mul (num_div x y) (Fin 100)))"
    using y(2) by (intro Math_round_not_finite num_mul_not_finite num_div_zero)
  ultimately show ?thesis by blast
qed

lemma get_total: "get v k = Inr x \<Longrightarrow> \<exists>y. get v k' = Inr y"
  by (cases v) auto

lemma evaluate_zero_total:
  assumes "recover_evaluation rt env req = Inr (assignment, prompt, evaluationData)"
    and "get evaluationData ''rubricAssessment'' = Inr (JArr items)"
    and "reduce_scores rt (JNum (Fin 0)) items = Inr tot"
    and "max_score assignment = Inr mx" and "zero_or_absent mx"
  shows "\<exists>res p. POST_evaluate rt env req =
            (Success (JObj [(''success'', JBool True), (''results'', res)]), [prompt])
          \<and> get res ''percentage'' = Inr (JNum p) \<and> not_finite p"
proof -
  have t: "num_or_str tot"
    using reduce_scores_num_or_str [OF assms(3)] by (simp add: num_or_str_def)
  obtain p where p: "percent rt tot mx = Inr p" "not_finite p"
    using percent_division_by_zero [OF t assms(5)] by blast
  obtain rubric where r: "get assignment ''rubric'' = Inr rubric" "get rubric ''totalPoints'' = Inr mx"
    using assms(4) by (auto simp: max_score_def tryE_Inr)
  obtain f d where fd: "get evaluationData ''overallFeedback'' = Inr f"
      "get evaluationData ''detailedFeedback'' = Inr d"
    using get_total [OF assms(2)] by metis
  show ?thesis
    using assms(1,2,3) p r fd
    by (simp add: POST_evaluate_def results_def as_array_def)
qed

lemma num_add_zero: "n \<noteq> NZero \<Longrightarrow> num_add n (Fin 0) = n"
  by (cases n) (auto simp: num_add_def signed_zero_def)

lemma js_add_numbers: "js_add rt (JNum a) (JNum b) = Inr (JNum (num_add a b))"
  by (simp add: js_add_def ToPrimitive_def is_string_def prim_number_def)

lemma reduce_scores_missing:
  assumes "get item ''score'' = Inr s" "\<not> truthy s" "n \<noteq> NZero"
  shows "reduce_scores rt (JNum n) (item # items) = reduce_scores rt (JNum n) items"
  using assms by (simp add: js_or_def js_add_numbers num_add_zero)

lemma ToPrimitive_ToString:
  "ToPrimitive rt v = Inr p \<Longrightarrow> \<exists>s. ToString rt p = Inr s"
  by (cases v) (auto simp: ToPrimitive_def tryE_Inr)

lemma ToPrimitive_num_or_str: "num_or_str v \<Longrightarrow> ToPrimitive rt v = Inr v"
  by (cases v) (auto simp: ToPrimitive_def num_or_str_def)

lemma js_add_defined:
  assumes "num_or_str acc"
  shows "(\<exists>c. js_add rt acc b = Inr c) \<longleftrightarrow> (\<exists>p. ToPrimitive rt b = Inr p)"
proof
  assume "\<exists>c. js_add rt acc b = Inr c"
  then show "\<exists>p. ToPrimitive rt b = Inr p" by (auto simp: js_add_def tryE_Inr)
next
  assume "\<exists>p. ToPrimitive rt b = Inr p"
  then obtain p where p: "ToPrimitive rt b = Inr p" by blast
  obtain s where s: "ToString rt p = Inr s" using ToPrimitive_ToString [OF p] by blast
  obtain s' where s': "ToString rt acc = Inr s'"
    using ToPrimitive_ToString [OF ToPrimitive_num_or_str [OF assms]] by blast
  show "\<exists>c. js_add rt acc b = Inr c"
    using p s s' by (simp add: js_add_def ToPrimitive_num_or_str [OF assms])
qed

lemma falsy_primitive: "\<not> truthy s \<Longrightarrow> ToPrimitive rt s = Inr s"
  by (cases s) (auto simp: ToPrimitive_def)

lemma reduce_scores_defined:
  "num_or_str acc \<Longrightarrow> (\<exists>t. reduce_scores rt acc items = Inr t) \<longleftrightarrow> list_all (scorable rt) items"
proof (induction items arbitrary: acc)
  case Nil
  then show ?case by simp
next
  case (Cons item items)
  show ?case
  proof (cases "get item ''score''")
    case (Inl e)
    then show ?thesis by (simp add: scorable_def)
  next
    case (Inr s)
    have prim: "(\<exists>p. ToPrimitive rt (js_or s (JNum (Fin 0))) = Inr p) \<longleftrightarrow> (\<exists>p. ToPrimitive rt s = Inr p)"
    proof (cases "truthy s")
      case True
      then show ?thesis by (simp add: js_or_def)
    next
      case False
      have "ToPrimitive rt (JNum (Fin 0)) = Inr (JNum (Fin 0))" by (simp add: ToPrimitive_def)
      then show ?thesis using False falsy_primitive [OF False, of rt] by (simp add: js_or_def)
    qed
    show ?thesis
    proof (cases "js_add rt acc (js_or s (JNum (Fin 0)))")
      case (Inl e)
      then have "\<not> (\<exists>p. ToPrimitive rt s = Inr p)"
        using js_add_defined [OF Cons.prems, of rt "js_or s (JNum (Fin 0))"] prim by auto
      then show ?thesis using Inl Inr by (auto simp: scorable_def split: sum.splits)
    next
      case (Inr acc')
      then have "\<exists>p. ToPrimitive rt s = Inr p"
        using js_add_defined [OF Cons.prems, of rt "js_or s (JNum (Fin 0))"] prim by auto
      then have sc: "scorable rt item" using \<open>get item ''score'' = Inr s\<close> by (auto simp: scorable_def)
      have "num_or_str acc'" using Inr by (rule js_add_num_or_str)
      from Cons.IH [OF this] show ?thesis
        using Inr \<open>get item ''score'' = Inr s\<close> sc by simp
    qed
  qed
qed

lemma num_add_integers:
  assumes "\<bar>a + k\<bar> < 2 ^ 53"
  shows "num_add (Fin (of_int a)) (Fin (of_int k)) = Fin (of_int (a + k))"
proof -
  have "fl (of_int a + of_int k) = Fin (of_int (a + k))"
    using fl_int [OF assms] by simp
  moreover have "(of_int a + of_int k = (0::rat)) \<longleftrightarrow> a + k = 0"
    by (metis of_int_add of_int_eq_0_iff)
  ultimately show ?thesis
    by (auto simp: num_add_def signed_zero_def)
qed

lemma reduce_scores_integers:
  assumes "map (\<lambda>i. get i ''score'') items = map (\<lambda>k. Inr (JNum (Fin (of_int k)))) ks"
    and "\<bar>a\<bar> + sum_list (map abs ks) < 2 ^ 53"
  shows "reduce_scores rt (JNum (Fin (of_int a))) items = Inr (JNum (Fin (of_int (a + sum_list ks))))"
  using assms
proof (induction items arbitrary: a ks)
  case Nil
  then show ?case by simp
next
  case (Cons item items)
  then obtain k ks' where ks: "ks = k # ks'" by (cases ks) auto
  have s: "get item ''score'' = Inr (JNum (Fin (of_int k)))"
    and rest: "map (\<lambda>i. get i ''score'') items = map (\<lambda>k. Inr (JNum (Fin (of_int k)))) ks'"
    using Cons.prems(1) ks by auto
  have nonneg: "0 \<le> sum_list (map abs ks')" by (induction ks') auto
  have b1: "\<bar>a + k\<bar> < 2 ^ 53" using Cons.prems(2) ks nonneg by simp
  have b2: "\<bar>a + k\<bar> + sum_list (map abs ks') < 2 ^ 53" using Cons.prems(2) ks by simp
  have step: "js_add rt (JNum (Fin (of_int a))) (js_or (JNum (Fin (of_int k))) (JNum (Fin 0)))
      = Inr (JNum (Fin (of_int (a + k))))"
  proof (cases "k = 0")
    case True
    then show ?thesis by (simp add: js_or_def js_add_numbers num_add_zero)
  next
    case False
    then show ?thesis by (simp add: js_or_def js_add_numbers num_add_integers [OF b1])
  qed
  show ?case
    using Cons.IH [OF rest b2] s step ks by (simp add: add.assoc)
qed

subsection \<open>What a successful evaluation returns\<close>

lemma recover_evaluation_Inr:
  assumes "recover_evaluation rt env (Inr body) = Inr (assignment, prompt, evaluationData)"
  shows "\<exists>submission assignmentType text.
           get body ''assignment'' = Inr assignment \<and> get body ''submission'' = Inr submission
         \<and> get body ''assignmentType'' = Inr assignmentType
         \<and> truthy assignment \<and> truthy submission \<and> truthy assignmentType \<and> key_configured env
         \<and> build_evaluation_prompt rt assignment submission assignmentType = Inr prompt
         \<and> generateText rt prompt = Inr text
         \<and> extract_json rt ''Could not parse evaluation data from AI response'' text = Inr evaluationData"
  using assms
  by (auto simp: recover_evaluation_def split: sum.splits if_splits)

lemma as_array_Inr: "as_array v = Inr xs \<longleftrightarrow> v = JArr xs"
  by (cases v) (auto simp: as_array_def)

lemma results_Inr:
  assumes "results rt assignment evaluationData = Inr res"
  shows "\<exists>items tot mx p fb df.
           res = JObj [(''totalScore'', tot), (''maxScore'', mx), (''percentage'', JNum p),
                       (''feedback'', fb), (''detailedFeedback'', df), (''rubricScores'', JArr items)]
         \<and> get evaluationData ''rubricAssessment'' = Inr (JArr items)
         \<and> reduce_scores rt (JNum (Fin 0)) items = Inr tot
         \<and> max_score assignment = Inr mx
         \<and> percent rt tot mx = Inr p"
proof -
  from assms obtain ra items tot rubric mx p fb df where
    "get evaluationData ''rubricAssessment'' = Inr ra" "as_array ra = Inr items"
    "reduce_scores rt (JNum (Fin 0)) items = Inr tot"
    "get assignment ''rubric'' = Inr rubric" "get rubric ''totalPoints'' = Inr mx"
    "percent rt tot mx = Inr p"
    "get evaluationData ''overallFeedback'' = Inr fb" "get evaluationData ''detailedFeedback'' = Inr df"
    "res = JObj [(''totalScore'', tot), (''maxScore'', mx), (''percentage'', JNum p),
                 (''feedback'', js_or fb (JStr ''Evaluation complete.'')), (''detailedFeedback'', df),
                 (''rubricScores'', js_or ra (JArr []))]"
    unfolding results_def tryE_Inr by blast
  moreover from this have "ra = JArr items" by (simp add: as_array_Inr)
  ultimately show ?thesis
    by (simp add: max_score_def js_or_def)
qed

lemma recover_prompt_sent:
  "recover_evaluation rt env req = Inr (a, p, d) \<Longrightarrow> snd (POST_evaluate rt env req) = [p]"
  by (simp add: POST_evaluate_def split: sum.splits)

lemma evaluate_success_source:
  assumes "fst (POST_evaluate rt env (Inr body)) = Success b"
  shows "\<exists>assignment prompt answer data res.
           get body ''assignment'' = Inr assignment
         \<and> snd (POST_evaluate rt env (Inr body)) = [prompt]
         \<and> generateText rt prompt = Inr answer
         \<and> extract_json rt ''Could not parse evaluation data from AI response'' answer = Inr data
         \<and> results rt assignment data = Inr res
         \<and> b = JObj [(''success'', JBool True), (''results'', res)]"
proof (cases "recover_evaluation rt env (Inr body)")
  case (Inl out)
  then have "fst out \<noteq> Success b"
    by (auto simp: recover_evaluation_def split: sum.splits if_splits)
  then show ?thesis using assms Inl by (auto simp: POST_evaluate_def)
next
  case (Inr r)
  obtain assignment prompt data where r: "r = (assignment, prompt, data)"
    by (cases r) auto
  obtain res where res: "results rt assignment data = Inr res"
      "b = JObj [(''success'', JBool True), (''results'', res)]"
      "snd (POST_evaluate rt env (Inr body)) = [prompt]"
    using assms Inr r by (auto simp: POST_evaluate_def split: sum.splits)
  show ?thesis
    using recover_evaluation_Inr [OF Inr [unfolded r]] res by blast
qed

subsection \<open>Trimming\<close>

lemma is_ws_not_plain: "is_ws w \<Longrightarrow> c \<in> set w \<Longrightarrow> \<not> plain c"
  by (auto simp: is_ws_def plain_def split: list.splits)

lemma ws_len_le: "ws_len back s \<le> length s"
  by (auto simp: ws_len_def Let_def)

lemma ws_len_dropped:
  assumes "c \<in> set (take (ws_len back s) s)"
  shows "\<not> plain c"
proof -
  have "ws_len back s = 0 \<or> is_ws (if back then rev (take (ws_len back s) s) else take (ws_len back s) s)"
    by (auto simp: ws_len_def Let_def)
  then show ?thesis
    using assms by (cases "back") (auto dest: is_ws_not_plain)
qed

lemma strip_ws_drop:
  "\<exists>k. k \<le> length s \<and> strip_ws back s = drop k s \<and> (\<forall>c \<in> set (take k s). \<not> plain c)"
proof (induction "back" s rule: strip_ws.induct)
  case (1 b s)
  show ?case
  proof (cases "ws_len b s = 0")
    case True
    then have "strip_ws b s = drop 0 s" by (simp add: strip_ws.simps)
    then show ?thesis by (intro exI [of _ 0]) simp
  next
    case False
    let ?n = "ws_len b s"
    from 1 [OF False] obtain k where k: "k \<le> length (drop ?n s)"
        "strip_ws b (drop ?n s) = drop k (drop ?n s)"
        "\<forall>c \<in> set (take k (drop ?n s)). \<not> plain c"
      by blast
    have eq: "strip_ws b s = drop (?n + k) s"
      using False k(2) by (subst strip_ws.simps) (simp add: add.commute)
    have "take (?n + k) s = take ?n s @ take k (drop ?n s)"
      by (simp add: take_add)
    then have "\<forall>c \<in> set (take (?n + k) s). \<not> plain c"
      using k(3) ws_len_dropped [of _ b s] by auto
    moreover have "?n + k \<le> length s" using k(1) ws_len_le [of b s] by simp
    ultimately show ?thesis using eq by blast
  qed
qed

text \<open>The trimmed text is the text without some characters at its two ends, none of them plain.\<close>

lemma trim_decompose:
  "\<exists>a b. s = a @ trim s @ b \<and> (\<forall>c \<in> set a. \<not> plain c) \<and> (\<forall>c \<in> set b. \<not> plain c)"
proof -
  obtain k where k: "k \<le> length s" "strip_ws False s = drop k s" "\<forall>c \<in> set (take k s). \<not> plain c"
    using strip_ws_drop by blast
  let ?u = "rev (drop k s)"
  obtain j where j: "j \<le> length ?u" "strip_ws True ?u = drop j ?u" "\<forall>c \<in> set (take j ?u). \<not> plain c"
    using strip_ws_drop by blast
  have t: "trim s = rev (drop j ?u)" by (simp add: trim_def k(2) j(2))
  have "?u = take j ?u @ drop j ?u" by simp
  then have "rev ?u = rev (drop j ?u) @ rev (take j ?u)" by (metis rev_append)
  then have "drop k s = trim s @ rev (take j ?u)" using t by simp
  then have "s = take k s @ trim s @ rev (take j ?u)" by (metis append_take_drop_id)
  moreover have "\<forall>c \<in> set (rev (take j ?u)). \<not> plain c" using j(3) by simp
  ultimately show ?thesis using k(3) by blast
qed

lemma strip_ws_plain: "plain c \<Longrightarrow> strip_ws back (c # cs) = c # cs"
proof -
  assume p: "plain c"
  obtain k where k: "strip_ws back (c # cs) = drop k (c # cs)" "\<forall>x \<in> set (take k (c # cs)). \<not> plain x"
    using strip_ws_drop by blast
  have "k = 0" using k(2) p by (cases k) auto
  then show ?thesis using k(1) by simp
qed

lemma trim_plain_ends:
  assumes "s \<noteq> []" "plain (hd s)" "plain (last s)"
  shows "trim s = s"
proof -
  obtain c cs where s: "s = c # cs" using assms(1) by (cases s) auto
  have 1: "strip_ws False s = s" using assms(2) s strip_ws_plain by simp
  obtain d ds where r: "rev s = d # ds" using assms(1) by (cases "rev s") auto
  have "d = last s" using r assms(1) by (metis hd_rev list.sel(1))
  then have "plain d" using assms(3) by simp
  then have "strip_ws True (d # ds) = d # ds" by (rule strip_ws_plain)
  then have 2: "strip_ws True (rev s) = rev s" using r by simp
  show ?thesis by (simp add: trim_def 1 2)
qed

subsection \<open>An object between texts without braces\<close>

lemma plain_braces [simp]: "plain (CHR ''{'')" "plain (CHR ''}'')" "plain (CHR 0x60)"
  by (simp_all add: plain_def)

lemma wraps_drop:
  assumes "object_text s" "wraps s t" "CHR ''{'' \<notin> set (take k t)"
  shows "wraps s (drop k t)"
proof -
  obtain p q where t: "t = p @ s @ q" "CHR ''{'' \<notin> set p" "CHR ''}'' \<notin> set q"
    using assms(2) by (auto simp: wraps_def)
  obtain m where s: "s = CHR ''{'' # m" using assms(1) by (cases s) (auto simp: object_text_def)
  have "k \<le> length p"
  proof (rule ccontr)
    assume "\<not> k \<le> length p"
    then have "take k t = p @ CHR ''{'' # take (k - length p - 1) (m @ q)"
      by (simp add: t(1) s take_Cons')
    then show False using assms(3) by simp
  qed
  then have "drop k t = drop k p @ s @ q" by (simp add: t(1))
  moreover have "CHR ''{'' \<notin> set (drop k p)" using t(2) by (meson in_set_dropD)
  ultimately show ?thesis using t(3) by (auto simp: wraps_def)
qed

lemma wraps_take:
  assumes "object_text s" "wraps s t" "CHR ''}'' \<notin> set (drop n t)"
  shows "wraps s (take n t)"
proof -
  obtain p q where t: "t = p @ s @ q" "CHR ''{'' \<notin> set p" "CHR ''}'' \<notin> set q"
    using assms(2) by (auto simp: wraps_def)
  obtain m where s: "s = m @ [CHR ''}'']"
    using assms(1) by (metis object_text_def append_butlast_last_id)
  have "length p + length s \<le> n"
  proof (rule ccontr)
    assume "\<not> length p + length s \<le> n"
    then have "n \<le> length p + length m" by (simp add: s)
    then have "drop n t = drop n (p @ m) @ CHR ''}'' # q"
      by (simp add: t(1) s)
    then show False using assms(3) by simp
  qed
  then have "take n t = p @ s @ take (n - length p - length s) q" by (simp add: t(1))
  moreover have "CHR ''}'' \<notin> set (take (n - length p - length s) q)" using t(3) by (meson in_set_takeD)
  ultimately show ?thesis using t(2) by (auto simp: wraps_def)
qed

lemma wraps_trim:
  assumes "object_text s" "wraps s t"
  shows "wraps s (trim t)"
proof -
  obtain a b where d: "t = a @ trim t @ b" "\<forall>c \<in> set a. \<not> plain c" "\<forall>c \<in> set b. \<not> plain c"
    using trim_decompose by blast
  define u where "u = trim t"
  have t: "t = a @ u @ b" using d(1) by (simp add: u_def)
  let ?n = "length a + length u"
  have 1: "take ?n t = a @ u" by (simp add: t)
  have "drop ?n t = b" by (simp add: t)
  then have "CHR ''}'' \<notin> set (drop ?n t)" using d(3) plain_braces(2) by metis
  then have "wraps s (take ?n t)" by (rule wraps_take [OF assms])
  then have w: "wraps s (a @ u)" by (simp only: 1)
  have "take (length a) (a @ u) = a" by simp
  then have "CHR ''{'' \<notin> set (take (length a) (a @ u))" using d(2) plain_braces(1) by metis
  then have "wraps s (drop (length a) (a @ u))" by (rule wraps_drop [OF assms(1) w])
  then show ?thesis by (simp add: u_def)
qed

lemma strip_open_drop:
  "strip_open m t = drop (length m) t \<or>
   (strip_open m t = drop (Suc (length m)) t \<and> take (Suc (length m)) t = take (length m) t @ [CHR 0x0A])"
proof (cases "drop (length m) t")
  case Nil
  then show ?thesis by (simp add: strip_open_def)
next
  case (Cons c cs)
  then have lt: "length m < length t" by (cases "length m < length t") auto
  have "t ! length m = hd (drop (length m) t)" using lt by (simp add: hd_drop_conv_nth)
  then have c: "t ! length m = c" using Cons by simp
  have 1: "take (Suc (length m)) t = take (length m) t @ [c]"
    using lt c by (simp add: take_Suc_conv_app_nth)
  have "drop (Suc (length m)) t = tl (drop (length m) t)" by (simp add: drop_Suc tl_drop)
  then have 2: "drop (Suc (length m)) t = cs" using Cons by simp
  show ?thesis using Cons 1 2 by (auto simp: strip_open_def)
qed

lemma wraps_strip_open:
  assumes "object_text s" "wraps s t" "startsWith t m" "CHR ''{'' \<notin> set m"
  shows "wraps s (strip_open m t)"
proof -
  have m: "take (length m) t = m" using assms(3) by (simp add: startsWith_def)
  from strip_open_drop [of m t] show ?thesis
  proof
    assume "strip_open m t = drop (length m) t"
    then show ?thesis using wraps_drop [OF assms(1,2), of "length m"] m assms(4) by simp
  next
    assume a: "strip_open m t = drop (Suc (length m)) t \<and>
      take (Suc (length m)) t = take (length m) t @ [CHR 0x0A]"
    then have "CHR ''{'' \<notin> set (take (Suc (length m)) t)" using m assms(4) by simp
    then show ?thesis using wraps_drop [OF assms(1,2)] a by simp
  qed
qed

lemma endsWith_drop: "endsWith t x \<Longrightarrow> drop (length t - length x) t = x"
  by (simp add: endsWith_def)

lemma wraps_strip_close:
  assumes "object_text s" "wraps s t"
  shows "wraps s (strip_close t)"
proof (cases "endsWith t ''```''")
  case False
  then show ?thesis using assms(2) by (simp add: strip_close_def)
next
  case True
  let ?r = "take (length t - 3) t"
  have "drop (length t - 3) t = ''```''" using True by (simp add: endsWith_def numeral_3_eq_3)
  then have "CHR ''}'' \<notin> set (drop (length t - 3) t)" by simp
  then have r: "wraps s ?r" by (rule wraps_take [OF assms])
  show ?thesis
  proof (cases "endsWith ?r [CHR 0x0A]")
    case False
    then show ?thesis using True r by (simp add: strip_close_def Let_def)
  next
    case nl: True
    have "drop (length ?r - 1) ?r = [CHR 0x0A]" using endsWith_drop [OF nl] by simp
    then have "CHR ''}'' \<notin> set (drop (length ?r - 1) ?r)" by simp
    then have "wraps s (take (length ?r - 1) ?r)" by (rule wraps_take [OF assms(1) r])
    then show ?thesis using True nl by (simp add: strip_close_def Let_def)
  qed
qed

lemma wraps_strip_fence:
  assumes "object_text s" "wraps s t"
  shows "wraps s (strip_fence t)"
proof -
  have 1: "startsWith t ''```json'' \<Longrightarrow> wraps s (strip_close (strip_open ''```json'' t))"
    by (intro wraps_strip_close wraps_strip_open assms) auto
  have 2: "startsWith t ''```'' \<Longrightarrow> wraps s (strip_close (strip_open ''```'' t))"
    by (intro wraps_strip_close wraps_strip_open assms) auto
  show ?thesis using 1 2 assms(2) by (simp add: strip_fence_def)
qed

lemma match_braces_wraps:
  assumes "object_text s" "wraps s t"
  shows "match_braces t = Some s"
proof -
  obtain p q where t: "t = p @ s @ q" "CHR ''{'' \<notin> set p" "CHR ''}'' \<notin> set q"
    using assms(2) by (auto simp: wraps_def)
  obtain m where s1: "s = CHR ''{'' # m" using assms(1) by (cases s) (auto simp: object_text_def)
  obtain m' where s2: "s = m' @ [CHR ''}'']"
    using assms(1) by (metis object_text_def append_butlast_last_id)
  have "dropWhile (\<lambda>c. c \<noteq> CHR ''{'') (p @ s @ q) = dropWhile (\<lambda>c. c \<noteq> CHR ''{'') (s @ q)"
    by (rule dropWhile_append2) (use t(2) in auto)
  then have 1: "dropWhile (\<lambda>c. c \<noteq> CHR ''{'') t = s @ q"
    by (simp add: t(1) s1)
  have "rev (s @ q) = rev q @ CHR ''}'' # rev m'" by (simp add: s2)
  moreover have "dropWhile (\<lambda>c. c \<noteq> CHR ''}'') (rev q @ CHR ''}'' # rev m')
      = dropWhile (\<lambda>c. c \<noteq> CHR ''}'') (CHR ''}'' # rev m')"
    by (rule dropWhile_append2) (use t(3) in auto)
  ultimately have 2: "dropWhile (\<lambda>c. c \<noteq> CHR ''}'') (rev (s @ q)) = CHR ''}'' # rev m'"
    by simp
  have m: "rev (dropWhile (\<lambda>c. c \<noteq> CHR ''}'') (rev (dropWhile (\<lambda>c. c \<noteq> CHR ''{'') t))) = s"
    unfolding 1 2 by (simp add: s2)
  have ne: "s \<noteq> []" using s1 by simp
  show ?thesis unfolding match_braces_def Let_def m using ne by simp
qed

lemma wraps_self: "wraps s (p @ s @ q)" if "CHR ''{'' \<notin> set p" "CHR ''}'' \<notin> set q"
  using that by (auto simp: wraps_def)

lemma extract_json_wrapped:
  assumes "JSON_parse rt s = Some J" "object_text s" "CHR ''{'' \<notin> set p" "CHR ''}'' \<notin> set q"
    and "JSON_parse rt (strip_fence (trim (p @ s @ q))) = None
         \<or> JSON_parse rt (strip_fence (trim (p @ s @ q))) = Some J"
  shows "extract_json rt msg (p @ s @ q) = Inr J"
proof -
  have "wraps s (strip_fence (trim (p @ s @ q)))"
    by (intro wraps_strip_fence wraps_trim assms(2) wraps_self assms(3,4))
  then have "match_braces (strip_fence (trim (p @ s @ q))) = Some s"
    by (rule match_braces_wraps [OF assms(2)])
  then show ?thesis using assms(1,5) by (auto simp: extract_json_def Let_def)
qed

subsection \<open>Code fences\<close>

lemma strip_close_fenced: "strip_close (u @ newline @ ''```'') = u"
proof -
  let ?t = "u @ newline @ ''```''"
  have len: "length ?t - 3 = length u + 1" by (simp add: newline_def)
  have e: "endsWith ?t ''```''" by (simp add: endsWith_def newline_def)
  have r: "take (length ?t - 3) ?t = u @ newline" unfolding len by (simp add: newline_def)
  have e2: "endsWith (u @ newline) [CHR 0x0A]" by (simp add: endsWith_def newline_def)
  have "take (length (u @ newline) - 1) (u @ newline) = u" by (simp add: newline_def)
  then show ?thesis
    unfolding strip_close_def Let_def r using e e2 by simp
qed

lemma strip_open_fenced: "strip_open m (m @ newline @ r) = r"
  by (simp add: strip_open_def newline_def)

lemma trim_fence: "trim (fence tag s) = fence tag s"
  by (rule trim_plain_ends) (simp_all add: fence_def)

lemma unfence_json: "strip_fence (trim (fence ''json'' s)) = s"
proof -
  let ?t = "''```json'' @ newline @ (s @ newline @ ''```'')"
  have t: "trim (fence ''json'' s) = ?t" unfolding trim_fence by (simp add: fence_def)
  have sw: "startsWith ?t ''```json''" by (simp add: startsWith_def)
  have "strip_fence ?t = s"
    by (simp only: strip_fence_def sw if_True strip_open_fenced strip_close_fenced)
  then show ?thesis by (simp only: t)
qed

lemma unfence_plain: "strip_fence (trim (fence [] s)) = s"
proof -
  let ?t = "''```'' @ newline @ (s @ newline @ ''```'')"
  have t: "trim (fence [] s) = ?t" unfolding trim_fence by (simp add: fence_def)
  have 1: "\<not> startsWith ?t ''```json''" by (simp add: startsWith_def newline_def)
  have 2: "startsWith ?t ''```''" by (simp add: startsWith_def)
  have "strip_fence ?t = s"
    by (simp only: strip_fence_def 1 2 if_True if_False strip_open_fenced strip_close_fenced)
  then show ?thesis by (simp only: t)
qed

lemma unfence_bare: "object_text s \<Longrightarrow> strip_fence (trim s) = s"
proof -
  assume o: "object_text s"
  then have "trim s = s" by (intro trim_plain_ends) (auto simp: object_text_def)
  moreover have "\<not> startsWith s ''```json''" "\<not> startsWith s ''```''"
    using o by (cases s; auto simp: object_text_def startsWith_def)+
  ultimately show ?thesis by (simp add: strip_fence_def)
qed

lemma extract_json_direct:
  "JSON_parse rt (strip_fence (trim t)) = Some J \<Longrightarrow> extract_json rt msg t = Inr J"
  by (simp add: extract_json_def)

subsection \<open>Texts without a span of braces\<close>

lemma has_span_iff: "has_span t \<longleftrightarrow> (\<exists>a b c. t = a @ CHR ''{'' # b @ CHR ''}'' # c)"
proof
  assume h: "has_span t"
  let ?d = "dropWhile (\<lambda>c. c \<noteq> CHR ''{'') t"
  have "CHR ''}'' \<in> set ?d" using h unfolding has_span_def .
  then have ne: "?d \<noteq> []" by (metis empty_iff empty_set)
  then have "hd ?d = CHR ''{''" using hd_dropWhile [of "\<lambda>c. c \<noteq> CHR ''{''" t] by simp
  then obtain r where d: "?d = CHR ''{'' # r" using ne by (cases ?d) auto
  then have "CHR ''}'' \<in> set r" using \<open>CHR ''}'' \<in> set ?d\<close> by simp
  then obtain b c where r: "r = b @ CHR ''}'' # c" by (meson split_list)
  have "t = takeWhile (\<lambda>c. c \<noteq> CHR ''{'') t @ ?d" by simp
  then have "t = takeWhile (\<lambda>c. c \<noteq> CHR ''{'') t @ CHR ''{'' # b @ CHR ''}'' # c"
    by (simp only: d r)
  then show "\<exists>a b c. t = a @ CHR ''{'' # b @ CHR ''}'' # c" by blast
next
  assume "\<exists>a b c. t = a @ CHR ''{'' # b @ CHR ''}'' # c"
  then obtain a b c where t: "t = a @ CHR ''{'' # b @ CHR ''}'' # c" by blast
  show "has_span t"
    by (simp add: has_span_def t dropWhile_append)
qed

lemma match_braces_None: "match_braces t = None \<longleftrightarrow> \<not> has_span t"
  by (auto simp: match_braces_def has_span_def Let_def dropWhile_eq_Nil_conv)

lemma has_span_part: "has_span t' \<Longrightarrow> t = x @ t' @ y \<Longrightarrow> has_span t"
proof -
  assume "has_span t'" and t: "t = x @ t' @ y"
  then obtain a b c where "t' = a @ CHR ''{'' # b @ CHR ''}'' # c" by (auto simp: has_span_iff)
  then have "t = (x @ a) @ CHR ''{'' # b @ CHR ''}'' # (c @ y)" by (simp add: t)
  then show ?thesis unfolding has_span_iff by blast
qed

lemma strip_open_part: "\<exists>x. t = x @ strip_open m t"
proof -
  obtain k where "strip_open m t = drop k t" using strip_open_drop [of m t] by blast
  then have "t = take k t @ strip_open m t" by simp
  then show ?thesis by blast
qed

lemma strip_close_part: "\<exists>y. t = strip_close t @ y"
proof -
  have "strip_close t = t \<or> strip_close t = take (length t - 3) t
      \<or> strip_close t = take (length (take (length t - 3) t) - 1) (take (length t - 3) t)"
    by (simp add: strip_close_def Let_def)
  then obtain n where "strip_close t = take n t"
    by (metis take_all order_refl take_take)
  then have "t = strip_close t @ drop n t" by simp
  then show ?thesis by blast
qed

lemma strip_fence_part: "\<exists>x y. t = x @ strip_fence t @ y"
proof -
  have *: "\<exists>x y. t = x @ strip_close (strip_open m t) @ y" for m
  proof -
    obtain x where x: "t = x @ strip_open m t" using strip_open_part by blast
    obtain y where y: "strip_open m t = strip_close (strip_open m t) @ y"
      using strip_close_part by blast
    have "t = x @ strip_close (strip_open m t) @ y" using x y by metis
    then show ?thesis by blast
  qed
  have "t = [] @ t @ []" by simp
  then have **: "\<exists>x y. t = x @ t @ y" by blast
  show ?thesis unfolding strip_fence_def using * ** by (simp split: if_splits)
qed

lemma unfenced_part: "\<exists>x y. t = x @ strip_fence (trim t) @ y"
proof -
  obtain a b where 1: "t = a @ trim t @ b" using trim_decompose by blast
  obtain x y where 2: "trim t = x @ strip_fence (trim t) @ y" using strip_fence_part by blast
  define u where "u = trim t"
  define v where "v = strip_fence (trim t)"
  have "t = a @ u @ b" "u = x @ v @ y" using 1 2 by (simp_all add: u_def v_def)
  then have "t = (a @ x) @ v @ (y @ b)" by simp
  then show ?thesis unfolding v_def by blast
qed

lemma extract_json_no_span:
  assumes "\<not> has_span t" "JSON_parse rt (strip_fence (trim t)) = None"
  shows "extract_json rt msg t = Inl (Error msg)"
proof -
  have "\<not> has_span (strip_fence (trim t))"
    using assms(1) unfenced_part [of t] has_span_part by blast
  then have "match_braces (strip_fence (trim t)) = None" by (simp add: match_braces_None)
  then show ?thesis using assms(2) by (simp add: extract_json_def)
qed

subsection \<open>The objective score in the multiple-choice prompt\<close>

lemma contains_prefix: "contains (x @ b) x"
proof (cases "x @ b")
  case Nil
  then show ?thesis by simp
next
  case (Cons c cs)
  have "startsWith (x @ b) x" by (simp add: startsWith_def)
  then show ?thesis unfolding Cons by simp
qed

lemma contains_append: "contains (a @ x @ b) x"
  by (induction a) (simp_all add: contains_prefix)

lemma questionDetails_score:
  "questionDetails rt answers answerKey qs cc tp = Inr (ds, cc', tp') \<Longrightarrow>
     points_sum rt tp (filter (answered_correctly rt answers answerKey) qs) = Inr tp'
   \<and> cc' = cc + length (filter (answered_correctly rt answers answerKey) qs)"
proof (induction qs arbitrary: cc tp ds)
  case Nil
  then show ?case by simp
next
  case (Cons q qs)
  from Cons.prems obtain number key student key' correct pts qtext tp1 ds1 where
    g: "get q ''number'' = Inr number" "ToString rt number = Inr key" "lookup rt answers key = Inr student"
       "toString_call rt number = Inr key'" "lookup rt answerKey key' = Inr correct"
       "get q ''points'' = Inr pts" "get q ''question'' = Inr qtext"
       "(if member_eq student correct then js_add rt tp pts else Inr tp) = Inr tp1"
       "questionDetails rt answers answerKey qs
          (if member_eq student correct then Suc cc else cc) tp1 = Inr (ds1, cc', tp')"
    by (auto simp: tryE_Inr split: prod.splits)
  have ac: "answered_correctly rt answers answerKey q = member_eq student correct"
    using g(1-5) by (simp add: answered_correctly_def)
  from Cons.IH [OF g(9)] show ?case
    using g(6,8) ac by (auto split: if_splits)
qed

lemma concatE_append:
  "concatE (ps @ qs) = Inr s \<longleftrightarrow> (\<exists>a b. concatE ps = Inr a \<and> concatE qs = Inr b \<and> s = a @ b)"
proof (induction ps arbitrary: s)
  case Nil
  then show ?case by simp
next
  case (Cons p ps)
  show ?case
  proof (cases p)
    case (Inl e)
    then show ?thesis by simp
  next
    case (Inr x)
    show ?thesis
    proof (cases "concatE (ps @ qs)")
      case (Inl e)
      then show ?thesis using Inr Cons.IH by (auto simp: tryE_Inr)
    next
      case r: (Inr y)
      then show ?thesis using Inr Cons.IH [of y] by (auto simp: tryE_Inr)
    qed
  qed
qed

lemma concatE_three:
  assumes "concatE (ps @ [lit a, p, lit c] @ qs) = Inr s"
  shows "\<exists>x pre post. p = Inr x \<and> s = pre @ (a @ x @ c) @ post"
proof -
  from assms obtain pre m where 1: "concatE ([lit a, p, lit c] @ qs) = Inr m" "s = pre @ m"
    unfolding concatE_append [of ps] by blast
  from 1(1) obtain m3 post where 2: "concatE [lit a, p, lit c] = Inr m3" "m = m3 @ post"
    unfolding concatE_append [of "[lit a, p, lit c]"] by blast
  from 2(1) obtain x where 3: "p = Inr x" "m3 = a @ x @ c"
    by (cases p) (auto simp: lit_def)
  show ?thesis using 1(2) 2(2) 3 by blast
qed

lemma multiple_choice_prompt_score:
  assumes "multiple_choice_prompt rt assignment submission = Inr prompt"
  shows "\<exists>qs answers answerKey score shown.
           get assignment ''questions'' = Inr (JArr qs)
         \<and> get submission ''answers'' = Inr answers
         \<and> get assignment ''answerKey'' = Inr answerKey
         \<and> objective_score rt answers answerKey qs = Inr score
         \<and> ToString rt score = Inr shown
         \<and> contains prompt (''\<newline>- Points Earned: '' @ shown @ '' out of '')"
proof -
  from assms obtain questions answers answerKey qs details correctCount totalPoints where
    g: "get assignment ''questions'' = Inr questions" "get submission ''answers'' = Inr answers"
       "get assignment ''answerKey'' = Inr answerKey" "as_array questions = Inr qs"
       "questionDetails rt answers answerKey qs 0 (JNum (Fin 0)) = Inr (details, correctCount, totalPoints)"
    and c: "concatE [lit mc_intro, sub rt (get assignment ''title''),
                lit ''\<newline>\<newline>STUDENT PERFORMANCE:\<newline>- Correct Answers: '',
                lit (nat_str correctCount),
                lit '' out of '', lit (nat_str (length qs)),
                lit ''\<newline>- Points Earned: '', sub rt (Inr totalPoints),
                lit '' out of '', sub rt (points_sum rt (JNum (Fin 0)) qs),
                lit ''\<newline>- Percentage: '',
                tryE (points_sum rt (JNum (Fin 0)) qs) (\<lambda>total.
                  tryE (percent rt totalPoints total) (\<lambda>n. Inr (num_str rt n))),
                lit ''%\<newline>\<newline>QUESTION-BY-QUESTION BREAKDOWN:\<newline>'',
                tryE (mapE (detail_text rt) (enumerate0 details)) (\<lambda>parts. Inr (join newline parts)),
                lit ''\<newline>\<newline>RUBRIC:\<newline>'', rubric_text rt assignment,
                lit mc_outro] = Inr prompt"
    unfolding multiple_choice_prompt_def tryE_Inr by (auto split: prod.splits)
  have split: "[lit mc_intro, sub rt (get assignment ''title''),
                lit ''\<newline>\<newline>STUDENT PERFORMANCE:\<newline>- Correct Answers: '',
                lit (nat_str correctCount),
                lit '' out of '', lit (nat_str (length qs)),
                lit ''\<newline>- Points Earned: '', sub rt (Inr totalPoints),
                lit '' out of '', sub rt (points_sum rt (JNum (Fin 0)) qs),
                lit ''\<newline>- Percentage: '',
                tryE (points_sum rt (JNum (Fin 0)) qs) (\<lambda>total.
                  tryE (percent rt totalPoints total) (\<lambda>n. Inr (num_str rt n))),
                lit ''%\<newline>\<newline>QUESTION-BY-QUESTION BREAKDOWN:\<newline>'',
                tryE (mapE (detail_text rt) (enumerate0 details)) (\<lambda>parts. Inr (join newline parts)),
                lit ''\<newline>\<newline>RUBRIC:\<newline>'', rubric_text rt assignment,
                lit mc_outro]
     = [lit mc_intro, sub rt (get assignment ''title''),
                lit ''\<newline>\<newline>STUDENT PERFORMANCE:\<newline>- Correct Answers: '',
                lit (nat_str correctCount),
                lit '' out of '', lit (nat_str (length qs))]
       @ [lit ''\<newline>- Points Earned: '', sub rt (Inr totalPoints), lit '' out of '']
       @ [sub rt (points_sum rt (JNum (Fin 0)) qs),
                lit ''\<newline>- Percentage: '',
                tryE (points_sum rt (JNum (Fin 0)) qs) (\<lambda>total.
                  tryE (percent rt totalPoints total) (\<lambda>n. Inr (num_str rt n))),
                lit ''%\<newline>\<newline>QUESTION-BY-QUESTION BREAKDOWN:\<newline>'',
                tryE (mapE (detail_text rt) (enumerate0 details)) (\<lambda>parts. Inr (join newline parts)),
                lit ''\<newline>\<newline>RUBRIC:\<newline>'', rubric_text rt assignment,
                lit mc_outro]"
    by simp
  from c obtain shown pre post where
    s: "sub rt (Inr totalPoints) = Inr shown"
    and p: "prompt = pre @ (''\<newline>- Points Earned: '' @ shown @ '' out of '') @ post"
    unfolding split using concatE_three by blast
  have "contains prompt (''\<newline>- Points Earned: '' @ shown @ '' out of '')"
    unfolding p by (rule contains_append)
  moreover have "objective_score rt answers answerKey qs = Inr totalPoints"
    using questionDetails_score [OF g(5)] by (simp add: objective_score_def)
  moreover have "questions = JArr qs" using g(4) by (simp add: as_array_Inr)
  moreover have "ToString rt totalPoints = Inr shown" using s by (simp add: sub_def)
  ultimately show ?thesis using g(1-3) by blast
qed

subsection \<open>The examples, evaluated\<close>

lemmas string_eval = trim_def strip_ws.simps ws_len_def is_ws_def strip_fence_def strip_open_def
  strip_close_def startsWith_def endsWith_def match_braces_def Let_def

lemmas json_eval = json_parse_def parse_chars.simps skip_ws_def is_json_ws_def parse_number_def
  parse_integer_def parse_fraction_def parse_exponent_def exponent_digits_def number_value_def
  is_digit_def digits_val_def digit_val_def startsWith_def put_def simple_escape_def hex4_def
  hex_val_def utf8_def signed_zero_def fl_numeral fl_one Let_def

lemmas number_eval = percent_def js_div_def js_add_def js_or_def ToNumber_def ToPrimitive_def
  prim_number_def is_string_def num_add_def num_div_def num_mul_def signed_inf_def signed_zero_def
  fl_numeral floor_numeral_div_rat num_str_def nat_str.simps digit_char_def

lemma example_prompt_built:
  "build_evaluation_prompt rt (example_assignment tp) example_submission (JStr kind) = Inr (example_prompt kind)"
  by (simp add: build_evaluation_prompt_def kind_is_def generic_prompt_def rubric_text_def
      example_assignment_def example_submission_def example_prompt_def sub_def lit_def as_array_def)

lemma recover_example:
  assumes "kind \<noteq> []" "generateText rt (example_prompt kind) = Inr answer"
    and "extract_json rt ''Could not parse evaluation data from AI response'' answer = Inr data"
  shows "recover_evaluation rt (Some ''sk-test'') (Inr (example_body kind tp))
         = Inr (example_assignment tp, example_prompt kind, data)"
proof -
  have t: "truthy (example_assignment tp)" "truthy example_submission"
    by (simp_all add: example_assignment_def example_submission_def)
  show ?thesis
    using assms t by (simp add: recover_evaluation_def example_body_def key_configured_def example_prompt_built)
qed

lemma example_answer_parsed: "json_parse example_answer = Some example_data"
  by (simp add: example_answer_def example_data_def json_eval)

lemma example_answer_bare: "strip_fence (trim example_answer) = example_answer"
  by (rule unfence_bare) (simp add: object_text_def example_answer_def)

lemma example_answer_extracted:
  "extract_json (example_runtime a) msg example_answer = Inr example_data"
  by (rule extract_json_direct) (simp add: example_answer_bare example_runtime_def example_answer_parsed)

lemma fl_7_10: "fl (7 / 10) = Fin (3152519739159347 / 4503599627370496)"
  by (simp add: fl_eval [where l = "-1"] round_half_even_def floor_numeral_div_rat Let_def)

lemma fl_70: "fl (3152519739159347 / 4503599627370496 * 100) = Fin 70"
  by (simp add: fl_eval [where l = "6"] round_half_even_def floor_numeral_div_rat Let_def)

lemma percent_35_50: "percent rt (JNum (Fin 35)) (JNum (Fin 50)) = Inr (Fin 70)"
  using fl_7_10 fl_70 by (simp add: number_eval)

lemma example_results:
  "results rt (example_assignment (JNum (Fin 50))) example_data =
     Inr (JObj [(''totalScore'', JNum (Fin 35)), (''maxScore'', JNum (Fin 50)),
           (''percentage'', JNum (Fin 70)), (''feedback'', JStr ''ok''),
           (''detailedFeedback'', JUndefined),
           (''rubricScores'', JArr [JObj [(''score'', JNum (Fin 20)), (''maxScore'', JNum (Fin 25))],
                                    JObj [(''score'', JNum (Fin 15)), (''maxScore'', JNum (Fin 25))]])])"
proof -
  have "reduce_scores rt (JNum (Fin 0))
          [JObj [(''score'', JNum (Fin 20)), (''maxScore'', JNum (Fin 25))],
           JObj [(''score'', JNum (Fin 15)), (''maxScore'', JNum (Fin 25))]] = Inr (JNum (Fin 35))"
    by (simp add: js_or_def js_add_numbers num_add_def fl_numeral)
  then show ?thesis
    using percent_35_50 [of rt]
    by (simp add: results_def example_assignment_def example_data_def as_array_def js_or_def)
qed

subsection \<open>Evaluate: requests that are rejected\<close>

lemma example_runtime_simps [simp]:
  "JSON_parse (example_runtime a) = json_parse"
  "generateText (example_runtime a) p = Inr a"
  by (simp_all add: example_runtime_def)

lemma recover_example_answer:
  assumes "kind \<noteq> []"
  shows "recover_evaluation (example_runtime example_answer) (Some ''sk-test'') (Inr (example_body kind tp))
         = Inr (example_assignment tp, example_prompt kind, example_data)"
proof (rule recover_example)
  show "kind \<noteq> []" by fact
  show "generateText (example_runtime example_answer) (example_prompt kind) = Inr example_answer"
    by simp
  show "extract_json (example_runtime example_answer)
          ''Could not parse evaluation data from AI response'' example_answer = Inr example_data"
    by (rule example_answer_extracted)
qed

text \<open>
  C2, as amended. A request body, not null, in which the assignment, the submission or the
  assignment type is absent or falsy is answered with status 400, and no call to the model
  is made. The handler checks nothing else before the call: neither that the type is one of
  the six kinds, nor that the submission has the shape of its kind.
\<close>

theorem evaluate_rejects_missing_fields:
  assumes "body \<noteq> JNull" and "body \<noteq> JUndefined"
    and "field_missing body ''assignment'' \<or> field_missing body ''submission''
         \<or> field_missing body ''assignmentType''"
  shows "\<exists>msg. POST_evaluate rt env (Inr body) = (ErrorResponse 400 msg, [])"
  using assms by (rule evaluate_400)

text \<open>
  A request without its assignment type.
\<close>

theorem evaluate_rejects_missing_fields_witness:
  "JObj [(''assignment'', example_assignment (JNum (Fin 50))), (''submission'', example_submission)] \<noteq> JNull
   \<and> JObj [(''assignment'', example_assignment (JNum (Fin 50))), (''submission'', example_submission)] \<noteq> JUndefined
   \<and> field_missing (JObj [(''assignment'', example_assignment (JNum (Fin 50))), (''submission'', example_submission)])
        ''assignmentType''
   \<and> POST_evaluate (example_runtime example_answer) (Some ''sk-test'')
        (Inr (JObj [(''assignment'', example_assignment (JNum (Fin 50))), (''submission'', example_submission)]))
      = (ErrorResponse 400 ''Assignment type is required.'', [])"
proof -
  let ?b = "JObj [(''assignment'', example_assignment (JNum (Fin 50))), (''submission'', example_submission)]"
  have m: "field_missing ?b ''assignment'' \<or> field_missing ?b ''submission''
         \<or> field_missing ?b ''assignmentType''"
    by (simp add: field_missing_def)
  have "\<exists>msg. POST_evaluate (example_runtime example_answer) (Some ''sk-test'') (Inr ?b)
      = (ErrorResponse 400 msg, [])"
    by (rule evaluate_rejects_missing_fields [OF _ _ m]) simp_all
  moreover have "POST_evaluate (example_runtime example_answer) (Some ''sk-test'') (Inr ?b)
      = (ErrorResponse 400 ''Assignment type is required.'', [])"
    by (simp add: POST_evaluate_def recover_evaluation_def example_assignment_def example_submission_def)
  ultimately show ?thesis by (simp add: field_missing_def)
qed

text \<open>
  Against C2 as stated: the assignment type \<open>banana\<close> is none of the six kinds, and the
  request is answered with status 200.
\<close>

theorem evaluate_unknown_kind_counterexample:
  "\<not> includes_str validTypes (JStr ''banana'')
   \<and> status (fst (POST_evaluate (example_runtime example_answer) (Some ''sk-test'')
                    (Inr (example_body ''banana'' (JNum (Fin 50)))))) = 200"
proof -
  have "recover_evaluation (example_runtime example_answer) (Some ''sk-test'')
          (Inr (example_body ''banana'' (JNum (Fin 50))))
        = Inr (example_assignment (JNum (Fin 50)), example_prompt ''banana'', example_data)"
    by (rule recover_example_answer) simp
  then show ?thesis
    by (simp add: POST_evaluate_def example_results includes_str_def validTypes_def)
qed

subsection \<open>Evaluate: an answer without the array of assessments\<close>

text \<open>
  C9. When the JSON recovered from the model's answer has no array under
  \<open>rubricAssessment\<close>, the evaluate handler answers with the caught TypeError, status 500:
  \<open>reduce\<close> is called on the value before the fallback to the empty array is reached.
\<close>

theorem evaluate_without_assessment_array:
  assumes "recover_evaluation rt env req = Inr (assignment, prompt, evaluationData)"
    and "\<not> has_assessment_array evaluationData"
  shows "POST_evaluate rt env req = (Caught TypeError, [prompt])
         \<and> status (fst (POST_evaluate rt env req)) = 500"
  using evaluate_without_array [OF assms] by simp

text \<open>
  An answer that holds only the overall feedback.
\<close>

theorem evaluate_without_assessment_array_witness:
  \<open>recover_evaluation (example_runtime ''{"overallFeedback":"fine"}'') (Some ''sk-test'')
          (Inr (example_body ''project'' (JNum (Fin 50))))
     = Inr (example_assignment (JNum (Fin 50)), example_prompt ''project'',
            JObj [(''overallFeedback'', JStr ''fine'')])
   \<and> \<not> has_assessment_array (JObj [(''overallFeedback'', JStr ''fine'')])
   \<and> POST_evaluate (example_runtime ''{"overallFeedback":"fine"}'') (Some ''sk-test'')
          (Inr (example_body ''project'' (JNum (Fin 50))))
     = (Caught TypeError, [example_prompt ''project''])\<close>
proof -
  let ?answer = \<open>''{"overallFeedback":"fine"}''\<close>
  let ?data = "JObj [(''overallFeedback'', JStr ''fine'')]"
  have "strip_fence (trim ?answer) = ?answer"
    by (rule unfence_bare) (simp add: object_text_def)
  moreover have "json_parse ?answer = Some ?data" by (simp add: json_eval)
  ultimately have "extract_json (example_runtime ?answer)
      ''Could not parse evaluation data from AI response'' ?answer = Inr ?data"
    by (intro extract_json_direct) simp
  then have r: "recover_evaluation (example_runtime ?answer) (Some ''sk-test'')
          (Inr (example_body ''project'' (JNum (Fin 50))))
        = Inr (example_assignment (JNum (Fin 50)), example_prompt ''project'', ?data)"
    by (intro recover_example) simp_all
  have n: "\<not> has_assessment_array ?data" by (simp add: has_assessment_array_def)
  show ?thesis
    using evaluate_without_assessment_array [OF r n] r n by simp
qed

subsection \<open>Evaluate: a rubric worth zero points\<close>

text \<open>
  C10. When the evaluation gets as far as the scores, the scores can be summed, and
  \<open>assignment.rubric.totalPoints\<close> is zero or absent, the handler still answers with success,
  and the percentage of the result is \<open>NaN\<close> or infinite: the division is not guarded.
\<close>

theorem evaluate_zero_total_points:
  assumes "recover_evaluation rt env req = Inr (assignment, prompt, evaluationData)"
    and "get evaluationData ''rubricAssessment'' = Inr (JArr items)"
    and "reduce_scores rt (JNum (Fin 0)) items = Inr tot"
    and "max_score assignment = Inr mx" and "zero_or_absent mx"
  shows "\<exists>res p. POST_evaluate rt env req =
            (Success (JObj [(''success'', JBool True), (''results'', res)]), [prompt])
          \<and> get res ''percentage'' = Inr (JNum p) \<and> not_finite p"
  using assms by (rule evaluate_zero_total)

text \<open>
  The scores 20 and 15 for a rubric worth 0 points: the percentage is infinite.
\<close>

theorem evaluate_zero_total_points_witness:
  "recover_evaluation (example_runtime example_answer) (Some ''sk-test'')
          (Inr (example_body ''project'' (JNum (Fin 0))))
     = Inr (example_assignment (JNum (Fin 0)), example_prompt ''project'', example_data)
   \<and> get example_data ''rubricAssessment''
       = Inr (JArr [JObj [(''score'', JNum (Fin 20)), (''maxScore'', JNum (Fin 25))],
                    JObj [(''score'', JNum (Fin 15)), (''maxScore'', JNum (Fin 25))]])
   \<and> reduce_scores (example_runtime example_answer) (JNum (Fin 0))
         [JObj [(''score'', JNum (Fin 20)), (''maxScore'', JNum (Fin 25))],
          JObj [(''score'', JNum (Fin 15)), (''maxScore'', JNum (Fin 25))]] = Inr (JNum (Fin 35))
   \<and> max_score (example_assignment (JNum (Fin 0))) = Inr (JNum (Fin 0))
   \<and> zero_or_absent (JNum (Fin 0))
   \<and> fst (POST_evaluate (example_runtime example_answer) (Some ''sk-test'')
          (Inr (example_body ''project'' (JNum (Fin 0)))))
     = Success (JObj [(''success'', JBool True),
        (''results'', JObj [(''totalScore'', JNum (Fin 35)), (''maxScore'', JNum (Fin 0)),
           (''percentage'', JNum PInf), (''feedback'', JStr ''ok''),
           (''detailedFeedback'', JUndefined),
           (''rubricScores'', JArr [JObj [(''score'', JNum (Fin 20)), (''maxScore'', JNum (Fin 25))],
                                    JObj [(''score'', JNum (Fin 15)), (''maxScore'', JNum (Fin 25))]])])])"
proof -
  have r: "recover_evaluation (example_runtime example_answer) (Some ''sk-test'')
          (Inr (example_body ''project'' (JNum (Fin 0))))
     = Inr (example_assignment (JNum (Fin 0)), example_prompt ''project'', example_data)"
    by (rule recover_example_answer) simp
  have g: "get example_data ''rubricAssessment''
       = Inr (JArr [JObj [(''score'', JNum (Fin 20)), (''maxScore'', JNum (Fin 25))],
                    JObj [(''score'', JNum (Fin 15)), (''maxScore'', JNum (Fin 25))]])"
    by (simp add: example_data_def)
  have s: "reduce_scores (example_runtime example_answer) (JNum (Fin 0))
         [JObj [(''score'', JNum (Fin 20)), (''maxScore'', JNum (Fin 25))],
          JObj [(''score'', JNum (Fin 15)), (''maxScore'', JNum (Fin 25))]] = Inr (JNum (Fin 35))"
    by (simp add: js_or_def js_add_numbers num_add_def fl_numeral)
  have m: "max_score (example_assignment (JNum (Fin 0))) = Inr (JNum (Fin 0))"
    by (simp add: max_score_def example_assignment_def)
  have z: "zero_or_absent (JNum (Fin 0))" by (simp add: zero_or_absent_def)
  have p: "percent (example_runtime example_answer) (JNum (Fin 35)) (JNum (Fin 0)) = Inr PInf"
    by (simp add: number_eval)
  have "results (example_runtime example_answer) (example_assignment (JNum (Fin 0))) example_data
     = Inr (JObj [(''totalScore'', JNum (Fin 35)), (''maxScore'', JNum (Fin 0)),
           (''percentage'', JNum PInf), (''feedback'', JStr ''ok''),
           (''detailedFeedback'', JUndefined),
           (''rubricScores'', JArr [JObj [(''score'', JNum (Fin 20)), (''maxScore'', JNum (Fin 25))],
                                    JObj [(''score'', JNum (Fin 15)), (''maxScore'', JNum (Fin 25))]])])"
    using s p by (simp add: results_def example_assignment_def example_data_def as_array_def js_or_def)
  then show ?thesis
    using evaluate_zero_total_points [OF r g s m z] r g s m z by (simp add: POST_evaluate_def)
qed

subsection \<open>Evaluate: entries without a numeric score\<close>

text \<open>
  C7, as amended. An entry whose score is absent or falsy leaves a numeric running total as
  it is (a total other than the negative zero). The summation returns a value exactly when
  every entry can be read (it is not \<open>null\<close>) and its score can be made primitive. A score
  that is truthy and not a number is not counted as zero: the operator + appends its string.
\<close>

theorem sum_scores_missing_is_zero:
  assumes "get item ''score'' = Inr s" and "\<not> truthy s" and "n \<noteq> NZero"
  shows "reduce_scores rt (JNum n) (item # items) = reduce_scores rt (JNum n) items
         \<and> ((\<exists>t. reduce_scores rt (JNum (Fin 0)) entries = Inr t) \<longleftrightarrow> list_all (scorable rt) entries)"
  using reduce_scores_missing [OF assms] reduce_scores_defined [of "JNum (Fin 0)" rt entries]
  by (simp add: num_or_str_def)

text \<open>
  An entry without a score between numeric ones, and a list with an absent and a
  \<open>null\<close> score.
\<close>

theorem sum_scores_missing_is_zero_witness:
  "get (JObj [(''category'', JStr ''Depth'')]) ''score'' = Inr JUndefined
   \<and> \<not> truthy JUndefined \<and> Fin 20 \<noteq> NZero
   \<and> reduce_scores (example_runtime []) (JNum (Fin 20))
        [JObj [(''category'', JStr ''Depth'')], JObj [(''score'', JNum (Fin 15))]]
      = reduce_scores (example_runtime []) (JNum (Fin 20)) [JObj [(''score'', JNum (Fin 15))]]
   \<and> reduce_scores (example_runtime []) (JNum (Fin 20)) [JObj [(''score'', JNum (Fin 15))]]
      = Inr (JNum (Fin 35))
   \<and> list_all (scorable (example_runtime []))
        [JObj [(''score'', JNum (Fin 20))], JObj [(''category'', JStr ''Depth'')], JObj [(''score'', JNull)]]
   \<and> reduce_scores (example_runtime []) (JNum (Fin 0))
        [JObj [(''score'', JNum (Fin 20))], JObj [(''category'', JStr ''Depth'')], JObj [(''score'', JNull)]]
      = Inr (JNum (Fin 20))"
proof -
  have g: "get (JObj [(''category'', JStr ''Depth'')]) ''score'' = Inr JUndefined" by simp
  have t: "\<not> truthy JUndefined" by simp
  have n: "Fin 20 \<noteq> NZero" by simp
  have e: "reduce_scores (example_runtime []) (JNum (Fin 20)) [JObj [(''score'', JNum (Fin 15))]]
      = Inr (JNum (Fin 35))"
    by (simp add: js_or_def js_add_numbers num_add_def fl_numeral)
  have e2: "reduce_scores (example_runtime []) (JNum (Fin 0))
        [JObj [(''score'', JNum (Fin 20))], JObj [(''category'', JStr ''Depth'')], JObj [(''score'', JNull)]]
      = Inr (JNum (Fin 20))"
    by (simp add: js_or_def js_add_numbers num_add_def fl_numeral signed_zero_def)
  show ?thesis
    using sum_scores_missing_is_zero [OF g t n, of "example_runtime []" "[JObj [(''score'', JNum (Fin 15))]]"
        "[JObj [(''score'', JNum (Fin 20))], JObj [(''category'', JStr ''Depth'')], JObj [(''score'', JNull)]]"]
      e e2
    by simp
qed

text \<open>
  Against C7 as stated: the score \<open>abc\<close> turns the total into the string \<open>0abc\<close>, and an
  entry that is \<open>null\<close> makes the summation throw a TypeError.
\<close>

theorem sum_scores_counterexample:
  "reduce_scores (example_runtime []) (JNum (Fin 0)) [JObj [(''score'', JStr ''abc'')]] = Inr (JStr ''0abc'')
   \<and> reduce_scores (example_runtime []) (JNum (Fin 0)) [JNull] = Inl TypeError"
  by (simp add: js_or_def js_add_def ToPrimitive_def is_string_def num_str_def nat_str.simps digit_char_def)

subsection \<open>Extraction gives back the object\<close>

text \<open>
  C3, as amended. Let \<open>s\<close> be a text from an opening to a closing brace that
  \<open>JSON.parse\<close> reads as \<open>J\<close>. The extraction gives \<open>J\<close> from \<open>s\<close> in a fence tagged json, from
  \<open>s\<close> in a bare fence, from \<open>s\<close> itself, and from \<open>s\<close> between a text without an opening
  brace and a text without a closing brace, provided the whole text, trimmed and without
  its fence, is not itself JSON for another value.
\<close>

theorem extract_json_round_trip:
  assumes "JSON_parse rt s = Some J" and "object_text s"
  shows "extract_json rt msg (fence ''json'' s) = Inr J
       \<and> extract_json rt msg (fence [] s) = Inr J
       \<and> extract_json rt msg s = Inr J
       \<and> (\<forall>p q. CHR ''{'' \<notin> set p \<and> CHR ''}'' \<notin> set q
                \<and> (JSON_parse rt (strip_fence (trim (p @ s @ q))) = None
                    \<or> JSON_parse rt (strip_fence (trim (p @ s @ q))) = Some J)
              \<longrightarrow> extract_json rt msg (p @ s @ q) = Inr J)"
proof -
  have 1: "extract_json rt msg (fence ''json'' s) = Inr J"
    by (rule extract_json_direct) (simp add: unfence_json assms(1))
  have 2: "extract_json rt msg (fence [] s) = Inr J"
    by (rule extract_json_direct) (simp add: unfence_plain assms(1))
  have 3: "extract_json rt msg s = Inr J"
    by (rule extract_json_direct) (simp add: unfence_bare [OF assms(2)] assms(1))
  show ?thesis
    using 1 2 3 extract_json_wrapped [OF assms] by blast
qed

text \<open>
  The object with the one member \<open>a\<close>, alone, fenced and inside a sentence.
\<close>

theorem extract_json_round_trip_witness:
  \<open>JSON_parse (example_runtime []) ''{"a":1}'' = Some (JObj [(''a'', JNum (Fin 1))])
   \<and> object_text ''{"a":1}''
   \<and> extract_json (example_runtime []) ''m'' (fence ''json'' ''{"a":1}'') = Inr (JObj [(''a'', JNum (Fin 1))])
   \<and> extract_json (example_runtime []) ''m'' (fence [] ''{"a":1}'') = Inr (JObj [(''a'', JNum (Fin 1))])
   \<and> extract_json (example_runtime []) ''m'' ''{"a":1}'' = Inr (JObj [(''a'', JNum (Fin 1))])
   \<and> CHR ''{'' \<notin> set ''some prose '' \<and> CHR ''}'' \<notin> set '' more prose''
   \<and> JSON_parse (example_runtime []) (strip_fence (trim (''some prose '' @ ''{"a":1}'' @ '' more prose''))) = None
   \<and> extract_json (example_runtime []) ''m'' (''some prose '' @ ''{"a":1}'' @ '' more prose'')
       = Inr (JObj [(''a'', JNum (Fin 1))])\<close>
proof -
  let ?s = \<open>''{"a":1}''\<close>
  let ?t = \<open>''some prose {"a":1} more prose''\<close>
  have p: "JSON_parse (example_runtime []) ?s = Some (JObj [(''a'', JNum (Fin 1))])"
    by (simp add: json_eval)
  have o: "object_text ?s" by (simp add: object_text_def)
  have app: "''some prose '' @ ?s @ '' more prose'' = ?t" by simp
  have "trim ?t = ?t" by (rule trim_plain_ends) (simp_all add: plain_def)
  then have "strip_fence (trim ?t) = ?t" by (simp add: strip_fence_def startsWith_def)
  moreover have "json_parse ?t = None" by (simp add: json_eval)
  ultimately have "JSON_parse (example_runtime []) (strip_fence (trim ?t)) = None" by simp
  then have n: "JSON_parse (example_runtime [])
      (strip_fence (trim (''some prose '' @ ?s @ '' more prose''))) = None"
    by (simp only: app)
  have c: "CHR ''{'' \<notin> set ''some prose ''" "CHR ''}'' \<notin> set '' more prose''" by simp_all
  show ?thesis
    using extract_json_round_trip [OF p o, of "''m''"] p o n c by blast
qed

text \<open>
  Against C3 as stated: between the texts \<open>[\<close> and \<open>]\<close>, which have no brace, the empty
  object reads as an array, and the extraction gives the array.
\<close>

theorem extract_json_array_counterexample:
  "JSON_parse (example_runtime []) ''{}'' = Some (JObj []) \<and> object_text ''{}''
   \<and> CHR ''{'' \<notin> set ''['' \<and> CHR ''}'' \<notin> set '']''
   \<and> extract_json (example_runtime []) ''m'' (''['' @ ''{}'' @ '']'') = Inr (JArr [JObj []])"
proof -
  have "trim ''[{}]'' = ''[{}]''" by (rule trim_plain_ends) (simp_all add: plain_def)
  then have "strip_fence (trim ''[{}]'') = ''[{}]''" by (simp add: strip_fence_def startsWith_def)
  moreover have "json_parse ''[{}]'' = Some (JArr [JObj []])" by (simp add: json_eval)
  ultimately have "extract_json (example_runtime []) ''m'' ''[{}]'' = Inr (JArr [JObj []])"
    by (intro extract_json_direct) simp
  moreover have "json_parse ''{}'' = Some (JObj [])" by (simp add: json_eval)
  ultimately show ?thesis by (simp add: object_text_def)
qed

subsection \<open>Generate: requests that are rejected\<close>

text \<open>
  A request body other than \<open>null\<close> whose query is absent, not a string or blank, or whose
  assignment type is given and is none of the six kinds, is answered with status 400 and
  no call to the model is made.
\<close>

theorem generate_rejects_invalid_request:
  assumes "body \<noteq> JNull" and "body \<noteq> JUndefined"
    and "query_invalid body \<or> type_invalid body"
  shows "\<exists>msg. POST_generate rt templates env (Inr body) = (ErrorResponse 400 msg, [])"
proof -
  obtain qv tv where q: "get body ''query'' = Inr qv" and t: "get body ''assignmentType'' = Inr tv"
    using assms(1,2) get_not_null by blast
  show ?thesis
    using assms(3) q t
    by (auto simp: POST_generate_def query_invalid_def type_invalid_def Let_def typeof_string_def
        includes_str_def trim_Nil split: js.splits)
qed

text \<open>
  A request with the empty query.
\<close>

theorem generate_rejects_invalid_request_witness:
  "JObj [(''query'', JStr []), (''assignmentType'', JStr ''essay'')] \<noteq> JNull
   \<and> JObj [(''query'', JStr []), (''assignmentType'', JStr ''essay'')] \<noteq> JUndefined
   \<and> query_invalid (JObj [(''query'', JStr []), (''assignmentType'', JStr ''essay'')])
   \<and> POST_generate (example_runtime []) (\<lambda>t q. q) (Some ''sk-test'')
        (Inr (JObj [(''query'', JStr []), (''assignmentType'', JStr ''essay'')]))
      = (ErrorResponse 400 ''Please provide a search query to generate an assignment.'', [])"
proof -
  let ?b = "JObj [(''query'', JStr []), (''assignmentType'', JStr ''essay'')]"
  have q: "query_invalid ?b \<or> type_invalid ?b" by (simp add: query_invalid_def trim_Nil)
  have "\<exists>msg. POST_generate (example_runtime []) (\<lambda>t q. q) (Some ''sk-test'') (Inr ?b)
      = (ErrorResponse 400 msg, [])"
    by (rule generate_rejects_invalid_request [OF _ _ q]) simp_all
  moreover have "POST_generate (example_runtime []) (\<lambda>t q. q) (Some ''sk-test'') (Inr ?b)
      = (ErrorResponse 400 ''Please provide a search query to generate an assignment.'', [])"
    by (simp add: POST_generate_def)
  ultimately show ?thesis by (simp add: query_invalid_def trim_Nil)
qed

text \<open>
  C5 at the body \<open>null\<close>. The handler takes \<open>query\<close> and \<open>assignmentType\<close> out of the body
  before it checks them; for the body \<open>null\<close>, which has no query, this throws a TypeError
  and the answer is the one of the \<^verbatim>\<open>catch\<close> block, status 500 and not 400. No call to the
  model is made.
\<close>

theorem generate_null_body:
  "query_invalid JNull
   \<and> POST_generate rt templates env (Inr JNull) = (Caught TypeError, [])
   \<and> status (fst (POST_generate rt templates env (Inr JNull))) = 500"
  by (simp add: query_invalid_def POST_generate_def)

text \<open>The same with a key configured.\<close>

theorem generate_null_body_witness:
  "POST_generate (example_runtime []) (\<lambda>t q. q) (Some ''sk-test'') (Inr JNull) = (Caught TypeError, [])
   \<and> status (fst (POST_generate (example_runtime []) (\<lambda>t q. q) (Some ''sk-test'') (Inr JNull))) = 500"
  using generate_null_body [of "example_runtime []" "\<lambda>t q. q" "Some ''sk-test''"] by simp

subsection \<open>Extraction fails on a text without braces\<close>

lemma generate_extraction_fails:
  assumes "\<forall>prompt. generateText rt prompt = Inr text"
    and "extract_json rt ''Could not parse assignment data from AI response'' text = Inl e"
  shows "snd (POST_generate rt templates env req) = []
         \<or> fst (POST_generate rt templates env req) = Caught e"
  using assms
  by (auto simp: POST_generate_def Let_def split: sum.splits js.splits)

lemma evaluate_extraction_fails:
  assumes "\<forall>prompt. generateText rt prompt = Inr text"
    and "extract_json rt ''Could not parse evaluation data from AI response'' text = Inl e"
  shows "snd (POST_evaluate rt env req) = [] \<or> fst (POST_evaluate rt env req) = Caught e"
  using assms
  by (auto simp: POST_evaluate_def recover_evaluation_def split: sum.splits)

text \<open>
  C8, as amended. When the model's text has no opening brace with a closing brace after
  it, and the text, trimmed and without its fence, is not JSON, the extraction throws the
  error with the handler's message. A handler that gets this text from the model answers,
  if it calls the model at all, with that error caught, status 500.
\<close>

theorem extract_json_no_span_fails:
  assumes "\<not> has_span text" and "JSON_parse rt (strip_fence (trim text)) = None"
    and "\<forall>prompt. generateText rt prompt = Inr text"
  shows "extract_json rt msg text = Inl (Error msg)
       \<and> (snd (POST_generate rt templates env req) = []
          \<or> fst (POST_generate rt templates env req)
              = Caught (Error ''Could not parse assignment data from AI response''))
       \<and> (snd (POST_evaluate rt env req') = []
          \<or> fst (POST_evaluate rt env req')
              = Caught (Error ''Could not parse evaluation data from AI response''))"
  using extract_json_no_span [OF assms(1,2)]
    generate_extraction_fails [OF assms(3)] evaluate_extraction_fails [OF assms(3)]
  by blast

lemma recover_example_fails:
  assumes "kind \<noteq> []" "generateText rt (example_prompt kind) = Inr answer"
    and "extract_json rt ''Could not parse evaluation data from AI response'' answer = Inl e"
  shows "recover_evaluation rt (Some ''sk-test'') (Inr (example_body kind tp))
         = Inl (Caught e, [example_prompt kind])"
proof -
  have t: "truthy (example_assignment tp)" "truthy example_submission"
    by (simp_all add: example_assignment_def example_submission_def)
  show ?thesis
    using assms t by (simp add: recover_evaluation_def example_body_def key_configured_def example_prompt_built)
qed

text \<open>
  A refusal in plain words, sent to both handlers.
\<close>

theorem extract_json_no_span_fails_witness:
  "\<not> has_span ''I cannot help with that.''
   \<and> JSON_parse (example_runtime ''I cannot help with that.'')
        (strip_fence (trim ''I cannot help with that.'')) = None
   \<and> (\<forall>prompt. generateText (example_runtime ''I cannot help with that.'') prompt
                  = Inr ''I cannot help with that.'')
   \<and> POST_generate (example_runtime ''I cannot help with that.'') (\<lambda>t q. q) (Some ''sk-test'')
        (Inr (JObj [(''query'', JStr ''rivers'')]))
      = (Caught (Error ''Could not parse assignment data from AI response''), [''rivers''])
   \<and> POST_evaluate (example_runtime ''I cannot help with that.'') (Some ''sk-test'')
        (Inr (example_body ''project'' (JNum (Fin 50))))
      = (Caught (Error ''Could not parse evaluation data from AI response''), [example_prompt ''project''])"
proof -
  let ?t = "''I cannot help with that.''"
  let ?rt = "example_runtime ?t"
  have h: "\<not> has_span ?t" by (simp add: has_span_def)
  have "trim ?t = ?t" by (rule trim_plain_ends) (simp_all add: plain_def)
  then have u: "strip_fence (trim ?t) = ?t" by (simp add: strip_fence_def startsWith_def)
  have "json_parse ?t = None" by (simp add: json_eval)
  then have n: "JSON_parse ?rt (strip_fence (trim ?t)) = None" by (simp only: u example_runtime_simps)
  have g: "\<forall>prompt. generateText ?rt prompt = Inr ?t" by simp
  have e1: "extract_json ?rt ''Could not parse assignment data from AI response'' ?t
      = Inl (Error ''Could not parse assignment data from AI response'')"
    using extract_json_no_span_fails [OF h n g] by (rule conjunct1)
  have e2: "extract_json ?rt ''Could not parse evaluation data from AI response'' ?t
      = Inl (Error ''Could not parse evaluation data from AI response'')"
    using extract_json_no_span_fails [OF h n g] by (rule conjunct1)
  have q: "trim ''rivers'' = ''rivers''" by (rule trim_plain_ends) (simp_all add: plain_def)
  have 1: "POST_generate ?rt (\<lambda>t q. q) (Some ''sk-test'') (Inr (JObj [(''query'', JStr ''rivers'')]))
      = (Caught (Error ''Could not parse assignment data from AI response''), [''rivers''])"
    using e1 by (simp add: POST_generate_def typeof_string_def q includes_str_def validTypes_def key_configured_def)
  have "recover_evaluation ?rt (Some ''sk-test'') (Inr (example_body ''project'' (JNum (Fin 50))))
      = Inl (Caught (Error ''Could not parse evaluation data from AI response''), [example_prompt ''project''])"
    by (rule recover_example_fails [where answer = ?t, OF _ _ e2]) simp_all
  then have 2: "POST_evaluate ?rt (Some ''sk-test'') (Inr (example_body ''project'' (JNum (Fin 50))))
      = (Caught (Error ''Could not parse evaluation data from AI response''), [example_prompt ''project''])"
    by (simp add: POST_evaluate_def)
  show ?thesis
    by (intro conjI) (rule h n g 1 2)+
qed

text \<open>
  Against C8 as stated: a fenced array has no brace and, with its fence, is not JSON; the
  fence is removed before parsing, the array is read, and generate answers with success.
\<close>

theorem extract_json_fenced_array_counterexample:
  "\<not> has_span ''```json\<newline>[1,2]\<newline>```''
   \<and> JSON_parse (example_runtime ''```json\<newline>[1,2]\<newline>```'') ''```json\<newline>[1,2]\<newline>```'' = None
   \<and> POST_generate (example_runtime ''```json\<newline>[1,2]\<newline>```'') (\<lambda>t q. q) (Some ''sk-test'')
        (Inr (JObj [(''query'', JStr ''rivers'')]))
      = (Success (JObj [(''success'', JBool True),
                        (''assignment'', JArr [JNum (Fin 1), JNum (Fin 2)]),
                        (''query'', JStr ''rivers''),
                        (''assignmentType'', JStr ''case-study'')]), [''rivers''])"
proof -
  let ?t = "''```json\<newline>[1,2]\<newline>```''"
  have f: "?t = fence ''json'' ''[1,2]''" by (simp add: fence_def newline_def)
  have "strip_fence (trim ?t) = ''[1,2]''" unfolding f by (rule unfence_json)
  moreover have "json_parse ''[1,2]'' = Some (JArr [JNum (Fin 1), JNum (Fin 2)])" by (simp add: json_eval)
  ultimately have e: "extract_json (example_runtime ?t)
      ''Could not parse assignment data from AI response'' ?t = Inr (JArr [JNum (Fin 1), JNum (Fin 2)])"
    by (intro extract_json_direct) simp
  have q: "trim ''rivers'' = ''rivers''" by (rule trim_plain_ends) (simp_all add: plain_def)
  have "json_parse ?t = None" by (simp add: json_eval)
  moreover have "\<not> has_span ?t" by (simp add: has_span_def)
  ultimately show ?thesis
    using e by (simp add: POST_generate_def typeof_string_def q includes_str_def validTypes_def key_configured_def)
qed

subsection \<open>Evaluate: the objective score is in the prompt\<close>

lemma evaluate_call_prompt:
  assumes "get body ''assignment'' = Inr assignment" "get body ''submission'' = Inr submission"
    and "get body ''assignmentType'' = Inr assignmentType"
    and "prompt \<in> set (snd (POST_evaluate rt env (Inr body)))"
  shows "build_evaluation_prompt rt assignment submission assignmentType = Inr prompt"
proof (cases "recover_evaluation rt env (Inr body)")
  case (Inl out)
  then have "prompt \<in> set (snd out)" using assms(4) by (simp add: POST_evaluate_def)
  then show ?thesis
    using Inl assms(1-3)
    by (auto simp: recover_evaluation_def split: if_splits sum.splits)
next
  case (Inr r)
  obtain a p d where r: "r = (a, p, d)" by (cases r)
  have "snd (POST_evaluate rt env (Inr body)) = [p]"
    using Inr r by (simp add: POST_evaluate_def split: sum.splits)
  then have "prompt = p" using assms(4) by simp
  then show ?thesis
    using Inr r assms(1-3)
    by (auto simp: recover_evaluation_def split: if_splits sum.splits)
qed

text \<open>
  C4, as amended. For the multiple-choice kind, a prompt passed to the model contains the
  line \<open>- Points Earned:\<close> with the objective score, computed from the questions, the
  answers and the key before the call. For the test kind no score is computed: the prompt
  lists the answers and the key.
\<close>

theorem multiple_choice_score_in_prompt:
  assumes "get body ''assignment'' = Inr assignment" and "get body ''submission'' = Inr submission"
    and "get body ''assignmentType'' = Inr assignmentType"
    and "kind_is ''multiple-choice'' assignmentType submission"
    and "prompt \<in> set (snd (POST_evaluate rt env (Inr body)))"
  shows "\<exists>qs answers answerKey score shown.
           get assignment ''questions'' = Inr (JArr qs)
         \<and> get submission ''answers'' = Inr answers
         \<and> get assignment ''answerKey'' = Inr answerKey
         \<and> objective_score rt answers answerKey qs = Inr score
         \<and> ToString rt score = Inr shown
         \<and> contains prompt (''\<newline>- Points Earned: '' @ shown @ '' out of '')"
proof -
  have "build_evaluation_prompt rt assignment submission assignmentType = Inr prompt"
    using assms(1,2,3,5) by (rule evaluate_call_prompt)
  then have "multiple_choice_prompt rt assignment submission = Inr prompt"
    using assms(4) by (simp add: build_evaluation_prompt_def)
  then show ?thesis by (rule multiple_choice_prompt_score)
qed

lemma fl_half: "fl (1 / 2) = Fin (1 / 2)"
  by (simp add: fl_eval [where l = "-1"] round_half_even_def floor_numeral_div_rat Let_def)

lemma percent_5_10: "percent rt (JNum (Fin 5)) (JNum (Fin 10)) = Inr (Fin 50)"
  using fl_half by (simp add: number_eval)

lemmas sum_eval = js_add_def ToPrimitive_def prim_number_def is_string_def num_add_def fl_numeral
  fl_one strict_eq.simps toString_call_def num_str_def nat_str.simps digit_char_def lookup_def
  has_own_def

lemma multiple_choice_example_built:
  "build_evaluation_prompt rt (quiz_assignment 5 5) (quiz_submission ''multiple-choice'' ''C'')
     (JStr ''multiple-choice'') = Inr multiple_choice_example_prompt"
  by (simp add: build_evaluation_prompt_def kind_is_def multiple_choice_prompt_def
      quiz_assignment_def quiz_submission_def example_question_def as_array_def sum_eval percent_5_10
      sub_def lit_def rubric_text_def detail_text_def enumerate0_def upt_rec newline_def
      multiple_choice_example_prompt_def)

text \<open>
  A question numbered \<open>constructor\<close> reads what the values inherit: an array of answers and
  an object as key have different constructors, so the answer does not count; both find
  the same \<^verbatim>\<open>hasOwnProperty\<close>, and that answer counts.
\<close>

lemma inherited_members_compared:
  "objective_score (example_runtime []) (JArr []) (JObj [])
     [JObj [(''number'', JStr ''constructor''), (''points'', JNum (Fin 5))]] = Inr (JNum (Fin 0))"
  "objective_score (example_runtime []) (JArr []) (JObj [])
     [JObj [(''number'', JStr ''hasOwnProperty''), (''points'', JNum (Fin 5))]] = Inr (JNum (Fin 5))"
  by (simp_all add: objective_score_def answered_correctly_def sum_eval array_index_def
      example_runtime_def example_inherited_def)

lemma contains_set: "contains p x \<Longrightarrow> set x \<subseteq> set p"
proof (induction p)
  case Nil
  then show ?case by simp
next
  case (Cons c cs)
  show ?case
  proof (cases "startsWith (c # cs) x")
    case True
    then have "take (length x) (c # cs) = x" by (simp add: startsWith_def)
    then have "set x \<subseteq> set (c # cs)" by (metis set_take_subset)
    then show ?thesis .
  next
    case False
    then have "contains cs x" using Cons.prems by simp
    then show ?thesis using Cons.IH by auto
  qed
qed

lemma test_example_built:
  "build_evaluation_prompt rt (quiz_assignment 3 4) (quiz_submission ''test'' ''B'')
     (JStr ''test'') = Inr test_example_prompt"
  by (simp add: build_evaluation_prompt_def kind_is_def test_prompt_def answer_text_def
      quiz_assignment_def quiz_submission_def example_question_def as_array_def sum_eval
      sub_def lit_def rubric_text_def entry_text_def Object_entries_def own_properties_def
      is_index_key_def array_index_def is_digit_def digits_val_def digit_val_def js_or_def
      newline_def test_example_prompt_def)

lemma quiz_truthy: "truthy (quiz_assignment p1 p2)" "truthy (quiz_submission kind second)"
  by (simp_all add: quiz_assignment_def quiz_submission_def)

lemma recover_quiz:
  assumes "kind \<noteq> []"
    and "build_evaluation_prompt (example_runtime example_answer) (quiz_assignment p1 p2)
           (quiz_submission kind second) (JStr kind) = Inr prompt"
  shows "snd (POST_evaluate (example_runtime example_answer) (Some ''sk-test'')
                (Inr (quiz_body kind p1 p2 second))) = [prompt]"
proof -
  have "recover_evaluation (example_runtime example_answer) (Some ''sk-test'')
          (Inr (quiz_body kind p1 p2 second)) = Inr (quiz_assignment p1 p2, prompt, example_data)"
    using assms quiz_truthy(1) [of p1 p2] quiz_truthy(2) [of kind second]
    by (simp add: recover_evaluation_def quiz_body_def key_configured_def example_answer_extracted)
  then show ?thesis by (rule recover_prompt_sent)
qed

text \<open>
  Against C4 as stated: a test of two questions worth 3 and 4 points, both answered as the
  key says, has the objective score 7, and the prompt passed to the model has no 7 in it.
\<close>

theorem test_prompt_without_score_counterexample:
  "kind_is ''test'' (JStr ''test'') (quiz_submission ''test'' ''B'')
   \<and> objective_score (example_runtime example_answer)
        (JObj [(''1'', JStr ''A''), (''2'', JStr ''B'')]) (JObj [(''1'', JStr ''A''), (''2'', JStr ''B'')])
        [example_question 1 ''First?'' 3, example_question 2 ''Second?'' 4] = Inr (JNum (Fin 7))
   \<and> snd (POST_evaluate (example_runtime example_answer) (Some ''sk-test'')
             (Inr (quiz_body ''test'' 3 4 ''B''))) = [test_example_prompt]
   \<and> \<not> contains test_example_prompt ''7''"
proof -
  have k: "kind_is ''test'' (JStr ''test'') (quiz_submission ''test'' ''B'')"
    by (simp add: kind_is_def quiz_submission_def)
  have o: "objective_score (example_runtime example_answer)
        (JObj [(''1'', JStr ''A''), (''2'', JStr ''B'')]) (JObj [(''1'', JStr ''A''), (''2'', JStr ''B'')])
        [example_question 1 ''First?'' 3, example_question 2 ''Second?'' 4] = Inr (JNum (Fin 7))"
    by (simp add: objective_score_def answered_correctly_def example_question_def sum_eval)
  have s: "snd (POST_evaluate (example_runtime example_answer) (Some ''sk-test'')
             (Inr (quiz_body ''test'' 3 4 ''B''))) = [test_example_prompt]"
    by (rule recover_quiz) (simp_all add: test_example_built)
  have "CHR ''7'' \<notin> set test_example_prompt"
    by (simp add: test_example_prompt_def test_intro_def test_outro_def newline_def)
  then have c: "\<not> contains test_example_prompt ''7''"
    using contains_set [of test_example_prompt "''7''"] by auto
  show ?thesis by (intro conjI) (rule k o s c)+
qed

text \<open>
  The example of C4: two questions worth 5 points each, the key A and B, the answers A and
  C: the score 5 is in the prompt.
\<close>

theorem multiple_choice_score_in_prompt_witness:
  "kind_is ''multiple-choice'' (JStr ''multiple-choice'') (quiz_submission ''multiple-choice'' ''C'')
   \<and> snd (POST_evaluate (example_runtime example_answer) (Some ''sk-test'')
             (Inr (quiz_body ''multiple-choice'' 5 5 ''C''))) = [multiple_choice_example_prompt]
   \<and> objective_score (example_runtime example_answer)
        (JObj [(''1'', JStr ''A''), (''2'', JStr ''C'')]) (JObj [(''1'', JStr ''A''), (''2'', JStr ''B'')])
        [example_question 1 ''First?'' 5, example_question 2 ''Second?'' 5] = Inr (JNum (Fin 5))
   \<and> contains multiple_choice_example_prompt ''\<newline>- Points Earned: 5 out of ''"
proof -
  let ?rt = "example_runtime example_answer"
  let ?body = "quiz_body ''multiple-choice'' 5 5 ''C''"
  have k: "kind_is ''multiple-choice'' (JStr ''multiple-choice'') (quiz_submission ''multiple-choice'' ''C'')"
    by (simp add: kind_is_def quiz_submission_def)
  have s: "snd (POST_evaluate ?rt (Some ''sk-test'') (Inr ?body)) = [multiple_choice_example_prompt]"
    by (rule recover_quiz) (simp_all add: multiple_choice_example_built)
  have o: "objective_score ?rt
        (JObj [(''1'', JStr ''A''), (''2'', JStr ''C'')]) (JObj [(''1'', JStr ''A''), (''2'', JStr ''B'')])
        [example_question 1 ''First?'' 5, example_question 2 ''Second?'' 5] = Inr (JNum (Fin 5))"
    by (simp add: objective_score_def answered_correctly_def example_question_def sum_eval)
  have g: "get ?body ''assignment'' = Inr (quiz_assignment 5 5)"
    "get ?body ''submission'' = Inr (quiz_submission ''multiple-choice'' ''C'')"
    "get ?body ''assignmentType'' = Inr (JStr ''multiple-choice'')"
    by (simp_all add: quiz_body_def)
  have m: "multiple_choice_example_prompt \<in> set (snd (POST_evaluate ?rt (Some ''sk-test'') (Inr ?body)))"
    unfolding s by simp
  from multiple_choice_score_in_prompt [OF g k m]
  obtain qs answers answerKey score shown where
    r: "get (quiz_assignment 5 5) ''questions'' = Inr (JArr qs)"
       "get (quiz_submission ''multiple-choice'' ''C'') ''answers'' = Inr answers"
       "get (quiz_assignment 5 5) ''answerKey'' = Inr answerKey"
       "objective_score ?rt answers answerKey qs = Inr score"
       "ToString ?rt score = Inr shown"
       "contains multiple_choice_example_prompt (''\<newline>- Points Earned: '' @ shown @ '' out of '')"
    by blast
  have "qs = [example_question 1 ''First?'' 5, example_question 2 ''Second?'' 5]"
    "answers = JObj [(''1'', JStr ''A''), (''2'', JStr ''C'')]"
    "answerKey = JObj [(''1'', JStr ''A''), (''2'', JStr ''B'')]"
    using r(1-3) by (simp_all add: quiz_assignment_def quiz_submission_def)
  then have "score = JNum (Fin 5)" using r(4) o by simp
  then have "shown = ''5''" using r(5) by (simp add: sum_eval)
  then have c: "contains multiple_choice_example_prompt ''\<newline>- Points Earned: 5 out of ''"
    using r(6) by simp
  show ?thesis by (intro conjI) (rule k o s c)+
qed

subsection \<open>Evaluate: the scores of a successful evaluation\<close>

lemma reduce_scores_numbers:
  assumes "number_scores items rs"
  shows "reduce_scores rt (JNum a) items = Inr (JNum (foldl num_add a (map Fin rs)))"
  using assms
proof (induction items arbitrary: a rs)
  case Nil
  then show ?case by (simp add: number_scores_def)
next
  case (Cons item items)
  then obtain r rs' where rs: "rs = r # rs'" by (cases rs) (auto simp: number_scores_def)
  have s: "get item ''score'' = Inr (JNum (Fin r))" and rest: "number_scores items rs'"
    using Cons.prems rs by (auto simp: number_scores_def)
  have "js_or (JNum (Fin r)) (JNum (Fin 0)) = JNum (Fin r)" by (simp add: js_or_def)
  then show ?case
    using Cons.IH [OF rest] s rs by (simp add: js_add_numbers)
qed

lemma percent_numbers:
  "percent rt (JNum x) (JNum y) = Inr (Math_round (num_mul (num_div x y) (Fin 100)))"
  by (simp add: percent_def js_div_def ToNumber_def ToPrimitive_def prim_number_def)

lemma percent_integers:
  assumes "0 \<le> k" "k \<le> 10 ^ 12" "0 < m" "m < 2 ^ 53"
  shows "Math_round (num_mul (num_div (Fin (of_int k)) (Fin (of_int m))) (Fin 100))
           = Fin (of_int (spec_percentage (of_int k) (of_int m)))
       \<or> (half_way k m
          \<and> Math_round (num_mul (num_div (Fin (of_int k)) (Fin (of_int m))) (Fin 100))
              = Fin (of_int (spec_percentage (of_int k) (of_int m) - 1)))"
proof (cases "k = 0")
  case True
  have "num_mul (num_div (Fin 0) (Fin (of_int m))) (Fin 100) = Fin 0"
    using assms(3) by (simp add: num_div_def num_mul_def signed_zero_def)
  then show ?thesis using True by (simp add: spec_percentage_def)
next
  case False
  then have k: "0 < k" using assms(1) by simp
  obtain r where r: "num_mul (num_div (Fin (of_int k)) (Fin (of_int m))) (Fin 100) = Fin r"
      "0 < r" "\<bar>r - 100 * of_int k / of_int m\<bar> < 1 / (2 * of_int m)"
    using quotient_times_100 [OF k assms(2,3,4)] by blast
  have "Math_round (Fin r) = Fin (of_int \<lfloor>r + 1 / 2\<rfloor>)" using r(2) by simp
  then show ?thesis
    using round_near [OF assms(3) r(3)] r(1) by (auto simp: spec_percentage_def)
qed

text \<open>
  C1, as amended. When the evaluation succeeds, \<open>rubricScores\<close> is the array that the JSON
  recovered from the model's answer has under \<open>rubricAssessment\<close>, and \<open>maxScore\<close> is
  \<open>assignment.rubric.totalPoints\<close>. When the scores of the entries are finite numbers,
  \<open>totalScore\<close> is their sum, added from the left on doubles, and so their exact sum when
  they are integers whose absolute values sum to less than \<open>2^53\<close>. The percentage is
  \<open>Math.round((totalScore / maxScore) * 100)\<close> on doubles, the quotient rounded before the
  product. For an integer total from 0 to \<open>10^12\<close> and an integer \<open>maxScore\<close> from 1 below
  \<open>2^53\<close> that is the integer nearest to \<open>100 * totalScore / maxScore\<close>, halves upwards,
  unless this value lies exactly half-way between two integers: then it is that integer or
  the one below.
\<close>

theorem evaluate_scores_consistent:
  assumes "fst (POST_evaluate rt env (Inr body)) = Success b"
  shows "\<exists>assignment prompt answer data items tot mx p fb df.
           get body ''assignment'' = Inr assignment
         \<and> snd (POST_evaluate rt env (Inr body)) = [prompt]
         \<and> generateText rt prompt = Inr answer
         \<and> extract_json rt ''Could not parse evaluation data from AI response'' answer = Inr data
         \<and> get data ''rubricAssessment'' = Inr (JArr items)
         \<and> b = JObj [(''success'', JBool True),
                     (''results'', JObj [(''totalScore'', tot), (''maxScore'', mx), (''percentage'', JNum p),
                       (''feedback'', fb), (''detailedFeedback'', df), (''rubricScores'', JArr items)])]
         \<and> max_score assignment = Inr mx
         \<and> reduce_scores rt (JNum (Fin 0)) items = Inr tot
         \<and> (\<forall>rs. number_scores items rs \<longrightarrow> tot = JNum (foldl num_add (Fin 0) (map Fin rs)))
         \<and> (\<forall>ks. integer_scores items ks \<and> sum_list (map abs ks) < 2 ^ 53
                \<longrightarrow> tot = JNum (Fin (of_int (sum_list ks))))
         \<and> percent rt tot mx = Inr p
         \<and> (\<forall>x y. tot = JNum x \<and> mx = JNum y
                \<longrightarrow> p = Math_round (num_mul (num_div x y) (Fin 100)))
         \<and> (\<forall>k m. tot = JNum (Fin (of_int k)) \<and> mx = JNum (Fin (of_int m))
                  \<and> 0 \<le> k \<and> k \<le> 10 ^ 12 \<and> 0 < m \<and> m < 2 ^ 53
                \<longrightarrow> p = Fin (of_int (spec_percentage (of_int k) (of_int m)))
                  \<or> (half_way k m \<and> p = Fin (of_int (spec_percentage (of_int k) (of_int m) - 1))))"
proof -
  from evaluate_success_source [OF assms] obtain assignment prompt answer data res where
    s: "get body ''assignment'' = Inr assignment"
       "snd (POST_evaluate rt env (Inr body)) = [prompt]"
       "generateText rt prompt = Inr answer"
       "extract_json rt ''Could not parse evaluation data from AI response'' answer = Inr data"
       "results rt assignment data = Inr res"
       "b = JObj [(''success'', JBool True), (''results'', res)]"
    by blast
  from results_Inr [OF s(5)] obtain items tot mx p fb df where
    f: "res = JObj [(''totalScore'', tot), (''maxScore'', mx), (''percentage'', JNum p),
                    (''feedback'', fb), (''detailedFeedback'', df), (''rubricScores'', JArr items)]"
       "get data ''rubricAssessment'' = Inr (JArr items)"
       "reduce_scores rt (JNum (Fin 0)) items = Inr tot"
       "max_score assignment = Inr mx" "percent rt tot mx = Inr p"
    by blast
  have n: "tot = JNum (foldl num_add (Fin 0) (map Fin rs))" if "number_scores items rs" for rs
    using reduce_scores_numbers [OF that, of rt "Fin 0"] f(3) by simp
  have i: "tot = JNum (Fin (of_int (sum_list ks)))"
    if "integer_scores items ks \<and> sum_list (map abs ks) < 2 ^ 53" for ks
  proof -
    have "reduce_scores rt (JNum (Fin (of_int 0))) items = Inr (JNum (Fin (of_int (0 + sum_list ks))))"
      by (rule reduce_scores_integers) (use that in \<open>simp_all add: integer_scores_def\<close>)
    then show ?thesis using f(3) by simp
  qed
  have q: "p = Math_round (num_mul (num_div x y) (Fin 100))" if "tot = JNum x \<and> mx = JNum y" for x y
    using f(5) that by (simp add: percent_numbers)
  have h: "p = Fin (of_int (spec_percentage (of_int k) (of_int m)))
         \<or> (half_way k m \<and> p = Fin (of_int (spec_percentage (of_int k) (of_int m) - 1)))"
    if "tot = JNum (Fin (of_int k)) \<and> mx = JNum (Fin (of_int m))
        \<and> 0 \<le> k \<and> k \<le> 10 ^ 12 \<and> 0 < m \<and> m < 2 ^ 53" for k m
  proof -
    have "p = Math_round (num_mul (num_div (Fin (of_int k)) (Fin (of_int m))) (Fin 100))"
      using q that by blast
    then show ?thesis using percent_integers [of k m] that by auto
  qed
  show ?thesis
    using s(1-4) s(6) [unfolded f(1)] f(2-5) n i q h by blast
qed

lemma example_success:
  "fst (POST_evaluate (example_runtime example_answer) (Some ''sk-test'')
          (Inr (example_body ''project'' (JNum (Fin 50)))))
   = Success (JObj [(''success'', JBool True),
        (''results'', JObj [(''totalScore'', JNum (Fin 35)), (''maxScore'', JNum (Fin 50)),
           (''percentage'', JNum (Fin 70)), (''feedback'', JStr ''ok''),
           (''detailedFeedback'', JUndefined),
           (''rubricScores'', JArr [JObj [(''score'', JNum (Fin 20)), (''maxScore'', JNum (Fin 25))],
                                    JObj [(''score'', JNum (Fin 15)), (''maxScore'', JNum (Fin 25))]])])])"
proof -
  have "recover_evaluation (example_runtime example_answer) (Some ''sk-test'')
          (Inr (example_body ''project'' (JNum (Fin 50))))
        = Inr (example_assignment (JNum (Fin 50)), example_prompt ''project'', example_data)"
  proof (rule recover_example)
    show "''project'' \<noteq> []" by simp
    show "generateText (example_runtime example_answer) (example_prompt ''project'') = Inr example_answer"
      by (simp add: example_runtime_def)
    show "extract_json (example_runtime example_answer)
            ''Could not parse evaluation data from AI response'' example_answer = Inr example_data"
      by (rule example_answer_extracted)
  qed
  then show ?thesis by (simp add: POST_evaluate_def example_results)
qed

lemma example_calls:
  "snd (POST_evaluate (example_runtime example_answer) (Some ''sk-test'')
          (Inr (example_body ''project'' (JNum (Fin 50))))) = [example_prompt ''project'']"
proof -
  have "recover_evaluation (example_runtime example_answer) (Some ''sk-test'')
          (Inr (example_body ''project'' (JNum (Fin 50))))
        = Inr (example_assignment (JNum (Fin 50)), example_prompt ''project'', example_data)"
    by (rule recover_example_answer) simp
  then show ?thesis by (rule recover_prompt_sent)
qed

text \<open>
  The example of C1: scores 20 and 15 and a rubric worth 50 give the total 35 and the
  percentage 70.
\<close>

theorem evaluate_scores_consistent_witness:
  "fst (POST_evaluate (example_runtime example_answer) (Some ''sk-test'')
          (Inr (example_body ''project'' (JNum (Fin 50)))))
   = Success (JObj [(''success'', JBool True),
        (''results'', JObj [(''totalScore'', JNum (Fin 35)), (''maxScore'', JNum (Fin 50)),
           (''percentage'', JNum (Fin 70)), (''feedback'', JStr ''ok''),
           (''detailedFeedback'', JUndefined),
           (''rubricScores'', JArr [JObj [(''score'', JNum (Fin 20)), (''maxScore'', JNum (Fin 25))],
                                    JObj [(''score'', JNum (Fin 15)), (''maxScore'', JNum (Fin 25))]])])])
   \<and> snd (POST_evaluate (example_runtime example_answer) (Some ''sk-test'')
          (Inr (example_body ''project'' (JNum (Fin 50))))) = [example_prompt ''project'']
   \<and> generateText (example_runtime example_answer) (example_prompt ''project'') = Inr example_answer
   \<and> extract_json (example_runtime example_answer)
        ''Could not parse evaluation data from AI response'' example_answer = Inr example_data
   \<and> get example_data ''rubricAssessment''
       = Inr (JArr [JObj [(''score'', JNum (Fin 20)), (''maxScore'', JNum (Fin 25))],
                    JObj [(''score'', JNum (Fin 15)), (''maxScore'', JNum (Fin 25))]])
   \<and> integer_scores [JObj [(''score'', JNum (Fin 20)), (''maxScore'', JNum (Fin 25))],
                      JObj [(''score'', JNum (Fin 15)), (''maxScore'', JNum (Fin 25))]] [20, 15]
   \<and> sum_list (map abs [20, 15 :: int]) < 2 ^ 53
   \<and> sum_list [20, 15 :: int] = 35
   \<and> max_score (example_assignment (JNum (Fin 50))) = Inr (JNum (Fin 50))
   \<and> spec_percentage 35 50 = 70 \<and> \<not> half_way 35 50"
proof -
  let ?items = "[JObj [(''score'', JNum (Fin 20)), (''maxScore'', JNum (Fin 25))],
                 JObj [(''score'', JNum (Fin 15)), (''maxScore'', JNum (Fin 25))]]"
  have i: "integer_scores ?items [20, 15]" by (simp add: integer_scores_def)
  have g: "generateText (example_runtime example_answer) (example_prompt ''project'') = Inr example_answer"
    by simp
  have d: "get example_data ''rubricAssessment'' = Inr (JArr ?items)" by (simp add: example_data_def)
  have m: "max_score (example_assignment (JNum (Fin 50))) = Inr (JNum (Fin 50))"
    by (simp add: max_score_def example_assignment_def)
  have sp: "spec_percentage 35 50 = 70" by (simp add: spec_percentage_def floor_numeral_div_rat)
  have hw: "\<not> half_way 35 50" by (simp add: half_way_def)
  from evaluate_scores_consistent [OF example_success] obtain items tot mx p fb df where
    b: "JObj [(''success'', JBool True),
        (''results'', JObj [(''totalScore'', JNum (Fin 35)), (''maxScore'', JNum (Fin 50)),
           (''percentage'', JNum (Fin 70)), (''feedback'', JStr ''ok''),
           (''detailedFeedback'', JUndefined), (''rubricScores'', JArr ?items)])]
       = JObj [(''success'', JBool True),
           (''results'', JObj [(''totalScore'', tot), (''maxScore'', mx), (''percentage'', JNum p),
              (''feedback'', fb), (''detailedFeedback'', df), (''rubricScores'', JArr items)])]"
    and s: "\<forall>ks. integer_scores items ks \<and> sum_list (map abs ks) < 2 ^ 53
                \<longrightarrow> tot = JNum (Fin (of_int (sum_list ks)))"
    and h: "\<forall>k m. tot = JNum (Fin (of_int k)) \<and> mx = JNum (Fin (of_int m))
                  \<and> 0 \<le> k \<and> k \<le> 10 ^ 12 \<and> 0 < m \<and> m < 2 ^ 53
                \<longrightarrow> p = Fin (of_int (spec_percentage (of_int k) (of_int m)))
                  \<or> (half_way k m \<and> p = Fin (of_int (spec_percentage (of_int k) (of_int m) - 1)))"
    by blast
  from b have v: "items = ?items" "tot = JNum (Fin 35)" "mx = JNum (Fin 50)" "p = Fin 70" by simp_all
  have "tot = JNum (Fin (of_int (sum_list [20, 15])))"
    using s i unfolding v(1) by (intro s [rule_format, unfolded v(1)]) simp
  then have t: "sum_list [20, 15 :: int] = 35" by simp
  show ?thesis
    using example_success example_calls g example_answer_extracted [of example_answer
        "''Could not parse evaluation data from AI response''"] d i t m sp hw
    by simp
qed

lemma fl_23_40: "fl (23 / 40) = Fin (2589569785738035 / 4503599627370496)"
  by (simp add: fl_eval [where l = "-1"] round_half_even_def floor_numeral_div_rat Let_def)

lemma fl_57: "fl (2589569785738035 / 4503599627370496 * 100) = Fin (8092405580431359 / 140737488355328)"
  by (simp add: fl_eval [where l = "5"] round_half_even_def floor_numeral_div_rat Let_def)

lemma percent_23_40: "percent rt (JNum (Fin 23)) (JNum (Fin 40)) = Inr (Fin 57)"
  using fl_23_40 fl_57 by (simp add: number_eval)

text \<open>
  Against C1 as stated. For the single score 23 and a rubric worth 40 the double nearest to
  23/40 lies below it, its product with 100 rounds to a double below 57.5, and the
  percentage is 57, while \<open>100 * 23 / 40\<close> is 57.5 and rounds to 58. For the score \<open>abc\<close>
  the total is the string \<open>0abc\<close>, no sum of scores.
\<close>

theorem evaluate_percentage_counterexample:
  \<open>fst (POST_evaluate (example_runtime ''{"rubricAssessment":[{"score":23}]}'') (Some ''sk-test'')
          (Inr (example_body ''project'' (JNum (Fin 40)))))
   = Success (JObj [(''success'', JBool True),
        (''results'', JObj [(''totalScore'', JNum (Fin 23)), (''maxScore'', JNum (Fin 40)),
           (''percentage'', JNum (Fin 57)), (''feedback'', JStr ''Evaluation complete.''),
           (''detailedFeedback'', JUndefined),
           (''rubricScores'', JArr [JObj [(''score'', JNum (Fin 23))]])])])
   \<and> spec_percentage 23 40 = 58
   \<and> fst (POST_evaluate (example_runtime ''{"rubricAssessment":[{"score":"abc"}]}'') (Some ''sk-test'')
          (Inr (example_body ''project'' (JNum (Fin 40)))))
   = Success (JObj [(''success'', JBool True),
        (''results'', JObj [(''totalScore'', JStr ''0abc''), (''maxScore'', JNum (Fin 40)),
           (''percentage'', JNum NaN), (''feedback'', JStr ''Evaluation complete.''),
           (''detailedFeedback'', JUndefined),
           (''rubricScores'', JArr [JObj [(''score'', JStr ''abc'')]])])])\<close>
proof -
  let ?answer = \<open>''{"rubricAssessment":[{"score":23}]}''\<close>
  let ?data = "JObj [(''rubricAssessment'', JArr [JObj [(''score'', JNum (Fin 23))]])]"
  have "strip_fence (trim ?answer) = ?answer"
    by (rule unfence_bare) (simp add: object_text_def)
  moreover have "json_parse ?answer = Some ?data" by (simp add: json_eval)
  ultimately have "extract_json (example_runtime ?answer)
      ''Could not parse evaluation data from AI response'' ?answer = Inr ?data"
    by (intro extract_json_direct) simp
  then have "recover_evaluation (example_runtime ?answer) (Some ''sk-test'')
          (Inr (example_body ''project'' (JNum (Fin 40))))
        = Inr (example_assignment (JNum (Fin 40)), example_prompt ''project'', ?data)"
    by (intro recover_example) simp_all
  moreover have "results (example_runtime ?answer) (example_assignment (JNum (Fin 40))) ?data
     = Inr (JObj [(''totalScore'', JNum (Fin 23)), (''maxScore'', JNum (Fin 40)),
           (''percentage'', JNum (Fin 57)), (''feedback'', JStr ''Evaluation complete.''),
           (''detailedFeedback'', JUndefined),
           (''rubricScores'', JArr [JObj [(''score'', JNum (Fin 23))]])])"
    using percent_23_40
    by (simp add: results_def example_assignment_def as_array_def js_or_def js_add_numbers num_add_def)
  ultimately have 1: "fst (POST_evaluate (example_runtime ?answer) (Some ''sk-test'')
          (Inr (example_body ''project'' (JNum (Fin 40)))))
   = Success (JObj [(''success'', JBool True),
        (''results'', JObj [(''totalScore'', JNum (Fin 23)), (''maxScore'', JNum (Fin 40)),
           (''percentage'', JNum (Fin 57)), (''feedback'', JStr ''Evaluation complete.''),
           (''detailedFeedback'', JUndefined),
           (''rubricScores'', JArr [JObj [(''score'', JNum (Fin 23))]])])])"
    by (simp add: POST_evaluate_def)
  have 2: "spec_percentage 23 40 = 58"
    by (simp add: spec_percentage_def floor_numeral_div_rat)
  let ?answer' = \<open>''{"rubricAssessment":[{"score":"abc"}]}''\<close>
  let ?data' = "JObj [(''rubricAssessment'', JArr [JObj [(''score'', JStr ''abc'')]])]"
  have "strip_fence (trim ?answer') = ?answer'"
    by (rule unfence_bare) (simp add: object_text_def)
  moreover have "json_parse ?answer' = Some ?data'" by (simp add: json_eval)
  ultimately have "extract_json (example_runtime ?answer')
      ''Could not parse evaluation data from AI response'' ?answer' = Inr ?data'"
    by (intro extract_json_direct) simp
  then have "recover_evaluation (example_runtime ?answer') (Some ''sk-test'')
          (Inr (example_body ''project'' (JNum (Fin 40))))
        = Inr (example_assignment (JNum (Fin 40)), example_prompt ''project'', ?data')"
    by (intro recover_example) simp_all
  moreover have "results (example_runtime ?answer') (example_assignment (JNum (Fin 40))) ?data'
     = Inr (JObj [(''totalScore'', JStr ''0abc''), (''maxScore'', JNum (Fin 40)),
           (''percentage'', JNum NaN), (''feedback'', JStr ''Evaluation complete.''),
           (''detailedFeedback'', JUndefined),
           (''rubricScores'', JArr [JObj [(''score'', JStr ''abc'')]])])"
    by (simp add: results_def example_assignment_def as_array_def number_eval
        example_runtime_def)
  ultimately have 3: "fst (POST_evaluate (example_runtime ?answer') (Some ''sk-test'')
          (Inr (example_body ''project'' (JNum (Fin 40)))))
   = Success (JObj [(''success'', JBool True),
        (''results'', JObj [(''totalScore'', JStr ''0abc''), (''maxScore'', JNum (Fin 40)),
           (''percentage'', JNum NaN), (''feedback'', JStr ''Evaluation complete.''),
           (''detailedFeedback'', JUndefined),
           (''rubricScores'', JArr [JObj [(''score'', JStr ''abc'')]])])])"
    by (simp add: POST_evaluate_def)
  show ?thesis by (intro conjI) (rule 1 2 3)+
qed

end
